theory Spec2Isabelle
  imports Main "HOL-Library.Word"
begin

unbundle bit_operations_syntax

section \<open>SIMON-64 and SIMON-128 (simon.cpp)\<close>

text \<open>
  A shallow embedding of \<^verbatim>\<open>simon.cpp\<close>: the round helper \<open>f\<close>, the paired round
  \<open>R2\<close>, the forward and reverse transformations, the five subkey generation
  functions, and the keying and single-block operations of the classes
  \<^verbatim>\<open>SIMON64\<close> and \<^verbatim>\<open>SIMON128\<close>.  The C++ types \<^verbatim>\<open>byte\<close>, \<^verbatim>\<open>word32\<close> and
  \<^verbatim>\<open>word64\<close> are the 8-, 32- and 64-bit words of HOL-Library.Word; the function
  templates over the word type \<^verbatim>\<open>W\<close> are functions over \<open>'a word\<close>.
\<close>

type_synonym byte = "8 word"
type_synonym word32 = "32 word"
type_synonym word64 = "64 word"

subsection \<open>Word primitives\<close>

text \<open>
  Modelled from the spec: \<^verbatim>\<open>rotlConstant\<close> and \<^verbatim>\<open>rotrConstant\<close> are function templates
  of \<^verbatim>\<open>misc.h\<close>, which is not among the sources.  The specification defines them as
  the left and the right rotation by \<open>k\<close> bits within the word width.
\<close>

definition rotlConstant :: "nat \<Rightarrow> 'a::len word \<Rightarrow> 'a word" where
  "rotlConstant r v = word_rotl r v"

definition rotrConstant :: "nat \<Rightarrow> 'a::len word \<Rightarrow> 'a word" where
  "rotrConstant r v = word_rotr r v"

text \<open>\<^verbatim>\<open>return (rotlConstant<1>(v) & rotlConstant<8>(v)) ^ rotlConstant<2>(v);\<close>\<close>

definition f :: "'a::len word \<Rightarrow> 'a word" where
  "f v = (rotlConstant 1 v AND rotlConstant 8 v) XOR rotlConstant 2 v"

text \<open>
  \<^verbatim>\<open>R2(W& x, W& y, const W k, const W l)\<close> updates both references:
  \<^verbatim>\<open>y ^= f(x); y ^= k; x ^= f(y); x ^= l;\<close>.  The model returns the pair of the new
  values of the first and of the second reference argument, in this order.
\<close>

definition R2 :: "'a::len word \<Rightarrow> 'a word \<Rightarrow> 'a word \<Rightarrow> 'a word \<Rightarrow> 'a word \<times> 'a word" where
  "R2 x y k l =
     (let y1 = y XOR f x;
          y2 = y1 XOR k;
          x1 = x XOR f y2;
          x2 = x1 XOR l
      in (x2, y2))"

subsection \<open>Forward and reverse transformation\<close>

text \<open>
  The arrays \<^verbatim>\<open>c[2]\<close> and \<^verbatim>\<open>p[2]\<close> are pairs, the subkey array \<^verbatim>\<open>k[R]\<close> is a list and
  the template parameter \<^verbatim>\<open>R\<close> is a natural number.

  The loop of \<^verbatim>\<open>SIMON_Encrypt\<close> is
  \<^verbatim>\<open>for (size_t i = 0; static_cast<int>(i) < R-1; i += 2) R2(c[0], c[1], k[i], k[i + 1]);\<close>
  The comparison is made in \<^verbatim>\<open>unsigned int\<close>; with the round counts the file
  instantiates (42, 44, 68, 69, 72) neither \<^verbatim>\<open>R-1\<close> nor the cast of \<open>i\<close> wraps, so
  the guard is \<open>i < R - 1\<close> on natural numbers.
\<close>

function enc_loop :: "nat \<Rightarrow> 'a::len word list \<Rightarrow> nat \<Rightarrow> 'a word \<times> 'a word \<Rightarrow> 'a word \<times> 'a word" where
  "enc_loop R k i c =
     (if i < R - 1
      then enc_loop R k (i + 2) (R2 (fst c) (snd c) (k ! i) (k ! (i + 1)))
      else c)"
  by pat_completeness auto
termination
  by (relation "measure (\<lambda>(R, k, i, c). R - i)") auto

declare enc_loop.simps [simp del]

definition SIMON_Encrypt :: "nat \<Rightarrow> 'a::len word \<times> 'a word \<Rightarrow> 'a word list \<Rightarrow> 'a word \<times> 'a word" where
  "SIMON_Encrypt R p k =
     (let c = enc_loop R k 0 (fst p, snd p)
      in if odd R
         then (let c1 = snd c XOR f (fst c);
                   c1' = c1 XOR k ! (R - 1)
               in (c1', fst c))
         else c)"

text \<open>
  The loop of \<^verbatim>\<open>SIMON_Decrypt\<close> is
  \<^verbatim>\<open>for (size_t i = rounds - 2; static_cast<int>(i) >= 0; i -= 2) R2(p[1], p[0], k[i + 1], k[i]);\<close>
  The counter is an unsigned \<^verbatim>\<open>size_t\<close> that steps from 0 to \<open>2^n - 2\<close>, which the
  cast to \<^verbatim>\<open>int\<close> reads as \<open>-2\<close>: the model keeps the counter as the integer the
  guard tests.  The call binds the first reference of \<open>R2\<close> to \<^verbatim>\<open>p[1]\<close> and the
  second to \<^verbatim>\<open>p[0]\<close>.
\<close>

function dec_loop :: "'a::len word list \<Rightarrow> int \<Rightarrow> 'a word \<times> 'a word \<Rightarrow> 'a word \<times> 'a word" where
  "dec_loop k i p =
     (if 0 \<le> i
      then (let r = R2 (snd p) (fst p) (k ! nat (i + 1)) (k ! nat i)
            in dec_loop k (i - 2) (snd r, fst r))
      else p)"
  by pat_completeness auto
termination
  by (relation "measure (\<lambda>(k, i, p). nat (i + 2))") auto

declare dec_loop.simps [simp del]

definition SIMON_Decrypt :: "nat \<Rightarrow> 'a::len word \<times> 'a word \<Rightarrow> 'a word list \<Rightarrow> 'a word \<times> 'a word" where
  "SIMON_Decrypt R c k =
     (let p = (fst c, snd c)
      in if odd R
         then (let p' = (snd p, fst p);
                   p1 = snd p' XOR k ! (R - 1);
                   p1' = p1 XOR f (fst p')
               in dec_loop k (int (R - 1) - 2) (fst p', p1'))
         else dec_loop k (int R - 2) p)"

subsection \<open>Subkey generation\<close>

text \<open>
  All five subkey generation functions run a loop of the form
  \<^verbatim>\<open>for (size_t i = lo; i < hi; ++i) { key[i] = rhs; z >>= 1; }\<close>
  over the state \<open>(i, z, key)\<close>.  \<open>zstep\<close> is one iteration (the assignment to
  \<^verbatim>\<open>key[i]\<close>, the shift of \<open>z\<close> and the increment of \<open>i\<close>) and \<open>zloop\<close> is the loop;
  the right-hand side of the assignment is the parameter \<open>rhs\<close>, applied to the
  current \<open>z\<close>, the current array and \<open>i\<close>.  The array \<^verbatim>\<open>key\<close> is a list; the callers
  pass an array of as many words as the function's signature declares, so every
  index the functions use is within the list.
\<close>

type_synonym 'a zstate = "nat \<times> word64 \<times> 'a word list"

definition zstep :: "(word64 \<Rightarrow> 'a word list \<Rightarrow> nat \<Rightarrow> 'a word) \<Rightarrow> 'a::len zstate \<Rightarrow> 'a zstate" where
  "zstep rhs s =
     (case s of (i, z, key) \<Rightarrow> (i + 1, drop_bit 1 z, key[i := rhs z key i]))"

function zloop :: "nat \<Rightarrow> (word64 \<Rightarrow> 'a word list \<Rightarrow> nat \<Rightarrow> 'a word) \<Rightarrow> 'a::len zstate \<Rightarrow> 'a zstate" where
  "zloop hi rhs s = (if fst s < hi then zloop hi rhs (zstep rhs s) else s)"
  by pat_completeness auto
termination
  by (relation "measure (\<lambda>(hi, rhs, s). hi - fst s)") (auto simp: zstep_def split: prod.splits)

declare zloop.simps [simp del]

text \<open>
  The right-hand sides.  The argument \<open>b\<close> is the term that the loops compute as
  \<^verbatim>\<open>(z & 1)\<close>, a \<^verbatim>\<open>word64\<close>.  C++ \<^verbatim>\<open>^\<close> associates to the left.  In the two SIMON-64
  functions the other operands are \<^verbatim>\<open>word32\<close>: each is converted to \<^verbatim>\<open>word64\<close>
  (zero-extended) before the exclusive or, and the assignment to \<^verbatim>\<open>key[i]\<close>
  truncates the result to \<^verbatim>\<open>word32\<close>.

  \<^verbatim>\<open>c ^ (z & 1) ^ key[i - 3] ^ rotrConstant<3>(key[i - 1]) ^ rotrConstant<4>(key[i - 1])\<close>
\<close>

definition rhs_42R3K :: "word32 \<Rightarrow> word64 \<Rightarrow> word32 list \<Rightarrow> nat \<Rightarrow> word32" where
  "rhs_42R3K c b key i =
     ucast ((((ucast c XOR b) XOR ucast (key ! (i - 3)))
               XOR ucast (rotrConstant 3 (key ! (i - 1))))
               XOR (ucast (rotrConstant 4 (key ! (i - 1))) :: word64))"

definition SIMON64_ExpandKey_42R3K :: "word32 list \<Rightarrow> word32 list \<Rightarrow> word32 list" where
  "SIMON64_ExpandKey_42R3K key k =
     (let c = 0xfffffffc;
          z = 0x7369f885192c0ef5;
          key = key[0 := k ! 2];
          key = key[1 := k ! 1];
          key = key[2 := k ! 0]
      in snd (snd (zloop 42 (\<lambda>z. rhs_42R3K c (z AND 1)) (3, z, key))))"

text \<open>
  \<^verbatim>\<open>c ^ (z & 1) ^ key[i - 4] ^ rotrConstant<3>(key[i - 1]) ^ key[i - 3]\<close>
  \<^verbatim>\<open>  ^ rotrConstant<4>(key[i - 1]) ^ rotrConstant<1>(key[i - 3])\<close>
\<close>

definition rhs_44R4K :: "word32 \<Rightarrow> word64 \<Rightarrow> word32 list \<Rightarrow> nat \<Rightarrow> word32" where
  "rhs_44R4K c b key i =
     ucast ((((((ucast c XOR b) XOR ucast (key ! (i - 4)))
               XOR ucast (rotrConstant 3 (key ! (i - 1))))
               XOR ucast (key ! (i - 3)))
               XOR ucast (rotrConstant 4 (key ! (i - 1))))
               XOR (ucast (rotrConstant 1 (key ! (i - 3))) :: word64))"

definition SIMON64_ExpandKey_44R4K :: "word32 list \<Rightarrow> word32 list \<Rightarrow> word32 list" where
  "SIMON64_ExpandKey_44R4K key k =
     (let c = 0xfffffffc;
          z = 0xfc2ce51207a635db;
          key = key[0 := k ! 3];
          key = key[1 := k ! 2];
          key = key[2 := k ! 1];
          key = key[3 := k ! 0]
      in snd (snd (zloop 44 (\<lambda>z. rhs_44R4K c (z AND 1)) (4, z, key))))"

text \<open>
  In the three SIMON-128 functions every operand is a \<^verbatim>\<open>word64\<close>.  The statements
  after the loop are the loop's right-hand side written out, with \<^verbatim>\<open>^ 1\<close> or
  nothing in the place of \<^verbatim>\<open>^ (z & 1)\<close>; the model keeps them written out.

  \<^verbatim>\<open>c ^ (z & 1) ^ key[i - 2] ^ rotrConstant<3>(key[i - 1]) ^ rotrConstant<4>(key[i - 1])\<close>
\<close>

definition rhs_68R2K :: "word64 \<Rightarrow> word64 \<Rightarrow> word64 list \<Rightarrow> nat \<Rightarrow> word64" where
  "rhs_68R2K c b key i =
     (((c XOR b) XOR key ! (i - 2))
        XOR rotrConstant 3 (key ! (i - 1)))
        XOR rotrConstant 4 (key ! (i - 1))"

definition SIMON128_ExpandKey_68R2K :: "word64 list \<Rightarrow> word64 list \<Rightarrow> word64 list" where
  "SIMON128_ExpandKey_68R2K key k =
     (let c = 0xfffffffffffffffc;
          z = 0x7369f885192c0ef5;
          key = key[0 := k ! 1];
          key = key[1 := k ! 0];
          key = snd (snd (zloop 66 (\<lambda>z. rhs_68R2K c (z AND 1)) (2, z, key)));
          key = key[66 := (((c XOR 1) XOR key ! 64) XOR rotrConstant 3 (key ! 65))
                            XOR rotrConstant 4 (key ! 65)];
          key = key[67 := ((c XOR key ! 65) XOR rotrConstant 3 (key ! 66))
                            XOR rotrConstant 4 (key ! 66)]
      in key)"

text \<open>
  \<^verbatim>\<open>c ^ (z & 1) ^ key[i - 3] ^ rotrConstant<3>(key[i - 1]) ^ rotrConstant<4>(key[i - 1])\<close>
\<close>

definition rhs_69R3K :: "word64 \<Rightarrow> word64 \<Rightarrow> word64 list \<Rightarrow> nat \<Rightarrow> word64" where
  "rhs_69R3K c b key i =
     (((c XOR b) XOR key ! (i - 3))
        XOR rotrConstant 3 (key ! (i - 1)))
        XOR rotrConstant 4 (key ! (i - 1))"

definition SIMON128_ExpandKey_69R3K :: "word64 list \<Rightarrow> word64 list \<Rightarrow> word64 list" where
  "SIMON128_ExpandKey_69R3K key k =
     (let c = 0xfffffffffffffffc;
          z = 0xfc2ce51207a635db;
          key = key[0 := k ! 2];
          key = key[1 := k ! 1];
          key = key[2 := k ! 0];
          key = snd (snd (zloop 67 (\<lambda>z. rhs_69R3K c (z AND 1)) (3, z, key)));
          key = key[67 := ((c XOR key ! 64) XOR rotrConstant 3 (key ! 66))
                            XOR rotrConstant 4 (key ! 66)];
          key = key[68 := (((c XOR 1) XOR key ! 65) XOR rotrConstant 3 (key ! 67))
                            XOR rotrConstant 4 (key ! 67)]
      in key)"

text \<open>
  \<^verbatim>\<open>c ^ (z & 1) ^ key[i - 4] ^ rotrConstant<3>(key[i - 1]) ^ key[i - 3]\<close>
  \<^verbatim>\<open>  ^ rotrConstant<4>(key[i - 1]) ^ rotrConstant<1>(key[i - 3])\<close>
\<close>

definition rhs_72R4K :: "word64 \<Rightarrow> word64 \<Rightarrow> word64 list \<Rightarrow> nat \<Rightarrow> word64" where
  "rhs_72R4K c b key i =
     (((((c XOR b) XOR key ! (i - 4))
        XOR rotrConstant 3 (key ! (i - 1)))
        XOR key ! (i - 3))
        XOR rotrConstant 4 (key ! (i - 1)))
        XOR rotrConstant 1 (key ! (i - 3))"

definition SIMON128_ExpandKey_72R4K :: "word64 list \<Rightarrow> word64 list \<Rightarrow> word64 list" where
  "SIMON128_ExpandKey_72R4K key k =
     (let c = 0xfffffffffffffffc;
          z = 0xfdc94c3a046d678b;
          key = key[0 := k ! 3];
          key = key[1 := k ! 2];
          key = key[2 := k ! 1];
          key = key[3 := k ! 0];
          key = snd (snd (zloop 68 (\<lambda>z. rhs_72R4K c (z AND 1)) (4, z, key)));
          key = key[68 := ((((c XOR key ! 64) XOR rotrConstant 3 (key ! 67)) XOR key ! 65)
                            XOR rotrConstant 4 (key ! 67)) XOR rotrConstant 1 (key ! 65)];
          key = key[69 := (((((c XOR 1) XOR key ! 65) XOR rotrConstant 3 (key ! 68)) XOR key ! 66)
                            XOR rotrConstant 4 (key ! 68)) XOR rotrConstant 1 (key ! 66)];
          key = key[70 := ((((c XOR key ! 66) XOR rotrConstant 3 (key ! 69)) XOR key ! 67)
                            XOR rotrConstant 4 (key ! 69)) XOR rotrConstant 1 (key ! 67)];
          key = key[71 := ((((c XOR key ! 67) XOR rotrConstant 3 (key ! 70)) XOR key ! 68)
                            XOR rotrConstant 4 (key ! 70)) XOR rotrConstant 1 (key ! 68)]
      in key)"

subsection \<open>The cipher objects\<close>

text \<open>
  \<^verbatim>\<open>SIMON64::Base\<close> and \<^verbatim>\<open>SIMON128::Base\<close> hold the same four members, over
  \<^verbatim>\<open>word32\<close> and over \<^verbatim>\<open>word64\<close>: the workspace \<^verbatim>\<open>m_wspace\<close>, the subkeys
  \<^verbatim>\<open>m_rkeys\<close>, the number of key words \<^verbatim>\<open>m_kwords\<close> and the number of rounds
  \<^verbatim>\<open>m_rounds\<close>.  The two blocks are lists of words.
\<close>

record 'w Base =
  m_wspace :: "'w list"
  m_rkeys :: "'w list"
  m_kwords :: nat
  m_rounds :: nat

text \<open>
  \<open>InvalidKeyLength\<close> is the exception of the keying interface.  \<^verbatim>\<open>CRYPTOPP_ASSERT\<close>
  is a macro of \<^verbatim>\<open>trap.h\<close> that stops a debug build when its condition is false
  and is empty in a release build; the model keeps the debug build's behaviour,
  as the error \<open>AssertFailed\<close>, so that an assertion of the source that can fail is
  a branch of the model.
\<close>

datatype error = InvalidKeyLength | AssertFailed

text \<open>
  Modelled from the spec: \<^verbatim>\<open>SecBlock::New\<close> is a member of \<^verbatim>\<open>secblock.h\<close>, which is not
  among the sources.  The specification says that the object owns a round-key buffer
  of \<open>R\<close> words and a workspace of at most four words, and nothing about what a
  newly sized block holds: the model sizes the block to \<open>n\<close> words and leaves in it
  the words it held, cut or padded.
\<close>

definition New :: "'a::len word list \<Rightarrow> nat \<Rightarrow> 'a word list" where
  "New old n = take n old @ replicate (n - length old) 0"

text \<open>
  Modelled from the spec: \<^verbatim>\<open>GetUserKey\<close>, \<^verbatim>\<open>GetBlock\<close> and \<^verbatim>\<open>PutBlock\<close> are templates
  of \<^verbatim>\<open>misc.h\<close>, which is not among the sources.  The specification has the bytes of
  the user key and of a block read and written as big-endian words, the first byte
  contributing the highest-order bits.  \<open>be_word\<close> decodes a word from its bytes and
  \<open>be_bytes n\<close> encodes a word in \<open>n\<close> bytes.
\<close>

definition be_word :: "byte list \<Rightarrow> 'a::len word" where
  "be_word bs = foldl (\<lambda>w b. push_bit 8 w OR ucast b) 0 bs"

primrec be_bytes :: "nat \<Rightarrow> 'a::len word \<Rightarrow> byte list" where
  "be_bytes 0 w = []"
| "be_bytes (Suc n) w = ucast (drop_bit (8 * n) w) # be_bytes n w"

text \<open>
  \<^verbatim>\<open>GetUserKey(BIG_ENDIAN_ORDER, out, outlen, in, inlen)\<close> stores the first \<open>outlen\<close>
  words of the user key in \<^verbatim>\<open>out\<close>; \<open>U\<close> is the size of a word in bytes.
\<close>

definition GetUserKey :: "nat \<Rightarrow> 'a::len word list \<Rightarrow> nat \<Rightarrow> byte list \<Rightarrow> 'a word list" where
  "GetUserKey U out outlen inp =
     map (\<lambda>j. if j < outlen then be_word (take U (drop (U * j) inp)) else out ! j)
       [0..<length out]"

text \<open>
  \<^verbatim>\<open>SIMON64::Base::UncheckedSetKey(userKey, keyLength, params)\<close>.  The pointer
  \<^verbatim>\<open>userKey\<close> and the length \<^verbatim>\<open>keyLength\<close> are the list of the key's bytes;
  \<^verbatim>\<open>params\<close> is unused.  The function updates the object \<open>this\<close>.
\<close>

definition SIMON64_UncheckedSetKey :: "word32 Base \<Rightarrow> byte list \<Rightarrow> error + word32 Base" where
  "SIMON64_UncheckedSetKey this userKey =
     (let keyLength = length userKey
      in if \<not> (keyLength = 12 \<or> keyLength = 16) then Inl AssertFailed
         else
           (let kwords = keyLength div 4;
                wspace = New (m_wspace this) (max kwords 4);
                wspace = GetUserKey 4 wspace kwords userKey
            in if kwords = 3
               then Inr \<lparr>m_wspace = wspace,
                         m_rkeys = SIMON64_ExpandKey_42R3K (New (m_rkeys this) 42) wspace,
                         m_kwords = kwords, m_rounds = 42\<rparr>
               else if kwords = 4
               then Inr \<lparr>m_wspace = wspace,
                         m_rkeys = SIMON64_ExpandKey_44R4K (New (m_rkeys this) 44) wspace,
                         m_kwords = kwords, m_rounds = 44\<rparr>
               else Inl AssertFailed))"

text \<open>\<^verbatim>\<open>SIMON128::Base::UncheckedSetKey(userKey, keyLength, params)\<close>.\<close>

definition SIMON128_UncheckedSetKey :: "word64 Base \<Rightarrow> byte list \<Rightarrow> error + word64 Base" where
  "SIMON128_UncheckedSetKey this userKey =
     (let keyLength = length userKey
      in if \<not> (keyLength = 16 \<or> keyLength = 24 \<or> keyLength = 32) then Inl AssertFailed
         else
           (let kwords = keyLength div 8;
                wspace = New (m_wspace this) (max kwords 4);
                wspace = GetUserKey 8 wspace kwords userKey
            in if kwords = 2
               then Inr \<lparr>m_wspace = wspace,
                         m_rkeys = SIMON128_ExpandKey_68R2K (New (m_rkeys this) 68) wspace,
                         m_kwords = kwords, m_rounds = 68\<rparr>
               else if kwords = 3
               then Inr \<lparr>m_wspace = wspace,
                         m_rkeys = SIMON128_ExpandKey_69R3K (New (m_rkeys this) 69) wspace,
                         m_kwords = kwords, m_rounds = 69\<rparr>
               else if kwords = 4
               then Inr \<lparr>m_wspace = wspace,
                         m_rkeys = SIMON128_ExpandKey_72R4K (New (m_rkeys this) 72) wspace,
                         m_kwords = kwords, m_rounds = 72\<rparr>
               else Inl AssertFailed))"

text \<open>
  Modelled from the spec: \<^verbatim>\<open>SetKey\<close>, the checked entry of the keying interface
  (\<^verbatim>\<open>cryptlib.h\<close>), and the key lengths that \<^verbatim>\<open>simon.h\<close> declares valid are not among
  the sources.  The specification's \<open>Setup\<close> validates that the length of the user
  key is in \<open>{12, 16}\<close> for SIMON-64 and in \<open>{16, 24, 32}\<close> for SIMON-128, fails with
  \<open>InvalidKeyLength\<close> otherwise, and then decodes, expands and stores, which is
  \<^verbatim>\<open>UncheckedSetKey\<close>.
\<close>

definition SIMON64_SetKey :: "word32 Base \<Rightarrow> byte list \<Rightarrow> error + word32 Base" where
  "SIMON64_SetKey this userKey =
     (if length userKey \<in> {12, 16} then SIMON64_UncheckedSetKey this userKey
      else Inl InvalidKeyLength)"

definition SIMON128_SetKey :: "word64 Base \<Rightarrow> byte list \<Rightarrow> error + word64 Base" where
  "SIMON128_SetKey this userKey =
     (if length userKey \<in> {16, 24, 32} then SIMON128_UncheckedSetKey this userKey
      else Inl InvalidKeyLength)"

subsection \<open>Processing one block\<close>

text \<open>
  The block operations read and write the caller's buffers through the pointers
  \<^verbatim>\<open>inBlock\<close>, \<^verbatim>\<open>xorBlock\<close> (which may be null) and \<^verbatim>\<open>outBlock\<close>, and the buffers may
  be the same.  The memory is a store from addresses to bytes and a pointer is an
  address; the null pointer is \<open>None\<close>.
\<close>

type_synonym memory = "nat \<Rightarrow> byte"

primrec load_bytes :: "memory \<Rightarrow> nat \<Rightarrow> nat \<Rightarrow> byte list" where
  "load_bytes mem a 0 = []"
| "load_bytes mem a (Suc n) = mem a # load_bytes mem (Suc a) n"

definition store_bytes :: "memory \<Rightarrow> nat \<Rightarrow> byte list \<Rightarrow> memory" where
  "store_bytes mem a bs = (\<lambda>x. if a \<le> x \<and> x < a + length bs then bs ! (x - a) else mem x)"

text \<open>
  Modelled from the spec: \<^verbatim>\<open>GetBlock<W, BigEndian, false> iblk(inBlock);\<close>
  \<^verbatim>\<open>iblk(m_wspace[0])(m_wspace[1]);\<close> decodes the first word of the block into
  \<^verbatim>\<open>m_wspace[0]\<close> and the second into \<^verbatim>\<open>m_wspace[1]\<close>.
\<close>

definition GetBlock :: "nat \<Rightarrow> 'a::len word Base \<Rightarrow> memory \<Rightarrow> nat \<Rightarrow> 'a word Base" where
  "GetBlock U this mem inBlock =
     (let w = m_wspace this;
          w = w[0 := be_word (load_bytes mem inBlock U)];
          w = w[1 := be_word (load_bytes mem (inBlock + U) U)]
      in this\<lparr>m_wspace := w\<rparr>)"

text \<open>
  Modelled from the spec: \<^verbatim>\<open>PutBlock<W, BigEndian, false> oblk(xorBlock, outBlock);\<close>
  \<^verbatim>\<open>oblk(m_wspace[2])(m_wspace[3]);\<close> writes one word after the other: the bytes of
  the word, each combined by exclusive or with the byte of \<^verbatim>\<open>xorBlock\<close> at the
  same offset when \<^verbatim>\<open>xorBlock\<close> is not null.
\<close>

definition PutWord :: "nat \<Rightarrow> memory \<Rightarrow> nat option \<Rightarrow> nat \<Rightarrow> 'a::len word \<Rightarrow> memory" where
  "PutWord U mem xorBlock block v =
     (case xorBlock of
        None \<Rightarrow> store_bytes mem block (be_bytes U v)
      | Some x \<Rightarrow> store_bytes mem block (map2 (XOR) (be_bytes U v) (load_bytes mem x U)))"

definition PutBlock :: "nat \<Rightarrow> 'a::len word Base \<Rightarrow> memory \<Rightarrow> nat option \<Rightarrow> nat \<Rightarrow> memory" where
  "PutBlock U this mem xorBlock outBlock =
     (let mem = PutWord U mem xorBlock outBlock (m_wspace this ! 2);
          mem = PutWord U mem (map_option (\<lambda>x. x + U) xorBlock) (outBlock + U) (m_wspace this ! 3)
      in mem)"

text \<open>
  The \<^verbatim>\<open>switch (m_rounds)\<close> of the four block operations.  The calls pass
  \<^verbatim>\<open>m_wspace+2\<close> as the output array and \<^verbatim>\<open>m_wspace+0\<close> as the input array; the
  \<^verbatim>\<open>default\<close> branch is \<^verbatim>\<open>CRYPTOPP_ASSERT(0)\<close>.
\<close>

definition out_words :: "'a::len word Base \<Rightarrow> 'a word \<times> 'a word \<Rightarrow> 'a word Base" where
  "out_words this c = this\<lparr>m_wspace := (m_wspace this)[2 := fst c, 3 := snd c]\<rparr>"

definition in_words :: "'a::len word Base \<Rightarrow> 'a word \<times> 'a word" where
  "in_words this = (m_wspace this ! 0, m_wspace this ! 1)"

definition SIMON64_Enc_switch :: "word32 Base \<Rightarrow> error + word32 Base" where
  "SIMON64_Enc_switch this =
     (if m_rounds this = 42
      then Inr (out_words this (SIMON_Encrypt 42 (in_words this) (m_rkeys this)))
      else if m_rounds this = 44
      then Inr (out_words this (SIMON_Encrypt 44 (in_words this) (m_rkeys this)))
      else Inl AssertFailed)"

definition SIMON64_Dec_switch :: "word32 Base \<Rightarrow> error + word32 Base" where
  "SIMON64_Dec_switch this =
     (if m_rounds this = 42
      then Inr (out_words this (SIMON_Decrypt 42 (in_words this) (m_rkeys this)))
      else if m_rounds this = 44
      then Inr (out_words this (SIMON_Decrypt 44 (in_words this) (m_rkeys this)))
      else Inl AssertFailed)"

definition SIMON128_Enc_switch :: "word64 Base \<Rightarrow> error + word64 Base" where
  "SIMON128_Enc_switch this =
     (if m_rounds this = 68
      then Inr (out_words this (SIMON_Encrypt 68 (in_words this) (m_rkeys this)))
      else if m_rounds this = 69
      then Inr (out_words this (SIMON_Encrypt 69 (in_words this) (m_rkeys this)))
      else if m_rounds this = 72
      then Inr (out_words this (SIMON_Encrypt 72 (in_words this) (m_rkeys this)))
      else Inl AssertFailed)"

definition SIMON128_Dec_switch :: "word64 Base \<Rightarrow> error + word64 Base" where
  "SIMON128_Dec_switch this =
     (if m_rounds this = 68
      then Inr (out_words this (SIMON_Decrypt 68 (in_words this) (m_rkeys this)))
      else if m_rounds this = 69
      then Inr (out_words this (SIMON_Decrypt 69 (in_words this) (m_rkeys this)))
      else if m_rounds this = 72
      then Inr (out_words this (SIMON_Decrypt 72 (in_words this) (m_rkeys this)))
      else Inl AssertFailed)"

text \<open>
  The four \<^verbatim>\<open>ProcessAndXorBlock\<close> have the same three statements: read the block
  into the workspace, \<^verbatim>\<open>switch\<close>, write the block from the workspace.  They are
  \<^verbatim>\<open>const\<close> members that write the member \<^verbatim>\<open>m_wspace\<close>, so the model returns the
  object together with the memory.
\<close>

definition ProcessAndXorBlock ::
  "nat \<Rightarrow> ('a::len word Base \<Rightarrow> error + 'a word Base) \<Rightarrow> 'a word Base \<Rightarrow> memory \<Rightarrow> nat \<Rightarrow> nat option \<Rightarrow> nat
     \<Rightarrow> error + ('a word Base \<times> memory)" where
  "ProcessAndXorBlock U switch this mem inBlock xorBlock outBlock =
     (case switch (GetBlock U this mem inBlock) of
        Inl e \<Rightarrow> Inl e
      | Inr this' \<Rightarrow> Inr (this', PutBlock U this' mem xorBlock outBlock))"

definition SIMON64_Enc_ProcessAndXorBlock ::
  "word32 Base \<Rightarrow> memory \<Rightarrow> nat \<Rightarrow> nat option \<Rightarrow> nat \<Rightarrow> error + (word32 Base \<times> memory)" where
  "SIMON64_Enc_ProcessAndXorBlock = ProcessAndXorBlock 4 SIMON64_Enc_switch"

definition SIMON64_Dec_ProcessAndXorBlock ::
  "word32 Base \<Rightarrow> memory \<Rightarrow> nat \<Rightarrow> nat option \<Rightarrow> nat \<Rightarrow> error + (word32 Base \<times> memory)" where
  "SIMON64_Dec_ProcessAndXorBlock = ProcessAndXorBlock 4 SIMON64_Dec_switch"

definition SIMON128_Enc_ProcessAndXorBlock ::
  "word64 Base \<Rightarrow> memory \<Rightarrow> nat \<Rightarrow> nat option \<Rightarrow> nat \<Rightarrow> error + (word64 Base \<times> memory)" where
  "SIMON128_Enc_ProcessAndXorBlock = ProcessAndXorBlock 8 SIMON128_Enc_switch"

definition SIMON128_Dec_ProcessAndXorBlock ::
  "word64 Base \<Rightarrow> memory \<Rightarrow> nat \<Rightarrow> nat option \<Rightarrow> nat \<Rightarrow> error + (word64 Base \<times> memory)" where
  "SIMON128_Dec_ProcessAndXorBlock = ProcessAndXorBlock 8 SIMON128_Dec_switch"

subsection \<open>The published vectors\<close>

text \<open>
  The keys of the vectors that the specification lists, as the words that
  \<^verbatim>\<open>GetUserKey\<close> decodes, and the schedules that the subkey generation functions
  derive from them.
\<close>

paragraph \<open>SIMON-64 with a key of 96 bits\<close>

definition key_42R3K :: "word32 list" where
  "key_42R3K = [0x13121110, 0x0b0a0908, 0x03020100]"

definition subkeys_42R3K :: "word32 list" where
  "subkeys_42R3K =
    [0x03020100, 0x0b0a0908, 0x13121110, 0xffae9dce, 0xc4facc91, 0xc83d1bb6,
     0xb5d510ff, 0x36e2c07c, 0x72709043, 0x1343f40e, 0xea417e40, 0x9e635793,
     0xa6965478, 0x8b052e75, 0x884c5f47, 0xd0e4e598, 0xe3e80363, 0x35f020e1,
     0x1afa1c76, 0xbee71ed6, 0x763d4d2a, 0x0ca19efc, 0x0046cb1b, 0x59ce0704,
     0x3dfb4191, 0xcbd9e8cc, 0xf3f75b6d, 0xa34520b7, 0xba7ae12d, 0x60e056a6,
     0xf6a8d0f4, 0x943a89c1, 0xb4db50fe, 0x3481f018, 0xee1d573f, 0x4806d097,
     0x56feb8ff, 0x0e529452, 0xd6d654a4, 0x7eb6e8dd, 0x8990d838, 0xb082bddc]"

paragraph \<open>SIMON-64 with a key of 128 bits\<close>

definition key_44R4K :: "word32 list" where
  "key_44R4K = [0x1b1a1918, 0x13121110, 0x0b0a0908, 0x03020100]"

definition subkeys_44R4K :: "word32 list" where
  "subkeys_44R4K =
    [0x03020100, 0x0b0a0908, 0x13121110, 0x1b1a1918, 0x70a011c3, 0xb770ec49,
     0x57e3e835, 0xd397bc42, 0x94dcf81f, 0xbf4b5f18, 0x8e5dabb9, 0xdbf4a863,
     0xcd0c28fc, 0x5cb69911, 0x79f112a5, 0x77205863, 0x99880c12, 0x1ce97c58,
     0xc8ed2145, 0xb800dbb8, 0xe86a2756, 0x7c06d4dd, 0xab52df0a, 0x247f66a8,
     0x53587ca6, 0xd25c13f1, 0x4583b64b, 0x7d9c960d, 0xefbfc2f3, 0x89ed8513,
     0x308dfc4e, 0xbf1a2a36, 0xe1499d70, 0x4ce4d2ff, 0x32b7ebef, 0xc47505c1,
     0xd0e929e8, 0x8fe484b9, 0x42054bee, 0xaf77bae2, 0x18199c02, 0x719e3f1c,
     0x0c1cf793, 0x15df4696]"

paragraph \<open>SIMON-128 with a key of 128 bits\<close>

definition key_68R2K :: "word64 list" where
  "key_68R2K = [0x0f0e0d0c0b0a0908, 0x0706050403020100]"

definition subkeys_68R2K :: "word64 list" where
  "subkeys_68R2K =
    [0x0706050403020100, 0x0f0e0d0c0b0a0908, 0x79e8db8abd2c1f4c, 0xb852643a0882b4e9,
     0x2a984eb1a34b9d62, 0x205716f8d920816f, 0xc36822feca027aa4, 0x0bf36f77133f166c,
     0x7d568618a6a996f2, 0x9c73282a727f4220, 0x98e02e60b03e7568, 0xf91ed0ff90849426,
     0xd7ade68f44d95153, 0x416e4db973add4e4, 0xe469341c0269c97d, 0xdc5a0784cc398ea0,
     0x0dd82b6b28d29fbf, 0x32c37fa0e4510b50, 0xf7538c9ac5e2519c, 0x9ca3c905ef4c9b86,
     0xb2f236d5d900f4a9, 0xce2d534df60375a4, 0x982ab677475f52bb, 0xfb55511b95629525,
     0x870ab6ba735ad6b1, 0x2c3b535883c39d64, 0xbfb1961b14e16336, 0x6fc98705afee58cd,
     0x3b4bc174041db25f, 0x84ebbcc390d3ca5e, 0xfc67f2dfb0f5084c, 0x2b5ec24a623dc42f,
     0x1446394da56e9377, 0x476d9908f339008a, 0x0722ac03cbc5dc93, 0xe80419b74902192d,
     0x9b5d9151a98a41d9, 0xbd258d7799540af7, 0xe8d487d7dcca7fd4, 0x914daa0fe0fe1d0c,
     0x4c1617c92125a259, 0xd3f1f675a9370c9f, 0xb4a8c99f316fccff, 0x21d19c2043f3f633,
     0x1d701c26c2d172a6, 0x7c576199087b30b0, 0xeac079f38ca65846, 0x305c96c7beda61c1,
     0x2031ddb8ff6f4d9f, 0xd9a64f54d13e8356, 0x69608f58d7a48a3d, 0x5de3a9b5b94fa54e,
     0xb8fd3f0ac4e67b3c, 0xfe8c225bb262f267, 0xc73b869bf673f5aa, 0xf5e7151e8c344c75,
     0xd926ea9630c9c71e, 0x3cae591ad6de171b, 0xf2863bdb38801b71, 0xe2290223fdb9ea3f,
     0x0f1e744287134769, 0xacc4d4107ad54958, 0x6fb55c7e701b452a, 0xb836d5a7ac286a52,
     0xeccf146f00a33138, 0xd49c399343c9c09a, 0xe4eaaf3ba3196adf, 0x29b0397872648490]"

paragraph \<open>SIMON-128 with a key of 192 bits\<close>

definition key_69R3K :: "word64 list" where
  "key_69R3K = [0x1716151413121110, 0x0f0e0d0c0b0a0908, 0x0706050403020100]"

definition subkeys_69R3K :: "word64 list" where
  "subkeys_69R3K =
    [0x0706050403020100, 0x0f0e0d0c0b0a0908, 0x1716151413121110, 0xfb6a59083fae9dce,
     0xc02a1c4270facc90, 0xfcee08a785fd1bb7, 0x84c6876948b110fe, 0x07015b263298007d,
     0x7381c98edf786443, 0x22715d3f815665cf, 0xee979aadc5585565, 0x6f45bc8e44791444,
     0x16924e99526129ff, 0x02d3086885cd9d38, 0x10cd12fa236381cc, 0xaa78c2164bc49e27,
     0x72c463f4d7f6b8e3, 0xb64627440b1dc2a2, 0x282b9b7575e905a5, 0x7abc56d2d1eaf7f1,
     0x7145970c83c1ccde, 0xfee88f1bd252df0e, 0xb570303fe97a7e1c, 0xd3436df77f86db00,
     0x164b2b85b5a59623, 0x19221808fb6b6a46, 0x8e0af08910a2ff11, 0xc0952563f94419cd,
     0x82c6110d4428571e, 0x4981ac47939a8f7e, 0x12c2f5d08df11f29, 0xce4d9f15a2b69af5,
     0x535339ab8218ca73, 0xb2625e80ba6c753c, 0x6cd80ed241a22cfd, 0xd7fa476311c952df,
     0x4a1d4de516b635b7, 0x0ec58c4f4de076ec, 0x693151d1f354a490, 0xbe578d3dc8161491,
     0xdd15fac4d79c2acb, 0x50bd4edadb211c99, 0xfeb40ff4c13fd937, 0xa2d7c43afc57d383,
     0xe13535e1d491642d, 0x637e05e9191b1c0d, 0x27701b26b11afe3e, 0x3853c8c8965c6bf5,
     0x680ebf837d4aa831, 0xe30ed8d11698fe46, 0x75fd01a05a190424, 0x5e1130528c57e70b,
     0xc2d212219028832b, 0x4e759d398ee1638e, 0x8cc725d9da9a22bf, 0x34797b38c92d9aab,
     0x6442da12e4a9f68c, 0x39f4acc557ba7cfa, 0x2f275b93c95e8d07, 0x0cabbb265ee83000,
     0xc7549fec06760606, 0x64477e6f7608d25a, 0x1998dcf2b8b65893, 0x6a01f64285145760,
     0x9058a03cf104e23d, 0x8d69bd091679750a, 0x6c85a5ccc943116c, 0x24ffb1265b474efa,
     0x94464fc0475a17c7]"

paragraph \<open>SIMON-128 with a key of 256 bits\<close>

definition key_72R4K :: "word64 list" where
  "key_72R4K = [0x1f1e1d1c1b1a1918, 0x1716151413121110, 0x0f0e0d0c0b0a0908, 0x0706050403020100]"

definition subkeys_72R4K :: "word64 list" where
  "subkeys_72R4K =
    [0x0706050403020100, 0x0f0e0d0c0b0a0908, 0x1716151413121110, 0x1f1e1d1c1b1a1918,
     0x7262d303b0a011c3, 0xb5069a3da370ec49, 0x5588439d9423e835, 0xd45bd42be7d3bc42,
     0x95d63c18ff10381e, 0x8e52a3d392ae0b18, 0x8d2efc1b34995478, 0x6dee39824d6ed866,
     0x08311575366dfffd, 0xcb91edc3362f6aa1, 0x0c0305c3f518042e, 0x3f7809565e38a75e,
     0xfd8f7017ca8e416e, 0x0e058c1d43bdbf5e, 0xf2181e83078f633c, 0x12adbc8dde87232f,
     0x1808a9a2b12a4835, 0x886ffd8e453d7f85, 0x7f9783dee5405671, 0x41553647fa3bbf54,
     0x6790a0b8a992bb91, 0x8d475e5cb28981fa, 0x18eb4f6b40e06152, 0x0861e447248dacce,
     0x72018cf92b796a3f, 0x7f46602d1a3e9419, 0x53590cf77b30dfc4, 0xf3c1e06cfd629a16,
     0xfc5f013613dd3135, 0x1a02056b802faef6, 0x846783a9cf1bf814, 0xd6841671bdbc0cc6,
     0xa31b3abe8076f610, 0x3dfb6c156f4fe4b6, 0x623eba5ca89b0f90, 0xd1897281dd94af28,
     0xe8cba626810ac017, 0x12b0ba3ed4576710, 0x27f1928653f59243, 0x6459d3334ca51ba4,
     0xc61219ad9dd719bd, 0x3de57cab3bc05122, 0xea19af8c9239f4fe, 0x8d5f96bebb02d0ea,
     0xe3842f10f8d8e8e1, 0x7f473c0d0f8c33cd, 0xa60a99d3fa4cf6d9, 0xce47ab7e80a4e231,
     0xf9b3fd3cb773ef52, 0x851a56bcaa80029b, 0xb863f7519abd9a76, 0x085816bcb96d6fde,
     0x6055fc9debf7687e, 0xb4b845e0615d31a2, 0x363499ae8aa7c894, 0x627d313f6160c9f9,
     0xcb2611465fc12b50, 0x73bfcc5aff52d55f, 0x03c4cabf5497ed92, 0x537302d9f1650b97,
     0x61e094b881ff9a96, 0x2444879966513b02, 0x603d6e7f1810a8e3, 0xa79858eadd19bc25,
     0x46f321815d0b6faf, 0x1729f70e33c7e362, 0x8801448e713eb772, 0xc46d2a8df85ca638]"

text \<open>
  The key of the SIMON-64 vector with 96 key bits as bytes, a newly constructed
  object (empty blocks), the object that keying leaves, and a memory that holds the
  vector's plaintext block at the address 0 and zero everywhere else.
\<close>

definition userKey_42R3K :: "byte list" where
  "userKey_42R3K = [0x13, 0x12, 0x11, 0x10, 0x0b, 0x0a, 0x09, 0x08, 0x03, 0x02, 0x01, 0x00]"

definition fresh :: "'a::len word Base" where
  "fresh = \<lparr>m_wspace = [], m_rkeys = [], m_kwords = 0, m_rounds = 0\<rparr>"

definition keyed_42R3K :: "word32 Base" where
  "keyed_42R3K =
     \<lparr>m_wspace = [0x13121110, 0x0b0a0908, 0x03020100, 0], m_rkeys = subkeys_42R3K,
      m_kwords = 3, m_rounds = 42\<rparr>"

definition two_blocks :: memory where
  "two_blocks = store_bytes (\<lambda>a. 0) 0 [0x6f, 0x72, 0x20, 0x67, 0x6e, 0x69, 0x6c, 0x63]"

text \<open>
  One schedule of two calls of a block operation that run in parallel on one
  object, at the granularity of the three statements of \<^verbatim>\<open>ProcessAndXorBlock\<close>: the
  call A reads its block, the call B reads its block, and then A runs its \<^verbatim>\<open>switch\<close>
  and writes its output (with a null \<^verbatim>\<open>xorBlock\<close>).  The result is the object and
  the memory as the call A leaves them.
\<close>

definition interleaved ::
  "nat \<Rightarrow> ('a::len word Base \<Rightarrow> error + 'a word Base) \<Rightarrow> 'a word Base \<Rightarrow> memory \<Rightarrow> nat \<Rightarrow> nat \<Rightarrow> nat
     \<Rightarrow> error + ('a word Base \<times> memory)" where
  "interleaved U switch this mem inA outA inB =
     (let this = GetBlock U this mem inA;
          this = GetBlock U this mem inB
      in case switch this of
           Inl e \<Rightarrow> Inl e
         | Inr this' \<Rightarrow> Inr (this', PutBlock U this' mem None outA))"

text \<open>The \<open>n\<close> bytes at \<open>a\<close> of the memory that an operation returns.\<close>

definition written :: "error + ('w Base \<times> memory) \<Rightarrow> nat \<Rightarrow> nat \<Rightarrow> byte list" where
  "written r a n = (case r of Inl e \<Rightarrow> [] | Inr (this, mem) \<Rightarrow> load_bytes mem a n)"

subsection \<open>Notions used by the statements\<close>

text \<open>
  A right-hand side is \<open>local\<close> from \<open>lo\<close> on when, at every index \<open>i \<ge> lo\<close>, it reads
  the array below \<open>i\<close> only.
\<close>

definition local_from :: "nat \<Rightarrow> (word64 \<Rightarrow> 'a::len word list \<Rightarrow> nat \<Rightarrow> 'a word) \<Rightarrow> bool" where
  "local_from lo rhs \<longleftrightarrow>
     (\<forall>z key key' i. lo \<le> i \<longrightarrow> (\<forall>j<i. key ! j = key' ! j) \<longrightarrow> rhs z key i = rhs z key' i)"

text \<open>
  An object is keyed when its round count is one of its class, its subkey block
  holds that many words and its workspace holds four: the state that
  \<^verbatim>\<open>UncheckedSetKey\<close> leaves.
\<close>

definition keyed :: "nat set \<Rightarrow> 'a::len word Base \<Rightarrow> bool" where
  "keyed rounds this \<longleftrightarrow>
     m_rounds this \<in> rounds \<and> length (m_rkeys this) = m_rounds this \<and> length (m_wspace this) = 4"

text \<open>
  Two blocks of \<open>n\<close> bytes at the addresses \<open>a\<close> and \<open>b\<close> are apart when they share no
  byte; \<open>xor_apart\<close> says so of the block at \<^verbatim>\<open>xorBlock\<close> and the block at \<open>out\<close>, and
  holds when \<^verbatim>\<open>xorBlock\<close> is null.
\<close>

definition apart :: "nat \<Rightarrow> nat \<Rightarrow> nat \<Rightarrow> bool" where
  "apart n a b \<longleftrightarrow> a + n \<le> b \<or> b + n \<le> a"

definition xor_apart :: "nat \<Rightarrow> nat option \<Rightarrow> nat \<Rightarrow> bool" where
  "xor_apart n xorBlock out \<longleftrightarrow> (case xorBlock of None \<Rightarrow> True | Some x \<Rightarrow> apart n x out)"

text \<open>
  The four \<^verbatim>\<open>switch\<close> statements have one form: for a round count of the class they
  store the transformed input words as the output words, and otherwise they assert.
\<close>

definition is_switch ::
  "nat set \<Rightarrow> (nat \<Rightarrow> 'a::len word \<times> 'a word \<Rightarrow> 'a word list \<Rightarrow> 'a word \<times> 'a word)
     \<Rightarrow> ('a word Base \<Rightarrow> error + 'a word Base) \<Rightarrow> bool" where
  "is_switch rounds T switch \<longleftrightarrow>
     (\<forall>this. switch this =
        (if m_rounds this \<in> rounds
         then Inr (out_words this (T (m_rounds this) (in_words this) (m_rkeys this)))
         else Inl AssertFailed))"

section \<open>The paired round and its inverse\<close>

lemma R2_swapped: "R2 (snd (R2 x y k l)) (fst (R2 x y k l)) l k = (y, x)"
  by (simp add: R2_def Let_def ac_simps)

lemma odd_round_undone: "(((y XOR f x) XOR k) XOR k) XOR f x = (y :: 'a::len word)"
  by (simp add: ac_simps)

section \<open>Decryption inverts encryption\<close>

lemma dec_loop_neg: "i < 0 \<Longrightarrow> dec_loop k i p = p"
  by (subst dec_loop.simps) simp

lemma dec_loop_step:
  "dec_loop k (int i) (R2 (fst c) (snd c) (k ! i) (k ! (i + 1))) = dec_loop k (int i - 2) c"
proof -
  let ?r = "R2 (fst c) (snd c) (k ! i) (k ! (i + 1))"
  have "R2 (snd ?r) (fst ?r) (k ! nat (int i + 1)) (k ! nat (int i)) = (snd c, fst c)"
    by (simp add: nat_add_distrib R2_swapped)
  then show ?thesis
    by (subst dec_loop.simps) (simp add: Let_def)
qed

lemma dec_loop_enc_loop:
  "even i \<Longrightarrow> even E \<Longrightarrow> i \<le> E \<Longrightarrow> E = R \<or> E + 1 = R \<Longrightarrow>
   dec_loop k (int E - 2) (enc_loop R k i c) = dec_loop k (int i - 2) c"
proof (induction R k i c rule: enc_loop.induct)
  case (1 R k i c)
  show ?case
  proof (cases "i < R - 1")
    case True
    then have le: "i + 2 \<le> E"
      using "1.prems" by (auto elim!: evenE)
    have "dec_loop k (int E - 2) (enc_loop R k i c) =
          dec_loop k (int E - 2) (enc_loop R k (i + 2) (R2 (fst c) (snd c) (k ! i) (k ! (i + 1))))"
      using True by (subst enc_loop.simps) simp
    also have "\<dots> = dec_loop k (int (i + 2) - 2) (R2 (fst c) (snd c) (k ! i) (k ! (i + 1)))"
      using True "1.prems" le by (intro "1.IH") auto
    also have "\<dots> = dec_loop k (int i - 2) c"
      using dec_loop_step [of k i c] by simp
    finally show ?thesis .
  next
    case False
    then have "i = E"
      using "1.prems" by (auto elim!: evenE)
    moreover have "enc_loop R k i c = c"
      using False by (subst enc_loop.simps) simp
    ultimately show ?thesis by simp
  qed
qed

lemma SIMON_Decrypt_Encrypt: "0 < R \<Longrightarrow> SIMON_Decrypt R (SIMON_Encrypt R p k) k = p"
proof (cases "odd R")
  case False
  assume "0 < R"
  have "dec_loop k (int R - 2) (enc_loop R k 0 p) = dec_loop k (int 0 - 2) p"
    using False by (intro dec_loop_enc_loop) auto
  then show ?thesis
    using False by (simp add: SIMON_Decrypt_def SIMON_Encrypt_def dec_loop_neg)
next
  case True
  assume "0 < R"
  have "dec_loop k (int (R - 1) - 2) (enc_loop R k 0 p) = dec_loop k (int 0 - 2) p"
    using True \<open>0 < R\<close> by (intro dec_loop_enc_loop) auto
  then show ?thesis
    using True
    by (simp add: SIMON_Decrypt_def SIMON_Encrypt_def Let_def dec_loop_neg odd_round_undone)
qed

section \<open>The subkey loop\<close>

lemma zstep_triple [simp]:
  "zstep rhs (i, z, key) = (i + 1, drop_bit 1 z, key[i := rhs z key i])"
  by (simp add: zstep_def)

lemma fst_zstep: "fst (zstep rhs s) = fst s + 1"
  by (cases s) simp

lemma length_zstep: "length (snd (snd (zstep rhs s))) = length (snd (snd s))"
  by (cases s) simp

lemma fst_zstep_funpow: "fst ((zstep rhs ^^ n) s) = fst s + n"
  by (induction n) (simp_all add: fst_zstep)

lemma zloop_funpow: "zloop hi rhs s = (zstep rhs ^^ (hi - fst s)) s"
proof (induction hi rhs s rule: zloop.induct)
  case (1 hi rhs s)
  show ?case
  proof (cases "fst s < hi")
    case True
    then have "hi - fst s = Suc (hi - fst (zstep rhs s))"
      by (simp add: fst_zstep)
    then have "(zstep rhs ^^ (hi - fst s)) s = (zstep rhs ^^ (hi - fst (zstep rhs s))) (zstep rhs s)"
      by (simp add: funpow_swap1)
    with True "1.IH" show ?thesis
      by (subst zloop.simps) simp
  next
    case False
    then show ?thesis
      by (subst zloop.simps) simp
  qed
qed

lemma zloop_count:
  "lo \<le> hi \<Longrightarrow> (zstep rhs ^^ n) (lo, z, key) = zloop hi rhs (lo, z, key) \<longleftrightarrow> n = hi - lo"
proof
  assume "lo \<le> hi" and eq: "(zstep rhs ^^ n) (lo, z, key) = zloop hi rhs (lo, z, key)"
  have "fst ((zstep rhs ^^ n) (lo, z, key)) = fst ((zstep rhs ^^ (hi - lo)) (lo, z, key))"
    using eq by (simp add: zloop_funpow)
  then show "n = hi - lo"
    by (simp add: fst_zstep_funpow)
next
  assume "n = hi - lo"
  then show "(zstep rhs ^^ n) (lo, z, key) = zloop hi rhs (lo, z, key)"
    by (simp add: zloop_funpow)
qed

lemma length_zloop: "length (snd (snd (zloop hi rhs s))) = length (snd (snd s))"
proof (induction hi rhs s rule: zloop.induct)
  case (1 hi rhs s)
  then show ?case
    by (subst zloop.simps) (simp add: length_zstep)
qed

lemma zloop_nth_below: "j < fst s \<Longrightarrow> snd (snd (zloop hi rhs s)) ! j = snd (snd s) ! j"
proof (induction hi rhs s rule: zloop.induct)
  case (1 hi rhs s)
  obtain i z key where s: "s = (i, z, key)"
    by (cases s) auto
  show ?case
  proof (cases "fst s < hi")
    case True
    with "1.IH" "1.prems" have "snd (snd (zloop hi rhs (zstep rhs s))) ! j = snd (snd (zstep rhs s)) ! j"
      by (simp add: fst_zstep)
    with True "1.prems" show ?thesis
      by (subst zloop.simps) (simp add: s)
  next
    case False
    then show ?thesis
      by (subst zloop.simps) simp
  qed
qed

lemma zloop_nth_above: "hi \<le> j \<Longrightarrow> snd (snd (zloop hi rhs s)) ! j = snd (snd s) ! j"
proof (induction hi rhs s rule: zloop.induct)
  case (1 hi rhs s)
  obtain i z key where s: "s = (i, z, key)"
    by (cases s) auto
  show ?case
  proof (cases "fst s < hi")
    case True
    with "1.IH" "1.prems" have "snd (snd (zloop hi rhs (zstep rhs s))) ! j = snd (snd (zstep rhs s)) ! j"
      by simp
    with True "1.prems" show ?thesis
      by (subst zloop.simps) (simp add: s)
  next
    case False
    then show ?thesis
      by (subst zloop.simps) simp
  qed
qed

text \<open>The first \<open>n\<close> iterations of the body write below the index \<open>lo + n\<close>.\<close>

lemma funpow_nth_above:
  assumes "lo + n \<le> j"
  shows "snd (snd ((zstep rhs ^^ n) (lo, z, key))) ! j = key ! j"
proof -
  have "(zstep rhs ^^ n) (lo, z, key) = zloop (lo + n) rhs (lo, z, key)"
    by (simp add: zloop_funpow)
  then show ?thesis
    using assms zloop_nth_above [of "lo + n" j rhs "(lo, z, key)"] by simp
qed

lemma funpow_nth_below:
  assumes "j < fst s"
  shows "snd (snd ((zstep rhs ^^ n) s)) ! j = snd (snd s) ! j"
proof -
  have "(zstep rhs ^^ n) s = zloop (fst s + n) rhs s"
    by (simp add: zloop_funpow)
  then show ?thesis
    using assms zloop_nth_below [of j s "fst s + n" rhs] by simp
qed

lemma local_fromD:
  "local_from lo rhs \<Longrightarrow> lo \<le> i \<Longrightarrow> (\<And>j. j < i \<Longrightarrow> key ! j = key' ! j) \<Longrightarrow> rhs z key i = rhs z key' i"
  unfolding local_from_def by blast

lemma zloop_nth_in:
  assumes "local_from lo rhs" and "lo \<le> fst s" and "fst s \<le> j" and "j < hi"
    and "j < length (snd (snd s))"
  shows "snd (snd (zloop hi rhs s)) ! j =
         rhs (drop_bit (j - fst s) (fst (snd s))) (snd (snd (zloop hi rhs s))) j"
  using assms
proof (induction hi rhs s rule: zloop.induct)
  case (1 hi rhs s)
  obtain i z key where s: "s = (i, z, key)"
    by (cases s) auto
  have lt: "fst s < hi"
    using "1.prems" by simp
  have unfold: "zloop hi rhs s = zloop hi rhs (zstep rhs s)"
    using lt by (subst zloop.simps) simp
  let ?K = "snd (snd (zloop hi rhs (zstep rhs s)))"
  show ?case
  proof (cases "j = i")
    case True
    have "?K ! i = snd (snd (zstep rhs s)) ! i"
      by (rule zloop_nth_below) (simp add: s)
    also have "\<dots> = rhs z key i"
      using "1.prems" True by (simp add: s)
    also have "\<dots> = rhs z ?K i"
    proof (rule local_fromD [OF "1.prems"(1)])
      show "lo \<le> i" using "1.prems" by (simp add: s)
    next
      fix j' assume "j' < i"
      then have "?K ! j' = snd (snd (zstep rhs s)) ! j'"
        by (intro zloop_nth_below) (simp add: s)
      with \<open>j' < i\<close> show "key ! j' = ?K ! j'"
        by (simp add: s)
    qed
    finally have "?K ! i = rhs z ?K i" .
    then show ?thesis
      unfolding unfold by (simp add: True s)
  next
    case False
    then have "fst (zstep rhs s) \<le> j"
      using "1.prems" by (simp add: s)
    moreover have "j - fst (zstep rhs s) + 1 = j - fst s"
      using False "1.prems" by (simp add: s)
    then have "drop_bit (j - fst (zstep rhs s)) (fst (snd (zstep rhs s))) = drop_bit (j - fst s) (fst (snd s))"
      by (simp add: s drop_bit_drop_bit add.commute)
    ultimately show ?thesis
      using "1.IH" [OF lt "1.prems"(1)] "1.prems" unfolding unfold by (simp add: s)
  qed
qed

lemma zloop_determined:
  assumes "local_from lo rhs" and "lo \<le> i"
    and "length key = length key'" and "hi \<le> length key"
    and "\<And>j. j < i \<Longrightarrow> key ! j = key' ! j" and "j < hi"
  shows "snd (snd (zloop hi rhs (i, z, key))) ! j = snd (snd (zloop hi rhs (i, z, key'))) ! j"
  using \<open>j < hi\<close>
proof (induction j rule: less_induct)
  case (less j)
  let ?K = "snd (snd (zloop hi rhs (i, z, key)))"
  let ?K' = "snd (snd (zloop hi rhs (i, z, key')))"
  show ?case
  proof (cases "j < i")
    case True
    then show ?thesis
      using assms(5) by (simp add: zloop_nth_below)
  next
    case False
    have "?K ! j = rhs (drop_bit (j - i) z) ?K j"
      using zloop_nth_in [OF assms(1), of "(i, z, key)" j hi] assms False less.prems by simp
    also have "\<dots> = rhs (drop_bit (j - i) z) ?K' j"
    proof (rule local_fromD [OF assms(1)])
      show "lo \<le> j" using False assms(2) by simp
    next
      fix j' assume "j' < j"
      then show "?K ! j' = ?K' ! j'"
        using less.IH less.prems by simp
    qed
    also have "\<dots> = ?K' ! j"
      using zloop_nth_in [OF assms(1), of "(i, z, key')" j hi] assms False less.prems by simp
    finally show ?thesis .
  qed
qed

section \<open>The subkey generation functions\<close>

lemma local_fromI:
  "(\<And>z key key' i. lo \<le> i \<Longrightarrow> \<forall>j<i. key ! j = key' ! j \<Longrightarrow> rhs z key i = rhs z key' i)
   \<Longrightarrow> local_from lo rhs"
  unfolding local_from_def by blast

lemma update_determined:
  assumes "local_from lo rhs" and "lo \<le> n" and "\<And>j. j < n \<Longrightarrow> K ! j = K' ! j"
    and "n < length K" and "n < length K'" and "j < Suc n"
  shows "K[n := rhs z K n] ! j = K'[n := rhs z K' n] ! j"
proof (cases "j = n")
  case True
  have "rhs z K n = rhs z K' n"
    using assms(1,2,3) by (intro local_fromD [of lo rhs]) simp_all
  with True assms show ?thesis by simp
next
  case False
  with assms show ?thesis by simp
qed

subsection \<open>\<^verbatim>\<open>SIMON64_ExpandKey_42R3K\<close>\<close>

lemma local_42R3K: "local_from 3 (\<lambda>z. rhs_42R3K c (b z))"
  by (rule local_fromI) (simp add: rhs_42R3K_def)

lemma unfold_42R3K:
  "SIMON64_ExpandKey_42R3K key k =
     snd (snd (zloop 42 (\<lambda>z. rhs_42R3K 0xfffffffc (z AND 1)) (3, 0x7369f885192c0ef5, key[0 := k ! 2, 1 := k ! 1, 2 := k ! 0])))"
  by (simp add: SIMON64_ExpandKey_42R3K_def rhs_42R3K_def Let_def)

lemma length_42R3K: "length (SIMON64_ExpandKey_42R3K key k) = length key"
  by (simp add: unfold_42R3K Let_def length_zloop)

lemma seeds_42R3K:
  assumes "length key = 42" and "i < 3"
  shows "SIMON64_ExpandKey_42R3K key k ! i = k ! (2 - i)"
proof -
  have "i = 0 \<or> i = 1 \<or> i = 2"
    using assms by auto
  then show ?thesis
    using assms by (auto simp add: unfold_42R3K Let_def length_zloop zloop_nth_below)
qed

lemma loop_42R3K:
  assumes "length key = 42" and "3 \<le> i" and "i < 42"
  shows "SIMON64_ExpandKey_42R3K key k ! i =
         rhs_42R3K 0xfffffffc (drop_bit (i - 3) 0x7369f885192c0ef5 AND 1) (SIMON64_ExpandKey_42R3K key k) i"
proof -
  let ?s = "(3, 0x7369f885192c0ef5, key[0 := k ! 2, 1 := k ! 1, 2 := k ! 0]) :: 32 zstate"
  let ?rhs = "\<lambda>z. rhs_42R3K 0xfffffffc (z AND 1)"
  let ?L = "snd (snd (zloop 42 ?rhs ?s))"
  have "?L ! i = ?rhs (drop_bit (i - fst ?s) (fst (snd ?s))) ?L i"
    using assms by (intro zloop_nth_in [OF local_42R3K]) simp_all
  then show ?thesis
    using assms by (simp add: unfold_42R3K Let_def length_zloop rhs_42R3K_def)
qed

lemma pure_42R3K:
  assumes "length key = 42" and "length key' = 42"
  shows "SIMON64_ExpandKey_42R3K key k = SIMON64_ExpandKey_42R3K key' k"
proof -
  let ?rhs = "\<lambda>z. rhs_42R3K 0xfffffffc (z AND 1)"
  let ?K0 = "snd (snd (zloop 42 ?rhs (3, 0x7369f885192c0ef5, key[0 := k ! 2, 1 := k ! 1, 2 := k ! 0])))"
  let ?K0' = "snd (snd (zloop 42 ?rhs (3, 0x7369f885192c0ef5, key'[0 := k ! 2, 1 := k ! 1, 2 := k ! 0])))"
  have len: "length ?K0 = 42" "length ?K0' = 42"
    using assms by (simp_all add: length_zloop)
  have a0: "?K0 ! j = ?K0' ! j" if "j < 42" for j
  proof (rule zloop_determined [OF local_42R3K])
    fix j' :: nat assume "j' < 3"
    then have "j' = 0 \<or> j' = 1 \<or> j' = 2" by auto
    then show "key[0 := k ! 2, 1 := k ! 1, 2 := k ! 0] ! j' = key'[0 := k ! 2, 1 := k ! 1, 2 := k ! 0] ! j'"
      using assms by auto
  qed (use assms that in simp_all)
  have "?K0 = ?K0'"
    using a0 len by (intro nth_equalityI) simp_all
  then show ?thesis
    by (simp add: unfold_42R3K Let_def)
qed

subsection \<open>\<^verbatim>\<open>SIMON64_ExpandKey_44R4K\<close>\<close>

lemma local_44R4K: "local_from 4 (\<lambda>z. rhs_44R4K c (b z))"
  by (rule local_fromI) (simp add: rhs_44R4K_def)

lemma unfold_44R4K:
  "SIMON64_ExpandKey_44R4K key k =
     snd (snd (zloop 44 (\<lambda>z. rhs_44R4K 0xfffffffc (z AND 1)) (4, 0xfc2ce51207a635db, key[0 := k ! 3, 1 := k ! 2, 2 := k ! 1, 3 := k ! 0])))"
  by (simp add: SIMON64_ExpandKey_44R4K_def rhs_44R4K_def Let_def)

lemma length_44R4K: "length (SIMON64_ExpandKey_44R4K key k) = length key"
  by (simp add: unfold_44R4K Let_def length_zloop)

lemma seeds_44R4K:
  assumes "length key = 44" and "i < 4"
  shows "SIMON64_ExpandKey_44R4K key k ! i = k ! (3 - i)"
proof -
  have "i = 0 \<or> i = 1 \<or> i = 2 \<or> i = 3"
    using assms by auto
  then show ?thesis
    using assms by (auto simp add: unfold_44R4K Let_def length_zloop zloop_nth_below)
qed

lemma loop_44R4K:
  assumes "length key = 44" and "4 \<le> i" and "i < 44"
  shows "SIMON64_ExpandKey_44R4K key k ! i =
         rhs_44R4K 0xfffffffc (drop_bit (i - 4) 0xfc2ce51207a635db AND 1) (SIMON64_ExpandKey_44R4K key k) i"
proof -
  let ?s = "(4, 0xfc2ce51207a635db, key[0 := k ! 3, 1 := k ! 2, 2 := k ! 1, 3 := k ! 0]) :: 32 zstate"
  let ?rhs = "\<lambda>z. rhs_44R4K 0xfffffffc (z AND 1)"
  let ?L = "snd (snd (zloop 44 ?rhs ?s))"
  have "?L ! i = ?rhs (drop_bit (i - fst ?s) (fst (snd ?s))) ?L i"
    using assms by (intro zloop_nth_in [OF local_44R4K]) simp_all
  then show ?thesis
    using assms by (simp add: unfold_44R4K Let_def length_zloop rhs_44R4K_def)
qed

lemma pure_44R4K:
  assumes "length key = 44" and "length key' = 44"
  shows "SIMON64_ExpandKey_44R4K key k = SIMON64_ExpandKey_44R4K key' k"
proof -
  let ?rhs = "\<lambda>z. rhs_44R4K 0xfffffffc (z AND 1)"
  let ?K0 = "snd (snd (zloop 44 ?rhs (4, 0xfc2ce51207a635db, key[0 := k ! 3, 1 := k ! 2, 2 := k ! 1, 3 := k ! 0])))"
  let ?K0' = "snd (snd (zloop 44 ?rhs (4, 0xfc2ce51207a635db, key'[0 := k ! 3, 1 := k ! 2, 2 := k ! 1, 3 := k ! 0])))"
  have len: "length ?K0 = 44" "length ?K0' = 44"
    using assms by (simp_all add: length_zloop)
  have a0: "?K0 ! j = ?K0' ! j" if "j < 44" for j
  proof (rule zloop_determined [OF local_44R4K])
    fix j' :: nat assume "j' < 4"
    then have "j' = 0 \<or> j' = 1 \<or> j' = 2 \<or> j' = 3" by auto
    then show "key[0 := k ! 3, 1 := k ! 2, 2 := k ! 1, 3 := k ! 0] ! j' = key'[0 := k ! 3, 1 := k ! 2, 2 := k ! 1, 3 := k ! 0] ! j'"
      using assms by auto
  qed (use assms that in simp_all)
  have "?K0 = ?K0'"
    using a0 len by (intro nth_equalityI) simp_all
  then show ?thesis
    by (simp add: unfold_44R4K Let_def)
qed

subsection \<open>\<^verbatim>\<open>SIMON128_ExpandKey_68R2K\<close>\<close>

lemma local_68R2K: "local_from 2 (\<lambda>z. rhs_68R2K c (b z))"
  by (rule local_fromI) (simp add: rhs_68R2K_def)

lemma unfold_68R2K:
  "SIMON128_ExpandKey_68R2K key k =
     (let L = snd (snd (zloop 66 (\<lambda>z. rhs_68R2K 0xfffffffffffffffc (z AND 1)) (2, 0x7369f885192c0ef5, key[0 := k ! 1, 1 := k ! 0])));
          K1 = L[66 := rhs_68R2K 0xfffffffffffffffc 1 L 66];
          K2 = K1[67 := rhs_68R2K 0xfffffffffffffffc 0 K1 67]
      in K2)"
  by (simp add: SIMON128_ExpandKey_68R2K_def rhs_68R2K_def Let_def)

lemma length_68R2K: "length (SIMON128_ExpandKey_68R2K key k) = length key"
  by (simp add: unfold_68R2K Let_def length_zloop)

lemma seeds_68R2K:
  assumes "length key = 68" and "i < 2"
  shows "SIMON128_ExpandKey_68R2K key k ! i = k ! (1 - i)"
proof -
  have "i = 0 \<or> i = 1"
    using assms by auto
  then show ?thesis
    using assms by (auto simp add: unfold_68R2K Let_def length_zloop zloop_nth_below)
qed

lemma loop_68R2K:
  assumes "length key = 68" and "2 \<le> i" and "i < 66"
  shows "SIMON128_ExpandKey_68R2K key k ! i =
         rhs_68R2K 0xfffffffffffffffc (drop_bit (i - 2) 0x7369f885192c0ef5 AND 1) (SIMON128_ExpandKey_68R2K key k) i"
proof -
  let ?s = "(2, 0x7369f885192c0ef5, key[0 := k ! 1, 1 := k ! 0]) :: 64 zstate"
  let ?rhs = "\<lambda>z. rhs_68R2K 0xfffffffffffffffc (z AND 1)"
  let ?L = "snd (snd (zloop 66 ?rhs ?s))"
  have "?L ! i = ?rhs (drop_bit (i - fst ?s) (fst (snd ?s))) ?L i"
    using assms by (intro zloop_nth_in [OF local_68R2K]) simp_all
  then show ?thesis
    using assms by (simp add: unfold_68R2K Let_def length_zloop rhs_68R2K_def)
qed

lemma tail_68R2K:
  assumes "length key = 68"
  shows "SIMON128_ExpandKey_68R2K key k ! 66 = rhs_68R2K 0xfffffffffffffffc 1 (SIMON128_ExpandKey_68R2K key k) 66"
    and "SIMON128_ExpandKey_68R2K key k ! 67 = rhs_68R2K 0xfffffffffffffffc 0 (SIMON128_ExpandKey_68R2K key k) 67"
  using assms by (simp_all add: unfold_68R2K Let_def length_zloop rhs_68R2K_def)

lemma pure_68R2K:
  assumes "length key = 68" and "length key' = 68"
  shows "SIMON128_ExpandKey_68R2K key k = SIMON128_ExpandKey_68R2K key' k"
proof -
  let ?rhs = "\<lambda>z. rhs_68R2K 0xfffffffffffffffc (z AND 1)"
  let ?K0 = "snd (snd (zloop 66 ?rhs (2, 0x7369f885192c0ef5, key[0 := k ! 1, 1 := k ! 0])))"
  let ?K0' = "snd (snd (zloop 66 ?rhs (2, 0x7369f885192c0ef5, key'[0 := k ! 1, 1 := k ! 0])))"
  have len: "length ?K0 = 68" "length ?K0' = 68"
    using assms by (simp_all add: length_zloop)
  have a0: "?K0 ! j = ?K0' ! j" if "j < 66" for j
  proof (rule zloop_determined [OF local_68R2K])
    fix j' :: nat assume "j' < 2"
    then have "j' = 0 \<or> j' = 1" by auto
    then show "key[0 := k ! 1, 1 := k ! 0] ! j' = key'[0 := k ! 1, 1 := k ! 0] ! j'"
      using assms by auto
  qed (use assms that in simp_all)
  let ?K1 = "?K0[66 := rhs_68R2K 0xfffffffffffffffc 1 ?K0 66]"
  let ?K1' = "?K0'[66 := rhs_68R2K 0xfffffffffffffffc 1 ?K0' 66]"
  have a1: "?K1 ! j = ?K1' ! j" if "j < 67" for j
    using update_determined [where rhs = "\<lambda>z. rhs_68R2K 0xfffffffffffffffc 1" and lo = 2 and n = 66 and K = "?K0" and K' = "?K0'" and j = j and z = 0,
        OF local_68R2K [of "0xfffffffffffffffc" "\<lambda>z. 1"]] a0 len that
    by simp
  let ?K2 = "?K1[67 := rhs_68R2K 0xfffffffffffffffc 0 ?K1 67]"
  let ?K2' = "?K1'[67 := rhs_68R2K 0xfffffffffffffffc 0 ?K1' 67]"
  have a2: "?K2 ! j = ?K2' ! j" if "j < 68" for j
    using update_determined [where rhs = "\<lambda>z. rhs_68R2K 0xfffffffffffffffc 0" and lo = 2 and n = 67 and K = "?K1" and K' = "?K1'" and j = j and z = 0,
        OF local_68R2K [of "0xfffffffffffffffc" "\<lambda>z. 0"]] a1 len that
    by simp
  have "?K2 = ?K2'"
    using a2 len by (intro nth_equalityI) simp_all
  then show ?thesis
    by (simp add: unfold_68R2K Let_def)
qed

subsection \<open>\<^verbatim>\<open>SIMON128_ExpandKey_69R3K\<close>\<close>

lemma local_69R3K: "local_from 3 (\<lambda>z. rhs_69R3K c (b z))"
  by (rule local_fromI) (simp add: rhs_69R3K_def)

lemma unfold_69R3K:
  "SIMON128_ExpandKey_69R3K key k =
     (let L = snd (snd (zloop 67 (\<lambda>z. rhs_69R3K 0xfffffffffffffffc (z AND 1)) (3, 0xfc2ce51207a635db, key[0 := k ! 2, 1 := k ! 1, 2 := k ! 0])));
          K1 = L[67 := rhs_69R3K 0xfffffffffffffffc 0 L 67];
          K2 = K1[68 := rhs_69R3K 0xfffffffffffffffc 1 K1 68]
      in K2)"
  by (simp add: SIMON128_ExpandKey_69R3K_def rhs_69R3K_def Let_def)

lemma length_69R3K: "length (SIMON128_ExpandKey_69R3K key k) = length key"
  by (simp add: unfold_69R3K Let_def length_zloop)

lemma seeds_69R3K:
  assumes "length key = 69" and "i < 3"
  shows "SIMON128_ExpandKey_69R3K key k ! i = k ! (2 - i)"
proof -
  have "i = 0 \<or> i = 1 \<or> i = 2"
    using assms by auto
  then show ?thesis
    using assms by (auto simp add: unfold_69R3K Let_def length_zloop zloop_nth_below)
qed

lemma loop_69R3K:
  assumes "length key = 69" and "3 \<le> i" and "i < 67"
  shows "SIMON128_ExpandKey_69R3K key k ! i =
         rhs_69R3K 0xfffffffffffffffc (drop_bit (i - 3) 0xfc2ce51207a635db AND 1) (SIMON128_ExpandKey_69R3K key k) i"
proof -
  let ?s = "(3, 0xfc2ce51207a635db, key[0 := k ! 2, 1 := k ! 1, 2 := k ! 0]) :: 64 zstate"
  let ?rhs = "\<lambda>z. rhs_69R3K 0xfffffffffffffffc (z AND 1)"
  let ?L = "snd (snd (zloop 67 ?rhs ?s))"
  have "?L ! i = ?rhs (drop_bit (i - fst ?s) (fst (snd ?s))) ?L i"
    using assms by (intro zloop_nth_in [OF local_69R3K]) simp_all
  then show ?thesis
    using assms by (simp add: unfold_69R3K Let_def length_zloop rhs_69R3K_def)
qed

lemma tail_69R3K:
  assumes "length key = 69"
  shows "SIMON128_ExpandKey_69R3K key k ! 67 = rhs_69R3K 0xfffffffffffffffc 0 (SIMON128_ExpandKey_69R3K key k) 67"
    and "SIMON128_ExpandKey_69R3K key k ! 68 = rhs_69R3K 0xfffffffffffffffc 1 (SIMON128_ExpandKey_69R3K key k) 68"
  using assms by (simp_all add: unfold_69R3K Let_def length_zloop rhs_69R3K_def)

lemma pure_69R3K:
  assumes "length key = 69" and "length key' = 69"
  shows "SIMON128_ExpandKey_69R3K key k = SIMON128_ExpandKey_69R3K key' k"
proof -
  let ?rhs = "\<lambda>z. rhs_69R3K 0xfffffffffffffffc (z AND 1)"
  let ?K0 = "snd (snd (zloop 67 ?rhs (3, 0xfc2ce51207a635db, key[0 := k ! 2, 1 := k ! 1, 2 := k ! 0])))"
  let ?K0' = "snd (snd (zloop 67 ?rhs (3, 0xfc2ce51207a635db, key'[0 := k ! 2, 1 := k ! 1, 2 := k ! 0])))"
  have len: "length ?K0 = 69" "length ?K0' = 69"
    using assms by (simp_all add: length_zloop)
  have a0: "?K0 ! j = ?K0' ! j" if "j < 67" for j
  proof (rule zloop_determined [OF local_69R3K])
    fix j' :: nat assume "j' < 3"
    then have "j' = 0 \<or> j' = 1 \<or> j' = 2" by auto
    then show "key[0 := k ! 2, 1 := k ! 1, 2 := k ! 0] ! j' = key'[0 := k ! 2, 1 := k ! 1, 2 := k ! 0] ! j'"
      using assms by auto
  qed (use assms that in simp_all)
  let ?K1 = "?K0[67 := rhs_69R3K 0xfffffffffffffffc 0 ?K0 67]"
  let ?K1' = "?K0'[67 := rhs_69R3K 0xfffffffffffffffc 0 ?K0' 67]"
  have a1: "?K1 ! j = ?K1' ! j" if "j < 68" for j
    using update_determined [where rhs = "\<lambda>z. rhs_69R3K 0xfffffffffffffffc 0" and lo = 3 and n = 67 and K = "?K0" and K' = "?K0'" and j = j and z = 0,
        OF local_69R3K [of "0xfffffffffffffffc" "\<lambda>z. 0"]] a0 len that
    by simp
  let ?K2 = "?K1[68 := rhs_69R3K 0xfffffffffffffffc 1 ?K1 68]"
  let ?K2' = "?K1'[68 := rhs_69R3K 0xfffffffffffffffc 1 ?K1' 68]"
  have a2: "?K2 ! j = ?K2' ! j" if "j < 69" for j
    using update_determined [where rhs = "\<lambda>z. rhs_69R3K 0xfffffffffffffffc 1" and lo = 3 and n = 68 and K = "?K1" and K' = "?K1'" and j = j and z = 0,
        OF local_69R3K [of "0xfffffffffffffffc" "\<lambda>z. 1"]] a1 len that
    by simp
  have "?K2 = ?K2'"
    using a2 len by (intro nth_equalityI) simp_all
  then show ?thesis
    by (simp add: unfold_69R3K Let_def)
qed

subsection \<open>\<^verbatim>\<open>SIMON128_ExpandKey_72R4K\<close>\<close>

lemma local_72R4K: "local_from 4 (\<lambda>z. rhs_72R4K c (b z))"
  by (rule local_fromI) (simp add: rhs_72R4K_def)

lemma unfold_72R4K:
  "SIMON128_ExpandKey_72R4K key k =
     (let L = snd (snd (zloop 68 (\<lambda>z. rhs_72R4K 0xfffffffffffffffc (z AND 1)) (4, 0xfdc94c3a046d678b, key[0 := k ! 3, 1 := k ! 2, 2 := k ! 1, 3 := k ! 0])));
          K1 = L[68 := rhs_72R4K 0xfffffffffffffffc 0 L 68];
          K2 = K1[69 := rhs_72R4K 0xfffffffffffffffc 1 K1 69];
          K3 = K2[70 := rhs_72R4K 0xfffffffffffffffc 0 K2 70];
          K4 = K3[71 := rhs_72R4K 0xfffffffffffffffc 0 K3 71]
      in K4)"
  by (simp add: SIMON128_ExpandKey_72R4K_def rhs_72R4K_def Let_def)

lemma length_72R4K: "length (SIMON128_ExpandKey_72R4K key k) = length key"
  by (simp add: unfold_72R4K Let_def length_zloop)

lemma seeds_72R4K:
  assumes "length key = 72" and "i < 4"
  shows "SIMON128_ExpandKey_72R4K key k ! i = k ! (3 - i)"
proof -
  have "i = 0 \<or> i = 1 \<or> i = 2 \<or> i = 3"
    using assms by auto
  then show ?thesis
    using assms by (auto simp add: unfold_72R4K Let_def length_zloop zloop_nth_below)
qed

lemma loop_72R4K:
  assumes "length key = 72" and "4 \<le> i" and "i < 68"
  shows "SIMON128_ExpandKey_72R4K key k ! i =
         rhs_72R4K 0xfffffffffffffffc (drop_bit (i - 4) 0xfdc94c3a046d678b AND 1) (SIMON128_ExpandKey_72R4K key k) i"
proof -
  let ?s = "(4, 0xfdc94c3a046d678b, key[0 := k ! 3, 1 := k ! 2, 2 := k ! 1, 3 := k ! 0]) :: 64 zstate"
  let ?rhs = "\<lambda>z. rhs_72R4K 0xfffffffffffffffc (z AND 1)"
  let ?L = "snd (snd (zloop 68 ?rhs ?s))"
  have "?L ! i = ?rhs (drop_bit (i - fst ?s) (fst (snd ?s))) ?L i"
    using assms by (intro zloop_nth_in [OF local_72R4K]) simp_all
  then show ?thesis
    using assms by (simp add: unfold_72R4K Let_def length_zloop rhs_72R4K_def)
qed

lemma tail_72R4K:
  assumes "length key = 72"
  shows "SIMON128_ExpandKey_72R4K key k ! 68 = rhs_72R4K 0xfffffffffffffffc 0 (SIMON128_ExpandKey_72R4K key k) 68"
    and "SIMON128_ExpandKey_72R4K key k ! 69 = rhs_72R4K 0xfffffffffffffffc 1 (SIMON128_ExpandKey_72R4K key k) 69"
    and "SIMON128_ExpandKey_72R4K key k ! 70 = rhs_72R4K 0xfffffffffffffffc 0 (SIMON128_ExpandKey_72R4K key k) 70"
    and "SIMON128_ExpandKey_72R4K key k ! 71 = rhs_72R4K 0xfffffffffffffffc 0 (SIMON128_ExpandKey_72R4K key k) 71"
  using assms by (simp_all add: unfold_72R4K Let_def length_zloop rhs_72R4K_def)

lemma pure_72R4K:
  assumes "length key = 72" and "length key' = 72"
  shows "SIMON128_ExpandKey_72R4K key k = SIMON128_ExpandKey_72R4K key' k"
proof -
  let ?rhs = "\<lambda>z. rhs_72R4K 0xfffffffffffffffc (z AND 1)"
  let ?K0 = "snd (snd (zloop 68 ?rhs (4, 0xfdc94c3a046d678b, key[0 := k ! 3, 1 := k ! 2, 2 := k ! 1, 3 := k ! 0])))"
  let ?K0' = "snd (snd (zloop 68 ?rhs (4, 0xfdc94c3a046d678b, key'[0 := k ! 3, 1 := k ! 2, 2 := k ! 1, 3 := k ! 0])))"
  have len: "length ?K0 = 72" "length ?K0' = 72"
    using assms by (simp_all add: length_zloop)
  have a0: "?K0 ! j = ?K0' ! j" if "j < 68" for j
  proof (rule zloop_determined [OF local_72R4K])
    fix j' :: nat assume "j' < 4"
    then have "j' = 0 \<or> j' = 1 \<or> j' = 2 \<or> j' = 3" by auto
    then show "key[0 := k ! 3, 1 := k ! 2, 2 := k ! 1, 3 := k ! 0] ! j' = key'[0 := k ! 3, 1 := k ! 2, 2 := k ! 1, 3 := k ! 0] ! j'"
      using assms by auto
  qed (use assms that in simp_all)
  let ?K1 = "?K0[68 := rhs_72R4K 0xfffffffffffffffc 0 ?K0 68]"
  let ?K1' = "?K0'[68 := rhs_72R4K 0xfffffffffffffffc 0 ?K0' 68]"
  have a1: "?K1 ! j = ?K1' ! j" if "j < 69" for j
    using update_determined [where rhs = "\<lambda>z. rhs_72R4K 0xfffffffffffffffc 0" and lo = 4 and n = 68 and K = "?K0" and K' = "?K0'" and j = j and z = 0,
        OF local_72R4K [of "0xfffffffffffffffc" "\<lambda>z. 0"]] a0 len that
    by simp
  let ?K2 = "?K1[69 := rhs_72R4K 0xfffffffffffffffc 1 ?K1 69]"
  let ?K2' = "?K1'[69 := rhs_72R4K 0xfffffffffffffffc 1 ?K1' 69]"
  have a2: "?K2 ! j = ?K2' ! j" if "j < 70" for j
    using update_determined [where rhs = "\<lambda>z. rhs_72R4K 0xfffffffffffffffc 1" and lo = 4 and n = 69 and K = "?K1" and K' = "?K1'" and j = j and z = 0,
        OF local_72R4K [of "0xfffffffffffffffc" "\<lambda>z. 1"]] a1 len that
    by simp
  let ?K3 = "?K2[70 := rhs_72R4K 0xfffffffffffffffc 0 ?K2 70]"
  let ?K3' = "?K2'[70 := rhs_72R4K 0xfffffffffffffffc 0 ?K2' 70]"
  have a3: "?K3 ! j = ?K3' ! j" if "j < 71" for j
    using update_determined [where rhs = "\<lambda>z. rhs_72R4K 0xfffffffffffffffc 0" and lo = 4 and n = 70 and K = "?K2" and K' = "?K2'" and j = j and z = 0,
        OF local_72R4K [of "0xfffffffffffffffc" "\<lambda>z. 0"]] a2 len that
    by simp
  let ?K4 = "?K3[71 := rhs_72R4K 0xfffffffffffffffc 0 ?K3 71]"
  let ?K4' = "?K3'[71 := rhs_72R4K 0xfffffffffffffffc 0 ?K3' 71]"
  have a4: "?K4 ! j = ?K4' ! j" if "j < 72" for j
    using update_determined [where rhs = "\<lambda>z. rhs_72R4K 0xfffffffffffffffc 0" and lo = 4 and n = 71 and K = "?K3" and K' = "?K3'" and j = j and z = 0,
        OF local_72R4K [of "0xfffffffffffffffc" "\<lambda>z. 0"]] a3 len that
    by simp
  have "?K4 = ?K4'"
    using a4 len by (intro nth_equalityI) simp_all
  then show ?thesis
    by (simp add: unfold_72R4K Let_def)
qed

section \<open>Keying\<close>

lemma length_New [simp]: "length (New old n) = n"
  by (simp add: New_def)

lemma length_GetUserKey [simp]: "length (GetUserKey U out outlen inp) = length out"
  by (simp add: GetUserKey_def)

lemma GetUserKey_nth:
  "j < outlen \<Longrightarrow> j < length out \<Longrightarrow>
   GetUserKey U out outlen inp ! j = be_word (take U (drop (U * j) inp))"
  by (simp add: GetUserKey_def)

lemma cong_42R3K:
  "k ! 0 = k' ! 0 \<Longrightarrow> k ! 1 = k' ! 1 \<Longrightarrow> k ! 2 = k' ! 2 \<Longrightarrow>
   SIMON64_ExpandKey_42R3K key k = SIMON64_ExpandKey_42R3K key k'"
  by (simp add: unfold_42R3K)

lemma cong_44R4K:
  "k ! 0 = k' ! 0 \<Longrightarrow> k ! 1 = k' ! 1 \<Longrightarrow> k ! 2 = k' ! 2 \<Longrightarrow> k ! 3 = k' ! 3 \<Longrightarrow>
   SIMON64_ExpandKey_44R4K key k = SIMON64_ExpandKey_44R4K key k'"
  by (simp add: unfold_44R4K)

lemma cong_68R2K:
  "k ! 0 = k' ! 0 \<Longrightarrow> k ! 1 = k' ! 1 \<Longrightarrow>
   SIMON128_ExpandKey_68R2K key k = SIMON128_ExpandKey_68R2K key k'"
  by (simp add: unfold_68R2K)

lemma cong_69R3K:
  "k ! 0 = k' ! 0 \<Longrightarrow> k ! 1 = k' ! 1 \<Longrightarrow> k ! 2 = k' ! 2 \<Longrightarrow>
   SIMON128_ExpandKey_69R3K key k = SIMON128_ExpandKey_69R3K key k'"
  by (simp add: unfold_69R3K)

lemma cong_72R4K:
  "k ! 0 = k' ! 0 \<Longrightarrow> k ! 1 = k' ! 1 \<Longrightarrow> k ! 2 = k' ! 2 \<Longrightarrow> k ! 3 = k' ! 3 \<Longrightarrow>
   SIMON128_ExpandKey_72R4K key k = SIMON128_ExpandKey_72R4K key k'"
  by (simp add: unfold_72R4K)

text \<open>The words that \<^verbatim>\<open>GetUserKey\<close> decodes do not depend on the block it fills.\<close>

lemma GetUserKey_words:
  "j < n \<Longrightarrow> n \<le> 4 \<Longrightarrow>
   GetUserKey U (New old 4) n inp ! j = GetUserKey U (New old' 4) n inp ! j"
  by (simp add: GetUserKey_nth)

lemma SIMON64_UncheckedSetKey_12:
  "length userKey = 12 \<Longrightarrow>
   SIMON64_UncheckedSetKey this userKey =
     Inr \<lparr>m_wspace = GetUserKey 4 (New (m_wspace this) 4) 3 userKey,
          m_rkeys = SIMON64_ExpandKey_42R3K (New (m_rkeys this) 42)
                      (GetUserKey 4 (New (m_wspace this) 4) 3 userKey),
          m_kwords = 3, m_rounds = 42\<rparr>"
  by (simp add: SIMON64_UncheckedSetKey_def Let_def)

lemma SIMON64_UncheckedSetKey_16:
  "length userKey = 16 \<Longrightarrow>
   SIMON64_UncheckedSetKey this userKey =
     Inr \<lparr>m_wspace = GetUserKey 4 (New (m_wspace this) 4) 4 userKey,
          m_rkeys = SIMON64_ExpandKey_44R4K (New (m_rkeys this) 44)
                      (GetUserKey 4 (New (m_wspace this) 4) 4 userKey),
          m_kwords = 4, m_rounds = 44\<rparr>"
  by (simp add: SIMON64_UncheckedSetKey_def Let_def)

lemma SIMON64_UncheckedSetKey_other:
  "length userKey \<noteq> 12 \<Longrightarrow> length userKey \<noteq> 16 \<Longrightarrow>
   SIMON64_UncheckedSetKey this userKey = Inl AssertFailed"
  by (simp add: SIMON64_UncheckedSetKey_def Let_def)

lemma SIMON128_UncheckedSetKey_16:
  "length userKey = 16 \<Longrightarrow>
   SIMON128_UncheckedSetKey this userKey =
     Inr \<lparr>m_wspace = GetUserKey 8 (New (m_wspace this) 4) 2 userKey,
          m_rkeys = SIMON128_ExpandKey_68R2K (New (m_rkeys this) 68)
                      (GetUserKey 8 (New (m_wspace this) 4) 2 userKey),
          m_kwords = 2, m_rounds = 68\<rparr>"
  by (simp add: SIMON128_UncheckedSetKey_def Let_def)

lemma SIMON128_UncheckedSetKey_24:
  "length userKey = 24 \<Longrightarrow>
   SIMON128_UncheckedSetKey this userKey =
     Inr \<lparr>m_wspace = GetUserKey 8 (New (m_wspace this) 4) 3 userKey,
          m_rkeys = SIMON128_ExpandKey_69R3K (New (m_rkeys this) 69)
                      (GetUserKey 8 (New (m_wspace this) 4) 3 userKey),
          m_kwords = 3, m_rounds = 69\<rparr>"
  by (simp add: SIMON128_UncheckedSetKey_def Let_def)

lemma SIMON128_UncheckedSetKey_32:
  "length userKey = 32 \<Longrightarrow>
   SIMON128_UncheckedSetKey this userKey =
     Inr \<lparr>m_wspace = GetUserKey 8 (New (m_wspace this) 4) 4 userKey,
          m_rkeys = SIMON128_ExpandKey_72R4K (New (m_rkeys this) 72)
                      (GetUserKey 8 (New (m_wspace this) 4) 4 userKey),
          m_kwords = 4, m_rounds = 72\<rparr>"
  by (simp add: SIMON128_UncheckedSetKey_def Let_def)

lemma SIMON128_UncheckedSetKey_other:
  "length userKey \<noteq> 16 \<Longrightarrow> length userKey \<noteq> 24 \<Longrightarrow> length userKey \<noteq> 32 \<Longrightarrow>
   SIMON128_UncheckedSetKey this userKey = Inl AssertFailed"
  by (simp add: SIMON128_UncheckedSetKey_def Let_def)

text \<open>The subkeys that keying stores do not depend on the object's previous state.\<close>

lemma rkeys_42R3K:
  "SIMON64_ExpandKey_42R3K (New r 42) (GetUserKey 4 (New w 4) 3 userKey) =
   SIMON64_ExpandKey_42R3K (New r' 42) (GetUserKey 4 (New w' 4) 3 userKey)"
  using pure_42R3K [of "New r 42" "New r' 42"]
    cong_42R3K [of "GetUserKey 4 (New w 4) 3 userKey" "GetUserKey 4 (New w' 4) 3 userKey"]
  by (simp add: GetUserKey_nth)

lemma rkeys_44R4K:
  "SIMON64_ExpandKey_44R4K (New r 44) (GetUserKey 4 (New w 4) 4 userKey) =
   SIMON64_ExpandKey_44R4K (New r' 44) (GetUserKey 4 (New w' 4) 4 userKey)"
  using pure_44R4K [of "New r 44" "New r' 44"]
    cong_44R4K [of "GetUserKey 4 (New w 4) 4 userKey" "GetUserKey 4 (New w' 4) 4 userKey"]
  by (simp add: GetUserKey_nth)

lemma rkeys_68R2K:
  "SIMON128_ExpandKey_68R2K (New r 68) (GetUserKey 8 (New w 4) 2 userKey) =
   SIMON128_ExpandKey_68R2K (New r' 68) (GetUserKey 8 (New w' 4) 2 userKey)"
  using pure_68R2K [of "New r 68" "New r' 68"]
    cong_68R2K [of "GetUserKey 8 (New w 4) 2 userKey" "GetUserKey 8 (New w' 4) 2 userKey"]
  by (simp add: GetUserKey_nth)

lemma rkeys_69R3K:
  "SIMON128_ExpandKey_69R3K (New r 69) (GetUserKey 8 (New w 4) 3 userKey) =
   SIMON128_ExpandKey_69R3K (New r' 69) (GetUserKey 8 (New w' 4) 3 userKey)"
  using pure_69R3K [of "New r 69" "New r' 69"]
    cong_69R3K [of "GetUserKey 8 (New w 4) 3 userKey" "GetUserKey 8 (New w' 4) 3 userKey"]
  by (simp add: GetUserKey_nth)

lemma rkeys_72R4K:
  "SIMON128_ExpandKey_72R4K (New r 72) (GetUserKey 8 (New w 4) 4 userKey) =
   SIMON128_ExpandKey_72R4K (New r' 72) (GetUserKey 8 (New w' 4) 4 userKey)"
  using pure_72R4K [of "New r 72" "New r' 72"]
    cong_72R4K [of "GetUserKey 8 (New w 4) 4 userKey" "GetUserKey 8 (New w' 4) 4 userKey"]
  by (simp add: GetUserKey_nth)

lemma SIMON64_UncheckedSetKey_pure:
  "map_sum id (\<lambda>inst. (m_rounds inst, m_rkeys inst)) (SIMON64_UncheckedSetKey this userKey) =
   map_sum id (\<lambda>inst. (m_rounds inst, m_rkeys inst)) (SIMON64_UncheckedSetKey this' userKey)"
proof -
  consider "length userKey = 12" | "length userKey = 16"
    | "length userKey \<noteq> 12" and "length userKey \<noteq> 16"
    by blast
  then show ?thesis
  proof cases
    case 1
    then show ?thesis
      using rkeys_42R3K [of "m_rkeys this" "m_wspace this" userKey "m_rkeys this'" "m_wspace this'"]
      by (simp add: SIMON64_UncheckedSetKey_12)
  next
    case 2
    then show ?thesis
      using rkeys_44R4K [of "m_rkeys this" "m_wspace this" userKey "m_rkeys this'" "m_wspace this'"]
      by (simp add: SIMON64_UncheckedSetKey_16)
  next
    case 3
    then show ?thesis
      by (simp add: SIMON64_UncheckedSetKey_other)
  qed
qed

lemma SIMON128_UncheckedSetKey_pure:
  "map_sum id (\<lambda>inst. (m_rounds inst, m_rkeys inst)) (SIMON128_UncheckedSetKey this userKey) =
   map_sum id (\<lambda>inst. (m_rounds inst, m_rkeys inst)) (SIMON128_UncheckedSetKey this' userKey)"
proof -
  consider "length userKey = 16" | "length userKey = 24" | "length userKey = 32"
    | "length userKey \<noteq> 16" and "length userKey \<noteq> 24" and "length userKey \<noteq> 32"
    by blast
  then show ?thesis
  proof cases
    case 1
    then show ?thesis
      using rkeys_68R2K [of "m_rkeys this" "m_wspace this" userKey "m_rkeys this'" "m_wspace this'"]
      by (simp add: SIMON128_UncheckedSetKey_16)
  next
    case 2
    then show ?thesis
      using rkeys_69R3K [of "m_rkeys this" "m_wspace this" userKey "m_rkeys this'" "m_wspace this'"]
      by (simp add: SIMON128_UncheckedSetKey_24)
  next
    case 3
    then show ?thesis
      using rkeys_72R4K [of "m_rkeys this" "m_wspace this" userKey "m_rkeys this'" "m_wspace this'"]
      by (simp add: SIMON128_UncheckedSetKey_32)
  next
    case 4
    then show ?thesis
      by (simp add: SIMON128_UncheckedSetKey_other)
  qed
qed

section \<open>Processing one block\<close>

lemma length_load_bytes [simp]: "length (load_bytes mem a n) = n"
  by (induction n arbitrary: a) simp_all

lemma load_bytes_nth: "i < n \<Longrightarrow> load_bytes mem a n ! i = mem (a + i)"
proof (induction n arbitrary: a i)
  case 0
  then show ?case by simp
next
  case (Suc n)
  then show ?case by (cases i) simp_all
qed

lemma load_bytes_cong:
  assumes "\<And>i. i < n \<Longrightarrow> mem (a + i) = mem' (b + i)"
  shows "load_bytes mem a n = load_bytes mem' b n"
  using assms by (intro nth_equalityI) (simp_all add: load_bytes_nth)

lemma length_be_bytes [simp]: "length (be_bytes n w) = n"
  by (induction n) simp_all

lemma PutWord_inside:
  "i < U \<Longrightarrow>
   PutWord U mem xorBlock block v (block + i) =
     (case xorBlock of None \<Rightarrow> be_bytes U v ! i | Some x \<Rightarrow> be_bytes U v ! i XOR mem (x + i))"
  by (simp add: PutWord_def store_bytes_def load_bytes_nth split: option.splits)

lemma PutWord_outside:
  "y < block \<or> block + U \<le> y \<Longrightarrow> PutWord U mem xorBlock block v y = mem y"
  by (auto simp add: PutWord_def store_bytes_def split: option.splits)

text \<open>
  The bytes that \<^verbatim>\<open>PutBlock\<close> leaves in the output block do not depend on where the
  block is, when the block at \<^verbatim>\<open>xorBlock\<close> is apart from it.
\<close>

lemma PutBlock_bytes:
  assumes "xor_apart (2 * U) xorBlock a" and "xor_apart (2 * U) xorBlock b" and "i < 2 * U"
  shows "PutBlock U this mem xorBlock a (a + i) = PutBlock U this mem xorBlock b (b + i)"
proof (cases "i < U")
  case True
  then show ?thesis
    by (simp add: PutBlock_def Let_def PutWord_outside PutWord_inside)
next
  case False
  define j where "j = i - U"
  have i: "i = U + j" and j: "j < U"
    using False assms(3) by (simp_all add: j_def)
  have "PutWord U mem xorBlock a (m_wspace this ! 2) (x + U + j) = mem (x + U + j)"
    if "xorBlock = Some x" for x
    using assms(1) that j by (intro PutWord_outside) (auto simp add: xor_apart_def apart_def)
  moreover have "PutWord U mem xorBlock b (m_wspace this ! 2) (x + U + j) = mem (x + U + j)"
    if "xorBlock = Some x" for x
    using assms(2) that j by (intro PutWord_outside) (auto simp add: xor_apart_def apart_def)
  ultimately show ?thesis
    using PutWord_inside [of j U _ "map_option (\<lambda>x. x + U) xorBlock" "a + U" "m_wspace this ! 3"]
      PutWord_inside [of j U _ "map_option (\<lambda>x. x + U) xorBlock" "b + U" "m_wspace this ! 3"] j
    by (simp add: PutBlock_def Let_def i add.assoc split: option.splits)
qed

lemma PutBlock_loaded:
  assumes "xor_apart (2 * U) xorBlock a" and "xor_apart (2 * U) xorBlock b"
  shows "load_bytes (PutBlock U this mem xorBlock a) a (2 * U) =
         load_bytes (PutBlock U this mem xorBlock b) b (2 * U)"
  using assms by (intro load_bytes_cong PutBlock_bytes)

text \<open>\<^verbatim>\<open>PutBlock\<close> reads the words 2 and 3 of the workspace and nothing else of the object.\<close>

lemma PutBlock_cong:
  "m_wspace this ! 2 = m_wspace that ! 2 \<Longrightarrow> m_wspace this ! 3 = m_wspace that ! 3 \<Longrightarrow>
   PutBlock U this mem xorBlock out = PutBlock U that mem xorBlock out"
  by (simp add: PutBlock_def)

lemma GetBlock_members [simp]:
  "m_rkeys (GetBlock U this mem a) = m_rkeys this"
  "m_rounds (GetBlock U this mem a) = m_rounds this"
  "m_kwords (GetBlock U this mem a) = m_kwords this"
  "length (m_wspace (GetBlock U this mem a)) = length (m_wspace this)"
  by (simp_all add: GetBlock_def Let_def)

lemma in_words_GetBlock:
  assumes "2 \<le> length (m_wspace this)"
  shows "in_words (GetBlock U this mem a) =
     (be_word (load_bytes mem a U), be_word (load_bytes mem (a + U) U))"
proof -
  have "0 < length (m_wspace this)" and "Suc 0 < length (m_wspace this)"
    using assms by linarith+
  then show ?thesis
    by (simp add: GetBlock_def in_words_def Let_def nth_list_update)
qed

lemma out_words_members [simp]:
  "m_rkeys (out_words this c) = m_rkeys this"
  "m_rounds (out_words this c) = m_rounds this"
  "m_kwords (out_words this c) = m_kwords this"
  "length (m_wspace (out_words this c)) = length (m_wspace this)"
  by (simp_all add: out_words_def)

lemma out_words_nth:
  "length (m_wspace this) = 4 \<Longrightarrow> m_wspace (out_words this c) ! 2 = fst c"
  "length (m_wspace this) = 4 \<Longrightarrow> m_wspace (out_words this c) ! 3 = snd c"
  by (simp_all add: out_words_def)

lemma is_switch_SIMON64_Enc: "is_switch {42, 44} SIMON_Encrypt SIMON64_Enc_switch"
  by (auto simp add: is_switch_def SIMON64_Enc_switch_def)

lemma is_switch_SIMON64_Dec: "is_switch {42, 44} SIMON_Decrypt SIMON64_Dec_switch"
  by (auto simp add: is_switch_def SIMON64_Dec_switch_def)

lemma is_switch_SIMON128_Enc: "is_switch {68, 69, 72} SIMON_Encrypt SIMON128_Enc_switch"
  by (auto simp add: is_switch_def SIMON128_Enc_switch_def)

lemma is_switch_SIMON128_Dec: "is_switch {68, 69, 72} SIMON_Decrypt SIMON128_Dec_switch"
  by (auto simp add: is_switch_def SIMON128_Dec_switch_def)

lemma is_switchD:
  "is_switch rounds T switch \<Longrightarrow>
   switch this =
     (if m_rounds this \<in> rounds
      then Inr (out_words this (T (m_rounds this) (in_words this) (m_rkeys this)))
      else Inl AssertFailed)"
  unfolding is_switch_def by blast

text \<open>On a keyed object the block operation succeeds, with this result.\<close>

lemma ProcessAndXorBlock_keyed:
  assumes "is_switch rounds T switch" and "keyed rounds this"
  shows "ProcessAndXorBlock U switch this mem inBlock xorBlock outBlock =
         Inr (out_words (GetBlock U this mem inBlock)
                (T (m_rounds this)
                   (be_word (load_bytes mem inBlock U), be_word (load_bytes mem (inBlock + U) U))
                   (m_rkeys this)),
              PutBlock U
                (out_words (GetBlock U this mem inBlock)
                   (T (m_rounds this)
                      (be_word (load_bytes mem inBlock U), be_word (load_bytes mem (inBlock + U) U))
                      (m_rkeys this)))
                mem xorBlock outBlock)"
  using assms(2)
  by (simp add: ProcessAndXorBlock_def is_switchD [OF assms(1)] keyed_def in_words_GetBlock)

text \<open>The block operation leaves the round count and the subkeys as they are.\<close>

lemma ProcessAndXorBlock_keeps:
  assumes "is_switch rounds T switch"
    and "ProcessAndXorBlock U switch this mem inBlock xorBlock outBlock = Inr (this', mem')"
  shows "m_rkeys this' = m_rkeys this \<and> m_rounds this' = m_rounds this"
  using assms(2)
  by (auto simp add: ProcessAndXorBlock_def is_switchD [OF assms(1)] split: if_splits)

lemma ProcessAndXorBlock_in_place:
  assumes "is_switch rounds T switch" and "keyed rounds this"
    and "xor_apart (2 * U) xorBlock a" and "xor_apart (2 * U) xorBlock b"
  shows "\<exists>this1 mem1 this2 mem2.
           ProcessAndXorBlock U switch this mem a xorBlock a = Inr (this1, mem1) \<and>
           ProcessAndXorBlock U switch this mem a xorBlock b = Inr (this2, mem2) \<and>
           load_bytes mem1 a (2 * U) = load_bytes mem2 b (2 * U)"
  using PutBlock_loaded [OF assms(3,4)]
  by (simp add: ProcessAndXorBlock_keyed [OF assms(1,2)])

text \<open>
  What the block operation writes depends on the object through the round count
  and the subkeys only, not through the workspace.
\<close>

lemma ProcessAndXorBlock_workspace:
  assumes "is_switch rounds T switch" and "keyed rounds this" and "keyed rounds that"
    and "m_rounds this = m_rounds that" and "m_rkeys this = m_rkeys that"
  shows "\<exists>this' that' mem'.
           ProcessAndXorBlock U switch this mem inBlock xorBlock outBlock = Inr (this', mem') \<and>
           ProcessAndXorBlock U switch that mem inBlock xorBlock outBlock = Inr (that', mem') \<and>
           keyed rounds this' \<and> m_rkeys this' = m_rkeys this \<and> m_rounds this' = m_rounds this"
proof -
  let ?c = "T (m_rounds this)
      (be_word (load_bytes mem inBlock U), be_word (load_bytes mem (inBlock + U) U)) (m_rkeys this)"
  have len: "length (m_wspace this) = 4" "length (m_wspace that) = 4"
    using assms(2,3) by (simp_all add: keyed_def)
  have "PutBlock U (out_words (GetBlock U this mem inBlock) ?c) mem xorBlock outBlock =
        PutBlock U (out_words (GetBlock U that mem inBlock) ?c) mem xorBlock outBlock"
    by (rule PutBlock_cong) (simp_all add: out_words_nth len)
  moreover have "keyed rounds (out_words (GetBlock U this mem inBlock) ?c)"
    using assms(2) by (simp add: keyed_def)
  ultimately show ?thesis
    using assms(4,5)
    by (simp add: ProcessAndXorBlock_keyed [OF assms(1,2)] ProcessAndXorBlock_keyed [OF assms(1,3)])
qed

section \<open>Evaluating the rotations\<close>

lemma word_rotr_shifts:
  fixes w :: "'a::len word"
  assumes "m < LENGTH('a)"
  shows "word_rotr m w = drop_bit m w OR push_bit (LENGTH('a) - m) (take_bit m w)"
proof (rule bit_word_eqI)
  fix n assume n: "n < LENGTH('a)"
  show "bit (word_rotr m w) n = bit (drop_bit m w OR push_bit (LENGTH('a) - m) (take_bit m w)) n"
  proof (cases "n + m < LENGTH('a)")
    case True
    then show ?thesis using n assms
      by (auto simp add: bit_simps ac_simps)
  next
    case False
    then have "(n + m) mod LENGTH('a) = n - (LENGTH('a) - m)"
      using n assms by (simp add: mod_if)
    moreover have "\<not> bit w (m + n)"
      using False bit_imp_le_length [of w "m + n"] by (auto simp add: add.commute)
    ultimately show ?thesis using n assms False
      by (auto simp add: bit_simps)
  qed
qed

lemma word_rotl_shifts:
  fixes w :: "'a::len word"
  assumes "0 < m" and "m < LENGTH('a)"
  shows "word_rotl m w = push_bit m (take_bit (LENGTH('a) - m) w) OR drop_bit (LENGTH('a) - m) w"
proof -
  have "word_rotl m w = word_rotr (LENGTH('a) - m) w"
    using assms by (simp add: word_rotl_eq_word_rotr)
  also have "\<dots> = drop_bit (LENGTH('a) - m) w
      OR push_bit (LENGTH('a) - (LENGTH('a) - m)) (take_bit (LENGTH('a) - m) w)"
    using assms by (intro word_rotr_shifts) simp
  finally show ?thesis using assms by (simp add: ac_simps)
qed

section \<open>The published vectors\<close>

lemma zeros_42R3K: "replicate 42 (0 :: word32) =
    [0, 0, 0, 0, 0, 0,
     0, 0, 0, 0, 0, 0,
     0, 0, 0, 0, 0, 0,
     0, 0, 0, 0, 0, 0,
     0, 0, 0, 0, 0, 0,
     0, 0, 0, 0, 0, 0,
     0, 0, 0, 0, 0, 0]"
  by (simp add: eval_nat_numeral)

lemma seeded_42R3K:
  "((replicate 42 0)[0 := key_42R3K ! 2, 1 := key_42R3K ! 1, 2 := key_42R3K ! 0]) =
    ([0x03020100, 0x0b0a0908, 0x13121110, 0x00000000, 0x00000000, 0x00000000,
     0x00000000, 0x00000000, 0x00000000, 0x00000000, 0x00000000, 0x00000000,
     0x00000000, 0x00000000, 0x00000000, 0x00000000, 0x00000000, 0x00000000,
     0x00000000, 0x00000000, 0x00000000, 0x00000000, 0x00000000, 0x00000000,
     0x00000000, 0x00000000, 0x00000000, 0x00000000, 0x00000000, 0x00000000,
     0x00000000, 0x00000000, 0x00000000, 0x00000000, 0x00000000, 0x00000000,
     0x00000000, 0x00000000, 0x00000000, 0x00000000, 0x00000000, 0x00000000] :: word32 list)"
  by (simp add: zeros_42R3K key_42R3K_def)

lemma zloop_42R3K:
  "zloop 42 (\<lambda>z. rhs_42R3K 0xfffffffc (z AND 1)) (3, 0x7369f885192c0ef5,
    [0x03020100, 0x0b0a0908, 0x13121110, 0x00000000, 0x00000000, 0x00000000,
     0x00000000, 0x00000000, 0x00000000, 0x00000000, 0x00000000, 0x00000000,
     0x00000000, 0x00000000, 0x00000000, 0x00000000, 0x00000000, 0x00000000,
     0x00000000, 0x00000000, 0x00000000, 0x00000000, 0x00000000, 0x00000000,
     0x00000000, 0x00000000, 0x00000000, 0x00000000, 0x00000000, 0x00000000,
     0x00000000, 0x00000000, 0x00000000, 0x00000000, 0x00000000, 0x00000000,
     0x00000000, 0x00000000, 0x00000000, 0x00000000, 0x00000000, 0x00000000]) =
   (42, 0x0000000000e6d3f1,
    [0x03020100, 0x0b0a0908, 0x13121110, 0xffae9dce, 0xc4facc91, 0xc83d1bb6,
     0xb5d510ff, 0x36e2c07c, 0x72709043, 0x1343f40e, 0xea417e40, 0x9e635793,
     0xa6965478, 0x8b052e75, 0x884c5f47, 0xd0e4e598, 0xe3e80363, 0x35f020e1,
     0x1afa1c76, 0xbee71ed6, 0x763d4d2a, 0x0ca19efc, 0x0046cb1b, 0x59ce0704,
     0x3dfb4191, 0xcbd9e8cc, 0xf3f75b6d, 0xa34520b7, 0xba7ae12d, 0x60e056a6,
     0xf6a8d0f4, 0x943a89c1, 0xb4db50fe, 0x3481f018, 0xee1d573f, 0x4806d097,
     0x56feb8ff, 0x0e529452, 0xd6d654a4, 0x7eb6e8dd, 0x8990d838, 0xb082bddc])"
  by (simp add: zloop.simps rhs_42R3K_def rotrConstant_def word_rotr_shifts)

lemma expand_42R3K: "SIMON64_ExpandKey_42R3K (replicate 42 0) key_42R3K = subkeys_42R3K"
  unfolding unfold_42R3K seeded_42R3K zloop_42R3K snd_conv subkeys_42R3K_def
  by (simp add: Let_def rhs_42R3K_def rotrConstant_def word_rotr_shifts)

lemma encrypt_42R3K:
  "SIMON_Encrypt 42 (0x6f722067, 0x6e696c63) subkeys_42R3K = (0x5ca2e27f, 0x111a8fc8)"
  unfolding SIMON_Encrypt_def subkeys_42R3K_def Let_def
  by (simp add: enc_loop.simps R2_def Let_def f_def rotlConstant_def word_rotl_shifts)

lemma zeros_44R4K: "replicate 44 (0 :: word32) =
    [0, 0, 0, 0, 0, 0,
     0, 0, 0, 0, 0, 0,
     0, 0, 0, 0, 0, 0,
     0, 0, 0, 0, 0, 0,
     0, 0, 0, 0, 0, 0,
     0, 0, 0, 0, 0, 0,
     0, 0, 0, 0, 0, 0,
     0, 0]"
  by (simp add: eval_nat_numeral)

lemma seeded_44R4K:
  "((replicate 44 0)[0 := key_44R4K ! 3, 1 := key_44R4K ! 2, 2 := key_44R4K ! 1, 3 := key_44R4K ! 0]) =
    ([0x03020100, 0x0b0a0908, 0x13121110, 0x1b1a1918, 0x00000000, 0x00000000,
     0x00000000, 0x00000000, 0x00000000, 0x00000000, 0x00000000, 0x00000000,
     0x00000000, 0x00000000, 0x00000000, 0x00000000, 0x00000000, 0x00000000,
     0x00000000, 0x00000000, 0x00000000, 0x00000000, 0x00000000, 0x00000000,
     0x00000000, 0x00000000, 0x00000000, 0x00000000, 0x00000000, 0x00000000,
     0x00000000, 0x00000000, 0x00000000, 0x00000000, 0x00000000, 0x00000000,
     0x00000000, 0x00000000, 0x00000000, 0x00000000, 0x00000000, 0x00000000,
     0x00000000, 0x00000000] :: word32 list)"
  by (simp add: zeros_44R4K key_44R4K_def)

lemma zloop_44R4K:
  "zloop 44 (\<lambda>z. rhs_44R4K 0xfffffffc (z AND 1)) (4, 0xfc2ce51207a635db,
    [0x03020100, 0x0b0a0908, 0x13121110, 0x1b1a1918, 0x00000000, 0x00000000,
     0x00000000, 0x00000000, 0x00000000, 0x00000000, 0x00000000, 0x00000000,
     0x00000000, 0x00000000, 0x00000000, 0x00000000, 0x00000000, 0x00000000,
     0x00000000, 0x00000000, 0x00000000, 0x00000000, 0x00000000, 0x00000000,
     0x00000000, 0x00000000, 0x00000000, 0x00000000, 0x00000000, 0x00000000,
     0x00000000, 0x00000000, 0x00000000, 0x00000000, 0x00000000, 0x00000000,
     0x00000000, 0x00000000, 0x00000000, 0x00000000, 0x00000000, 0x00000000,
     0x00000000, 0x00000000]) =
   (44, 0x0000000000fc2ce5,
    [0x03020100, 0x0b0a0908, 0x13121110, 0x1b1a1918, 0x70a011c3, 0xb770ec49,
     0x57e3e835, 0xd397bc42, 0x94dcf81f, 0xbf4b5f18, 0x8e5dabb9, 0xdbf4a863,
     0xcd0c28fc, 0x5cb69911, 0x79f112a5, 0x77205863, 0x99880c12, 0x1ce97c58,
     0xc8ed2145, 0xb800dbb8, 0xe86a2756, 0x7c06d4dd, 0xab52df0a, 0x247f66a8,
     0x53587ca6, 0xd25c13f1, 0x4583b64b, 0x7d9c960d, 0xefbfc2f3, 0x89ed8513,
     0x308dfc4e, 0xbf1a2a36, 0xe1499d70, 0x4ce4d2ff, 0x32b7ebef, 0xc47505c1,
     0xd0e929e8, 0x8fe484b9, 0x42054bee, 0xaf77bae2, 0x18199c02, 0x719e3f1c,
     0x0c1cf793, 0x15df4696])"
  by (simp add: zloop.simps rhs_44R4K_def rotrConstant_def word_rotr_shifts)

lemma expand_44R4K: "SIMON64_ExpandKey_44R4K (replicate 44 0) key_44R4K = subkeys_44R4K"
  unfolding unfold_44R4K seeded_44R4K zloop_44R4K snd_conv subkeys_44R4K_def
  by (simp add: Let_def rhs_44R4K_def rotrConstant_def word_rotr_shifts)

lemma encrypt_44R4K:
  "SIMON_Encrypt 44 (0x656b696c, 0x20646e75) subkeys_44R4K = (0x44c8fc20, 0xb9dfa07a)"
  unfolding SIMON_Encrypt_def subkeys_44R4K_def Let_def
  by (simp add: enc_loop.simps R2_def Let_def f_def rotlConstant_def word_rotl_shifts)

lemma zeros_68R2K: "replicate 68 (0 :: word64) =
    [0, 0, 0, 0,
     0, 0, 0, 0,
     0, 0, 0, 0,
     0, 0, 0, 0,
     0, 0, 0, 0,
     0, 0, 0, 0,
     0, 0, 0, 0,
     0, 0, 0, 0,
     0, 0, 0, 0,
     0, 0, 0, 0,
     0, 0, 0, 0,
     0, 0, 0, 0,
     0, 0, 0, 0,
     0, 0, 0, 0,
     0, 0, 0, 0,
     0, 0, 0, 0,
     0, 0, 0, 0]"
  by (simp add: eval_nat_numeral)

lemma seeded_68R2K:
  "((replicate 68 0)[0 := key_68R2K ! 1, 1 := key_68R2K ! 0]) =
    ([0x0706050403020100, 0x0f0e0d0c0b0a0908, 0x0000000000000000, 0x0000000000000000,
     0x0000000000000000, 0x0000000000000000, 0x0000000000000000, 0x0000000000000000,
     0x0000000000000000, 0x0000000000000000, 0x0000000000000000, 0x0000000000000000,
     0x0000000000000000, 0x0000000000000000, 0x0000000000000000, 0x0000000000000000,
     0x0000000000000000, 0x0000000000000000, 0x0000000000000000, 0x0000000000000000,
     0x0000000000000000, 0x0000000000000000, 0x0000000000000000, 0x0000000000000000,
     0x0000000000000000, 0x0000000000000000, 0x0000000000000000, 0x0000000000000000,
     0x0000000000000000, 0x0000000000000000, 0x0000000000000000, 0x0000000000000000,
     0x0000000000000000, 0x0000000000000000, 0x0000000000000000, 0x0000000000000000,
     0x0000000000000000, 0x0000000000000000, 0x0000000000000000, 0x0000000000000000,
     0x0000000000000000, 0x0000000000000000, 0x0000000000000000, 0x0000000000000000,
     0x0000000000000000, 0x0000000000000000, 0x0000000000000000, 0x0000000000000000,
     0x0000000000000000, 0x0000000000000000, 0x0000000000000000, 0x0000000000000000,
     0x0000000000000000, 0x0000000000000000, 0x0000000000000000, 0x0000000000000000,
     0x0000000000000000, 0x0000000000000000, 0x0000000000000000, 0x0000000000000000,
     0x0000000000000000, 0x0000000000000000, 0x0000000000000000, 0x0000000000000000,
     0x0000000000000000, 0x0000000000000000, 0x0000000000000000, 0x0000000000000000] :: word64 list)"
  by (simp add: zeros_68R2K key_68R2K_def)

lemma zloop_68R2K:
  "zloop 66 (\<lambda>z. rhs_68R2K 0xfffffffffffffffc (z AND 1)) (2, 0x7369f885192c0ef5,
    [0x0706050403020100, 0x0f0e0d0c0b0a0908, 0x0000000000000000, 0x0000000000000000,
     0x0000000000000000, 0x0000000000000000, 0x0000000000000000, 0x0000000000000000,
     0x0000000000000000, 0x0000000000000000, 0x0000000000000000, 0x0000000000000000,
     0x0000000000000000, 0x0000000000000000, 0x0000000000000000, 0x0000000000000000,
     0x0000000000000000, 0x0000000000000000, 0x0000000000000000, 0x0000000000000000,
     0x0000000000000000, 0x0000000000000000, 0x0000000000000000, 0x0000000000000000,
     0x0000000000000000, 0x0000000000000000, 0x0000000000000000, 0x0000000000000000,
     0x0000000000000000, 0x0000000000000000, 0x0000000000000000, 0x0000000000000000,
     0x0000000000000000, 0x0000000000000000, 0x0000000000000000, 0x0000000000000000,
     0x0000000000000000, 0x0000000000000000, 0x0000000000000000, 0x0000000000000000,
     0x0000000000000000, 0x0000000000000000, 0x0000000000000000, 0x0000000000000000,
     0x0000000000000000, 0x0000000000000000, 0x0000000000000000, 0x0000000000000000,
     0x0000000000000000, 0x0000000000000000, 0x0000000000000000, 0x0000000000000000,
     0x0000000000000000, 0x0000000000000000, 0x0000000000000000, 0x0000000000000000,
     0x0000000000000000, 0x0000000000000000, 0x0000000000000000, 0x0000000000000000,
     0x0000000000000000, 0x0000000000000000, 0x0000000000000000, 0x0000000000000000,
     0x0000000000000000, 0x0000000000000000, 0x0000000000000000, 0x0000000000000000]) =
   (66, 0x0000000000000000,
    [0x0706050403020100, 0x0f0e0d0c0b0a0908, 0x79e8db8abd2c1f4c, 0xb852643a0882b4e9,
     0x2a984eb1a34b9d62, 0x205716f8d920816f, 0xc36822feca027aa4, 0x0bf36f77133f166c,
     0x7d568618a6a996f2, 0x9c73282a727f4220, 0x98e02e60b03e7568, 0xf91ed0ff90849426,
     0xd7ade68f44d95153, 0x416e4db973add4e4, 0xe469341c0269c97d, 0xdc5a0784cc398ea0,
     0x0dd82b6b28d29fbf, 0x32c37fa0e4510b50, 0xf7538c9ac5e2519c, 0x9ca3c905ef4c9b86,
     0xb2f236d5d900f4a9, 0xce2d534df60375a4, 0x982ab677475f52bb, 0xfb55511b95629525,
     0x870ab6ba735ad6b1, 0x2c3b535883c39d64, 0xbfb1961b14e16336, 0x6fc98705afee58cd,
     0x3b4bc174041db25f, 0x84ebbcc390d3ca5e, 0xfc67f2dfb0f5084c, 0x2b5ec24a623dc42f,
     0x1446394da56e9377, 0x476d9908f339008a, 0x0722ac03cbc5dc93, 0xe80419b74902192d,
     0x9b5d9151a98a41d9, 0xbd258d7799540af7, 0xe8d487d7dcca7fd4, 0x914daa0fe0fe1d0c,
     0x4c1617c92125a259, 0xd3f1f675a9370c9f, 0xb4a8c99f316fccff, 0x21d19c2043f3f633,
     0x1d701c26c2d172a6, 0x7c576199087b30b0, 0xeac079f38ca65846, 0x305c96c7beda61c1,
     0x2031ddb8ff6f4d9f, 0xd9a64f54d13e8356, 0x69608f58d7a48a3d, 0x5de3a9b5b94fa54e,
     0xb8fd3f0ac4e67b3c, 0xfe8c225bb262f267, 0xc73b869bf673f5aa, 0xf5e7151e8c344c75,
     0xd926ea9630c9c71e, 0x3cae591ad6de171b, 0xf2863bdb38801b71, 0xe2290223fdb9ea3f,
     0x0f1e744287134769, 0xacc4d4107ad54958, 0x6fb55c7e701b452a, 0xb836d5a7ac286a52,
     0xeccf146f00a33138, 0xd49c399343c9c09a, 0x0000000000000000, 0x0000000000000000])"
  by (simp add: zloop.simps rhs_68R2K_def rotrConstant_def word_rotr_shifts)

lemma expand_68R2K: "SIMON128_ExpandKey_68R2K (replicate 68 0) key_68R2K = subkeys_68R2K"
  unfolding unfold_68R2K seeded_68R2K zloop_68R2K snd_conv subkeys_68R2K_def
  by (simp add: Let_def rhs_68R2K_def rotrConstant_def word_rotr_shifts)

lemma encrypt_68R2K:
  "SIMON_Encrypt 68 (0x6373656420737265, 0x6c6c657661727420) subkeys_68R2K = (0x49681b1e1e54fe3f, 0x65aa832af84e0bbc)"
  unfolding SIMON_Encrypt_def subkeys_68R2K_def Let_def
  by (simp add: enc_loop.simps R2_def Let_def f_def rotlConstant_def word_rotl_shifts)

lemma zeros_69R3K: "replicate 69 (0 :: word64) =
    [0, 0, 0, 0,
     0, 0, 0, 0,
     0, 0, 0, 0,
     0, 0, 0, 0,
     0, 0, 0, 0,
     0, 0, 0, 0,
     0, 0, 0, 0,
     0, 0, 0, 0,
     0, 0, 0, 0,
     0, 0, 0, 0,
     0, 0, 0, 0,
     0, 0, 0, 0,
     0, 0, 0, 0,
     0, 0, 0, 0,
     0, 0, 0, 0,
     0, 0, 0, 0,
     0, 0, 0, 0,
     0]"
  by (simp add: eval_nat_numeral)

lemma seeded_69R3K:
  "((replicate 69 0)[0 := key_69R3K ! 2, 1 := key_69R3K ! 1, 2 := key_69R3K ! 0]) =
    ([0x0706050403020100, 0x0f0e0d0c0b0a0908, 0x1716151413121110, 0x0000000000000000,
     0x0000000000000000, 0x0000000000000000, 0x0000000000000000, 0x0000000000000000,
     0x0000000000000000, 0x0000000000000000, 0x0000000000000000, 0x0000000000000000,
     0x0000000000000000, 0x0000000000000000, 0x0000000000000000, 0x0000000000000000,
     0x0000000000000000, 0x0000000000000000, 0x0000000000000000, 0x0000000000000000,
     0x0000000000000000, 0x0000000000000000, 0x0000000000000000, 0x0000000000000000,
     0x0000000000000000, 0x0000000000000000, 0x0000000000000000, 0x0000000000000000,
     0x0000000000000000, 0x0000000000000000, 0x0000000000000000, 0x0000000000000000,
     0x0000000000000000, 0x0000000000000000, 0x0000000000000000, 0x0000000000000000,
     0x0000000000000000, 0x0000000000000000, 0x0000000000000000, 0x0000000000000000,
     0x0000000000000000, 0x0000000000000000, 0x0000000000000000, 0x0000000000000000,
     0x0000000000000000, 0x0000000000000000, 0x0000000000000000, 0x0000000000000000,
     0x0000000000000000, 0x0000000000000000, 0x0000000000000000, 0x0000000000000000,
     0x0000000000000000, 0x0000000000000000, 0x0000000000000000, 0x0000000000000000,
     0x0000000000000000, 0x0000000000000000, 0x0000000000000000, 0x0000000000000000,
     0x0000000000000000, 0x0000000000000000, 0x0000000000000000, 0x0000000000000000,
     0x0000000000000000, 0x0000000000000000, 0x0000000000000000, 0x0000000000000000,
     0x0000000000000000] :: word64 list)"
  by (simp add: zeros_69R3K key_69R3K_def)

lemma zloop_69R3K:
  "zloop 67 (\<lambda>z. rhs_69R3K 0xfffffffffffffffc (z AND 1)) (3, 0xfc2ce51207a635db,
    [0x0706050403020100, 0x0f0e0d0c0b0a0908, 0x1716151413121110, 0x0000000000000000,
     0x0000000000000000, 0x0000000000000000, 0x0000000000000000, 0x0000000000000000,
     0x0000000000000000, 0x0000000000000000, 0x0000000000000000, 0x0000000000000000,
     0x0000000000000000, 0x0000000000000000, 0x0000000000000000, 0x0000000000000000,
     0x0000000000000000, 0x0000000000000000, 0x0000000000000000, 0x0000000000000000,
     0x0000000000000000, 0x0000000000000000, 0x0000000000000000, 0x0000000000000000,
     0x0000000000000000, 0x0000000000000000, 0x0000000000000000, 0x0000000000000000,
     0x0000000000000000, 0x0000000000000000, 0x0000000000000000, 0x0000000000000000,
     0x0000000000000000, 0x0000000000000000, 0x0000000000000000, 0x0000000000000000,
     0x0000000000000000, 0x0000000000000000, 0x0000000000000000, 0x0000000000000000,
     0x0000000000000000, 0x0000000000000000, 0x0000000000000000, 0x0000000000000000,
     0x0000000000000000, 0x0000000000000000, 0x0000000000000000, 0x0000000000000000,
     0x0000000000000000, 0x0000000000000000, 0x0000000000000000, 0x0000000000000000,
     0x0000000000000000, 0x0000000000000000, 0x0000000000000000, 0x0000000000000000,
     0x0000000000000000, 0x0000000000000000, 0x0000000000000000, 0x0000000000000000,
     0x0000000000000000, 0x0000000000000000, 0x0000000000000000, 0x0000000000000000,
     0x0000000000000000, 0x0000000000000000, 0x0000000000000000, 0x0000000000000000,
     0x0000000000000000]) =
   (67, 0x0000000000000000,
    [0x0706050403020100, 0x0f0e0d0c0b0a0908, 0x1716151413121110, 0xfb6a59083fae9dce,
     0xc02a1c4270facc90, 0xfcee08a785fd1bb7, 0x84c6876948b110fe, 0x07015b263298007d,
     0x7381c98edf786443, 0x22715d3f815665cf, 0xee979aadc5585565, 0x6f45bc8e44791444,
     0x16924e99526129ff, 0x02d3086885cd9d38, 0x10cd12fa236381cc, 0xaa78c2164bc49e27,
     0x72c463f4d7f6b8e3, 0xb64627440b1dc2a2, 0x282b9b7575e905a5, 0x7abc56d2d1eaf7f1,
     0x7145970c83c1ccde, 0xfee88f1bd252df0e, 0xb570303fe97a7e1c, 0xd3436df77f86db00,
     0x164b2b85b5a59623, 0x19221808fb6b6a46, 0x8e0af08910a2ff11, 0xc0952563f94419cd,
     0x82c6110d4428571e, 0x4981ac47939a8f7e, 0x12c2f5d08df11f29, 0xce4d9f15a2b69af5,
     0x535339ab8218ca73, 0xb2625e80ba6c753c, 0x6cd80ed241a22cfd, 0xd7fa476311c952df,
     0x4a1d4de516b635b7, 0x0ec58c4f4de076ec, 0x693151d1f354a490, 0xbe578d3dc8161491,
     0xdd15fac4d79c2acb, 0x50bd4edadb211c99, 0xfeb40ff4c13fd937, 0xa2d7c43afc57d383,
     0xe13535e1d491642d, 0x637e05e9191b1c0d, 0x27701b26b11afe3e, 0x3853c8c8965c6bf5,
     0x680ebf837d4aa831, 0xe30ed8d11698fe46, 0x75fd01a05a190424, 0x5e1130528c57e70b,
     0xc2d212219028832b, 0x4e759d398ee1638e, 0x8cc725d9da9a22bf, 0x34797b38c92d9aab,
     0x6442da12e4a9f68c, 0x39f4acc557ba7cfa, 0x2f275b93c95e8d07, 0x0cabbb265ee83000,
     0xc7549fec06760606, 0x64477e6f7608d25a, 0x1998dcf2b8b65893, 0x6a01f64285145760,
     0x9058a03cf104e23d, 0x8d69bd091679750a, 0x6c85a5ccc943116c, 0x0000000000000000,
     0x0000000000000000])"
  by (simp add: zloop.simps rhs_69R3K_def rotrConstant_def word_rotr_shifts)

lemma expand_69R3K: "SIMON128_ExpandKey_69R3K (replicate 69 0) key_69R3K = subkeys_69R3K"
  unfolding unfold_69R3K seeded_69R3K zloop_69R3K snd_conv subkeys_69R3K_def
  by (simp add: Let_def rhs_69R3K_def rotrConstant_def word_rotr_shifts)

lemma encrypt_69R3K:
  "SIMON_Encrypt 69 (0x206572656874206e, 0x6568772065626972) subkeys_69R3K = (0xc4ac61effcdc0d4f, 0x6c9c8d6e2597b85b)"
  unfolding SIMON_Encrypt_def subkeys_69R3K_def Let_def
  by (simp add: enc_loop.simps R2_def Let_def f_def rotlConstant_def word_rotl_shifts)

lemma zeros_72R4K: "replicate 72 (0 :: word64) =
    [0, 0, 0, 0,
     0, 0, 0, 0,
     0, 0, 0, 0,
     0, 0, 0, 0,
     0, 0, 0, 0,
     0, 0, 0, 0,
     0, 0, 0, 0,
     0, 0, 0, 0,
     0, 0, 0, 0,
     0, 0, 0, 0,
     0, 0, 0, 0,
     0, 0, 0, 0,
     0, 0, 0, 0,
     0, 0, 0, 0,
     0, 0, 0, 0,
     0, 0, 0, 0,
     0, 0, 0, 0,
     0, 0, 0, 0]"
  by (simp add: eval_nat_numeral)

lemma seeded_72R4K:
  "((replicate 72 0)[0 := key_72R4K ! 3, 1 := key_72R4K ! 2, 2 := key_72R4K ! 1, 3 := key_72R4K ! 0]) =
    ([0x0706050403020100, 0x0f0e0d0c0b0a0908, 0x1716151413121110, 0x1f1e1d1c1b1a1918,
     0x0000000000000000, 0x0000000000000000, 0x0000000000000000, 0x0000000000000000,
     0x0000000000000000, 0x0000000000000000, 0x0000000000000000, 0x0000000000000000,
     0x0000000000000000, 0x0000000000000000, 0x0000000000000000, 0x0000000000000000,
     0x0000000000000000, 0x0000000000000000, 0x0000000000000000, 0x0000000000000000,
     0x0000000000000000, 0x0000000000000000, 0x0000000000000000, 0x0000000000000000,
     0x0000000000000000, 0x0000000000000000, 0x0000000000000000, 0x0000000000000000,
     0x0000000000000000, 0x0000000000000000, 0x0000000000000000, 0x0000000000000000,
     0x0000000000000000, 0x0000000000000000, 0x0000000000000000, 0x0000000000000000,
     0x0000000000000000, 0x0000000000000000, 0x0000000000000000, 0x0000000000000000,
     0x0000000000000000, 0x0000000000000000, 0x0000000000000000, 0x0000000000000000,
     0x0000000000000000, 0x0000000000000000, 0x0000000000000000, 0x0000000000000000,
     0x0000000000000000, 0x0000000000000000, 0x0000000000000000, 0x0000000000000000,
     0x0000000000000000, 0x0000000000000000, 0x0000000000000000, 0x0000000000000000,
     0x0000000000000000, 0x0000000000000000, 0x0000000000000000, 0x0000000000000000,
     0x0000000000000000, 0x0000000000000000, 0x0000000000000000, 0x0000000000000000,
     0x0000000000000000, 0x0000000000000000, 0x0000000000000000, 0x0000000000000000,
     0x0000000000000000, 0x0000000000000000, 0x0000000000000000, 0x0000000000000000] :: word64 list)"
  by (simp add: zeros_72R4K key_72R4K_def)

lemma zloop_72R4K:
  "zloop 68 (\<lambda>z. rhs_72R4K 0xfffffffffffffffc (z AND 1)) (4, 0xfdc94c3a046d678b,
    [0x0706050403020100, 0x0f0e0d0c0b0a0908, 0x1716151413121110, 0x1f1e1d1c1b1a1918,
     0x0000000000000000, 0x0000000000000000, 0x0000000000000000, 0x0000000000000000,
     0x0000000000000000, 0x0000000000000000, 0x0000000000000000, 0x0000000000000000,
     0x0000000000000000, 0x0000000000000000, 0x0000000000000000, 0x0000000000000000,
     0x0000000000000000, 0x0000000000000000, 0x0000000000000000, 0x0000000000000000,
     0x0000000000000000, 0x0000000000000000, 0x0000000000000000, 0x0000000000000000,
     0x0000000000000000, 0x0000000000000000, 0x0000000000000000, 0x0000000000000000,
     0x0000000000000000, 0x0000000000000000, 0x0000000000000000, 0x0000000000000000,
     0x0000000000000000, 0x0000000000000000, 0x0000000000000000, 0x0000000000000000,
     0x0000000000000000, 0x0000000000000000, 0x0000000000000000, 0x0000000000000000,
     0x0000000000000000, 0x0000000000000000, 0x0000000000000000, 0x0000000000000000,
     0x0000000000000000, 0x0000000000000000, 0x0000000000000000, 0x0000000000000000,
     0x0000000000000000, 0x0000000000000000, 0x0000000000000000, 0x0000000000000000,
     0x0000000000000000, 0x0000000000000000, 0x0000000000000000, 0x0000000000000000,
     0x0000000000000000, 0x0000000000000000, 0x0000000000000000, 0x0000000000000000,
     0x0000000000000000, 0x0000000000000000, 0x0000000000000000, 0x0000000000000000,
     0x0000000000000000, 0x0000000000000000, 0x0000000000000000, 0x0000000000000000,
     0x0000000000000000, 0x0000000000000000, 0x0000000000000000, 0x0000000000000000]) =
   (68, 0x0000000000000000,
    [0x0706050403020100, 0x0f0e0d0c0b0a0908, 0x1716151413121110, 0x1f1e1d1c1b1a1918,
     0x7262d303b0a011c3, 0xb5069a3da370ec49, 0x5588439d9423e835, 0xd45bd42be7d3bc42,
     0x95d63c18ff10381e, 0x8e52a3d392ae0b18, 0x8d2efc1b34995478, 0x6dee39824d6ed866,
     0x08311575366dfffd, 0xcb91edc3362f6aa1, 0x0c0305c3f518042e, 0x3f7809565e38a75e,
     0xfd8f7017ca8e416e, 0x0e058c1d43bdbf5e, 0xf2181e83078f633c, 0x12adbc8dde87232f,
     0x1808a9a2b12a4835, 0x886ffd8e453d7f85, 0x7f9783dee5405671, 0x41553647fa3bbf54,
     0x6790a0b8a992bb91, 0x8d475e5cb28981fa, 0x18eb4f6b40e06152, 0x0861e447248dacce,
     0x72018cf92b796a3f, 0x7f46602d1a3e9419, 0x53590cf77b30dfc4, 0xf3c1e06cfd629a16,
     0xfc5f013613dd3135, 0x1a02056b802faef6, 0x846783a9cf1bf814, 0xd6841671bdbc0cc6,
     0xa31b3abe8076f610, 0x3dfb6c156f4fe4b6, 0x623eba5ca89b0f90, 0xd1897281dd94af28,
     0xe8cba626810ac017, 0x12b0ba3ed4576710, 0x27f1928653f59243, 0x6459d3334ca51ba4,
     0xc61219ad9dd719bd, 0x3de57cab3bc05122, 0xea19af8c9239f4fe, 0x8d5f96bebb02d0ea,
     0xe3842f10f8d8e8e1, 0x7f473c0d0f8c33cd, 0xa60a99d3fa4cf6d9, 0xce47ab7e80a4e231,
     0xf9b3fd3cb773ef52, 0x851a56bcaa80029b, 0xb863f7519abd9a76, 0x085816bcb96d6fde,
     0x6055fc9debf7687e, 0xb4b845e0615d31a2, 0x363499ae8aa7c894, 0x627d313f6160c9f9,
     0xcb2611465fc12b50, 0x73bfcc5aff52d55f, 0x03c4cabf5497ed92, 0x537302d9f1650b97,
     0x61e094b881ff9a96, 0x2444879966513b02, 0x603d6e7f1810a8e3, 0xa79858eadd19bc25,
     0x0000000000000000, 0x0000000000000000, 0x0000000000000000, 0x0000000000000000])"
  by (simp add: zloop.simps rhs_72R4K_def rotrConstant_def word_rotr_shifts)

lemma expand_72R4K: "SIMON128_ExpandKey_72R4K (replicate 72 0) key_72R4K = subkeys_72R4K"
  unfolding unfold_72R4K seeded_72R4K zloop_72R4K snd_conv subkeys_72R4K_def
  by (simp add: Let_def rhs_72R4K_def rotrConstant_def word_rotr_shifts)

lemma encrypt_72R4K:
  "SIMON_Encrypt 72 (0x74206e69206d6f6f, 0x6d69732061207369) subkeys_72R4K = (0x8d2b5579afc8a3a0, 0x3bf72a87efe7b868)"
  unfolding SIMON_Encrypt_def subkeys_72R4K_def Let_def
  by (simp add: enc_loop.simps R2_def Let_def f_def rotlConstant_def word_rotl_shifts)

section \<open>The loops of SIMON-64 on a longer array\<close>

lemma zeros_65: "replicate 65 (0 :: word32) =
    [0, 0, 0, 0, 0, 0,
     0, 0, 0, 0, 0, 0,
     0, 0, 0, 0, 0, 0,
     0, 0, 0, 0, 0, 0,
     0, 0, 0, 0, 0, 0,
     0, 0, 0, 0, 0, 0,
     0, 0, 0, 0, 0, 0,
     0, 0, 0, 0, 0, 0,
     0, 0, 0, 0, 0, 0,
     0, 0, 0, 0, 0, 0,
     0, 0, 0, 0, 0]"
  by (simp add: eval_nat_numeral)

lemma seeded65_42R3K:
  "((replicate 65 0)[0 := key_42R3K ! 2, 1 := key_42R3K ! 1, 2 := key_42R3K ! 0]) =
    ([0x03020100, 0x0b0a0908, 0x13121110, 0x00000000, 0x00000000, 0x00000000,
     0x00000000, 0x00000000, 0x00000000, 0x00000000, 0x00000000, 0x00000000,
     0x00000000, 0x00000000, 0x00000000, 0x00000000, 0x00000000, 0x00000000,
     0x00000000, 0x00000000, 0x00000000, 0x00000000, 0x00000000, 0x00000000,
     0x00000000, 0x00000000, 0x00000000, 0x00000000, 0x00000000, 0x00000000,
     0x00000000, 0x00000000, 0x00000000, 0x00000000, 0x00000000, 0x00000000,
     0x00000000, 0x00000000, 0x00000000, 0x00000000, 0x00000000, 0x00000000,
     0x00000000, 0x00000000, 0x00000000, 0x00000000, 0x00000000, 0x00000000,
     0x00000000, 0x00000000, 0x00000000, 0x00000000, 0x00000000, 0x00000000,
     0x00000000, 0x00000000, 0x00000000, 0x00000000, 0x00000000, 0x00000000,
     0x00000000, 0x00000000, 0x00000000, 0x00000000, 0x00000000] :: word32 list)"
  by (simp add: zeros_65 key_42R3K_def)

lemma zloop43_42R3K:
  "zloop 43 (\<lambda>z. rhs_42R3K 0xfffffffc (z AND 1)) (3, 0x7369f885192c0ef5,
    [0x03020100, 0x0b0a0908, 0x13121110, 0x00000000, 0x00000000, 0x00000000,
     0x00000000, 0x00000000, 0x00000000, 0x00000000, 0x00000000, 0x00000000,
     0x00000000, 0x00000000, 0x00000000, 0x00000000, 0x00000000, 0x00000000,
     0x00000000, 0x00000000, 0x00000000, 0x00000000, 0x00000000, 0x00000000,
     0x00000000, 0x00000000, 0x00000000, 0x00000000, 0x00000000, 0x00000000,
     0x00000000, 0x00000000, 0x00000000, 0x00000000, 0x00000000, 0x00000000,
     0x00000000, 0x00000000, 0x00000000, 0x00000000, 0x00000000, 0x00000000,
     0x00000000, 0x00000000, 0x00000000, 0x00000000, 0x00000000, 0x00000000,
     0x00000000, 0x00000000, 0x00000000, 0x00000000, 0x00000000, 0x00000000,
     0x00000000, 0x00000000, 0x00000000, 0x00000000, 0x00000000, 0x00000000,
     0x00000000, 0x00000000, 0x00000000, 0x00000000, 0x00000000]) =
   (43, 0x00000000007369f8,
    [0x03020100, 0x0b0a0908, 0x13121110, 0xffae9dce, 0xc4facc91, 0xc83d1bb6,
     0xb5d510ff, 0x36e2c07c, 0x72709043, 0x1343f40e, 0xea417e40, 0x9e635793,
     0xa6965478, 0x8b052e75, 0x884c5f47, 0xd0e4e598, 0xe3e80363, 0x35f020e1,
     0x1afa1c76, 0xbee71ed6, 0x763d4d2a, 0x0ca19efc, 0x0046cb1b, 0x59ce0704,
     0x3dfb4191, 0xcbd9e8cc, 0xf3f75b6d, 0xa34520b7, 0xba7ae12d, 0x60e056a6,
     0xf6a8d0f4, 0x943a89c1, 0xb4db50fe, 0x3481f018, 0xee1d573f, 0x4806d097,
     0x56feb8ff, 0x0e529452, 0xd6d654a4, 0x7eb6e8dd, 0x8990d838, 0xb082bddc,
     0xdc516b46, 0x00000000, 0x00000000, 0x00000000, 0x00000000, 0x00000000,
     0x00000000, 0x00000000, 0x00000000, 0x00000000, 0x00000000, 0x00000000,
     0x00000000, 0x00000000, 0x00000000, 0x00000000, 0x00000000, 0x00000000,
     0x00000000, 0x00000000, 0x00000000, 0x00000000, 0x00000000])"
  by (simp add: zloop.simps rhs_42R3K_def rotrConstant_def word_rotr_shifts)

lemma zeros_66: "replicate 66 (0 :: word32) =
    [0, 0, 0, 0, 0, 0,
     0, 0, 0, 0, 0, 0,
     0, 0, 0, 0, 0, 0,
     0, 0, 0, 0, 0, 0,
     0, 0, 0, 0, 0, 0,
     0, 0, 0, 0, 0, 0,
     0, 0, 0, 0, 0, 0,
     0, 0, 0, 0, 0, 0,
     0, 0, 0, 0, 0, 0,
     0, 0, 0, 0, 0, 0,
     0, 0, 0, 0, 0, 0]"
  by (simp add: eval_nat_numeral)

lemma seeded66_44R4K:
  "((replicate 66 0)[0 := key_44R4K ! 3, 1 := key_44R4K ! 2, 2 := key_44R4K ! 1, 3 := key_44R4K ! 0]) =
    ([0x03020100, 0x0b0a0908, 0x13121110, 0x1b1a1918, 0x00000000, 0x00000000,
     0x00000000, 0x00000000, 0x00000000, 0x00000000, 0x00000000, 0x00000000,
     0x00000000, 0x00000000, 0x00000000, 0x00000000, 0x00000000, 0x00000000,
     0x00000000, 0x00000000, 0x00000000, 0x00000000, 0x00000000, 0x00000000,
     0x00000000, 0x00000000, 0x00000000, 0x00000000, 0x00000000, 0x00000000,
     0x00000000, 0x00000000, 0x00000000, 0x00000000, 0x00000000, 0x00000000,
     0x00000000, 0x00000000, 0x00000000, 0x00000000, 0x00000000, 0x00000000,
     0x00000000, 0x00000000, 0x00000000, 0x00000000, 0x00000000, 0x00000000,
     0x00000000, 0x00000000, 0x00000000, 0x00000000, 0x00000000, 0x00000000,
     0x00000000, 0x00000000, 0x00000000, 0x00000000, 0x00000000, 0x00000000,
     0x00000000, 0x00000000, 0x00000000, 0x00000000, 0x00000000, 0x00000000] :: word32 list)"
  by (simp add: zeros_66 key_44R4K_def)

lemma zloop45_44R4K:
  "zloop 45 (\<lambda>z. rhs_44R4K 0xfffffffc (z AND 1)) (4, 0xfc2ce51207a635db,
    [0x03020100, 0x0b0a0908, 0x13121110, 0x1b1a1918, 0x00000000, 0x00000000,
     0x00000000, 0x00000000, 0x00000000, 0x00000000, 0x00000000, 0x00000000,
     0x00000000, 0x00000000, 0x00000000, 0x00000000, 0x00000000, 0x00000000,
     0x00000000, 0x00000000, 0x00000000, 0x00000000, 0x00000000, 0x00000000,
     0x00000000, 0x00000000, 0x00000000, 0x00000000, 0x00000000, 0x00000000,
     0x00000000, 0x00000000, 0x00000000, 0x00000000, 0x00000000, 0x00000000,
     0x00000000, 0x00000000, 0x00000000, 0x00000000, 0x00000000, 0x00000000,
     0x00000000, 0x00000000, 0x00000000, 0x00000000, 0x00000000, 0x00000000,
     0x00000000, 0x00000000, 0x00000000, 0x00000000, 0x00000000, 0x00000000,
     0x00000000, 0x00000000, 0x00000000, 0x00000000, 0x00000000, 0x00000000,
     0x00000000, 0x00000000, 0x00000000, 0x00000000, 0x00000000, 0x00000000]) =
   (45, 0x00000000007e1672,
    [0x03020100, 0x0b0a0908, 0x13121110, 0x1b1a1918, 0x70a011c3, 0xb770ec49,
     0x57e3e835, 0xd397bc42, 0x94dcf81f, 0xbf4b5f18, 0x8e5dabb9, 0xdbf4a863,
     0xcd0c28fc, 0x5cb69911, 0x79f112a5, 0x77205863, 0x99880c12, 0x1ce97c58,
     0xc8ed2145, 0xb800dbb8, 0xe86a2756, 0x7c06d4dd, 0xab52df0a, 0x247f66a8,
     0x53587ca6, 0xd25c13f1, 0x4583b64b, 0x7d9c960d, 0xefbfc2f3, 0x89ed8513,
     0x308dfc4e, 0xbf1a2a36, 0xe1499d70, 0x4ce4d2ff, 0x32b7ebef, 0xc47505c1,
     0xd0e929e8, 0x8fe484b9, 0x42054bee, 0xaf77bae2, 0x18199c02, 0x719e3f1c,
     0x0c1cf793, 0x15df4696, 0x0d515fd6, 0x00000000, 0x00000000, 0x00000000,
     0x00000000, 0x00000000, 0x00000000, 0x00000000, 0x00000000, 0x00000000,
     0x00000000, 0x00000000, 0x00000000, 0x00000000, 0x00000000, 0x00000000,
     0x00000000, 0x00000000, 0x00000000, 0x00000000, 0x00000000, 0x00000000])"
  by (simp add: zloop.simps rhs_44R4K_def rotrConstant_def word_rotr_shifts)

section \<open>Evaluating the block operations\<close>

lemma load_bytes_4: "load_bytes mem a 4 = [mem a, mem (a + 1), mem (a + 2), mem (a + 3)]"
  by (simp add: eval_nat_numeral)

lemma load_bytes_8:
  "load_bytes mem a 8 =
     [mem a, mem (a + 1), mem (a + 2), mem (a + 3), mem (a + 4), mem (a + 5), mem (a + 6), mem (a + 7)]"
  by (simp add: eval_nat_numeral)

lemma be_bytes_4:
  "be_bytes 4 w = [ucast (drop_bit 24 w), ucast (drop_bit 16 w), ucast (drop_bit 8 w), ucast w]"
  by (simp add: eval_nat_numeral)

lemma replicate_4: "replicate 4 x = [x, x, x, x]"
  by (simp add: eval_nat_numeral)

lemma keyed_keyed_42R3K: "keyed {42, 44} keyed_42R3K"
  by (simp add: keyed_def keyed_42R3K_def subkeys_42R3K_def)

lemma keying_42R3K: "SIMON64_UncheckedSetKey fresh userKey_42R3K = Inr keyed_42R3K"
proof -
  have len: "length userKey_42R3K = 12"
    by (simp add: userKey_42R3K_def)
  have w: "GetUserKey 4 (New [] 4) 3 userKey_42R3K = [0x13121110, 0x0b0a0908, 0x03020100, 0]"
    by (simp add: GetUserKey_def New_def replicate_4 userKey_42R3K_def be_word_def)
  have "New [] 42 = replicate 42 (0 :: word32)"
    by (simp add: New_def)
  moreover have "SIMON64_ExpandKey_42R3K (replicate 42 0) [0x13121110, 0x0b0a0908, 0x03020100, 0] =
        SIMON64_ExpandKey_42R3K (replicate 42 0) key_42R3K"
    by (rule cong_42R3K) (simp_all add: key_42R3K_def)
  ultimately show ?thesis
    by (simp add: SIMON64_UncheckedSetKey_12 [OF len] fresh_def w expand_42R3K keyed_42R3K_def)
qed

lemma encrypt_zero_42R3K: "SIMON_Encrypt 42 (0, 0) subkeys_42R3K = (0xc3271112, 0x7d21dfa0)"
  unfolding SIMON_Encrypt_def subkeys_42R3K_def Let_def
  by (simp add: enc_loop.simps R2_def Let_def f_def rotlConstant_def word_rotl_shifts)

lemma sequential_call:
  "written (SIMON64_Enc_ProcessAndXorBlock keyed_42R3K two_blocks 0 None 16) 16 8 =
     [0x5c, 0xa2, 0xe2, 0x7f, 0x11, 0x1a, 0x8f, 0xc8]"
  unfolding SIMON64_Enc_ProcessAndXorBlock_def
    ProcessAndXorBlock_keyed [OF is_switch_SIMON64_Enc keyed_keyed_42R3K]
  by (simp add: written_def keyed_42R3K_def two_blocks_def store_bytes_def load_bytes_4 load_bytes_8
      be_word_def encrypt_42R3K GetBlock_def out_words_def PutBlock_def PutWord_def be_bytes_4)

lemma interleaved_call:
  "written (interleaved 4 SIMON64_Enc_switch keyed_42R3K two_blocks 0 16 8) 16 8 =
     [0xc3, 0x27, 0x11, 0x12, 0x7d, 0x21, 0xdf, 0xa0]"
  unfolding interleaved_def is_switchD [OF is_switch_SIMON64_Enc] Let_def
  by (simp add: written_def keyed_42R3K_def two_blocks_def store_bytes_def load_bytes_4 load_bytes_8
      be_word_def encrypt_zero_42R3K GetBlock_def in_words_def out_words_def PutBlock_def
      PutWord_def be_bytes_4)

section \<open>The claims\<close>

text \<open>
  C10.  For all words \<open>x\<close>, \<open>y\<close>, \<open>k\<close>, \<open>l\<close> of either width, the paired round
  \<open>R2(x, y, k, l)\<close> leaves \<open>y1 = y XOR f(x) XOR k\<close> in its second and
  \<open>x1 = x XOR f(y1) XOR l\<close> in its first reference, and the call with the swapped
  pair and the swapped keys, \<open>R2(y1, x1, l, k)\<close>, as the loop of \<^verbatim>\<open>SIMON_Decrypt\<close>
  makes it, restores the original values: its first reference, which is bound to
  the variable that held \<open>y1\<close>, holds \<open>y\<close> again and its second, bound to the
  variable that held \<open>x1\<close>, holds \<open>x\<close>.
\<close>

theorem R2_undone_by_swapped_R2:
  fixes x y k l :: "'a::len word"
  shows "R2 x y k l = ((x XOR f ((y XOR f x) XOR k)) XOR l, (y XOR f x) XOR k) \<and>
         (case R2 x y k l of (x1, y1) \<Rightarrow> R2 y1 x1 l k = (y, x))"
proof
  show "R2 x y k l = ((x XOR f ((y XOR f x) XOR k)) XOR l, (y XOR f x) XOR k)"
    by (simp add: R2_def Let_def)
  show "case R2 x y k l of (x1, y1) \<Rightarrow> R2 y1 x1 l k = (y, x)"
    using R2_swapped [of x y k l] by (simp only: case_prod_beta)
qed

text \<open>
  C1.  For each round count \<open>R\<close> that the file instantiates (42 and 44 for SIMON-64,
  68, 69 and 72 for SIMON-128), every subkey array \<open>k\<close> of \<open>R\<close> words and every block
  \<open>p\<close> of two words, of either width, \<^verbatim>\<open>SIMON_Decrypt\<close> with \<open>R\<close> rounds applied to the
  result of \<^verbatim>\<open>SIMON_Encrypt\<close> with \<open>R\<close> rounds returns \<open>p\<close>.
\<close>

theorem SIMON_Decrypt_inverts_SIMON_Encrypt:
  fixes p :: "'a::len word \<times> 'a word"
  shows "R \<in> {42, 44, 68, 69, 72} \<Longrightarrow> length k = R \<Longrightarrow>
         SIMON_Decrypt R (SIMON_Encrypt R p k) k = p"
  by (rule SIMON_Decrypt_Encrypt) auto

theorem SIMON_Decrypt_inverts_SIMON_Encrypt_witness:
  "(69 :: nat) \<in> {42, 44, 68, 69, 72} \<and> length subkeys_69R3K = 69 \<and>
   SIMON_Decrypt 69 (0xc4ac61effcdc0d4f, 0x6c9c8d6e2597b85b) subkeys_69R3K =
     (0x206572656874206e, 0x6568772065626972)"
proof -
  have len: "length subkeys_69R3K = 69"
    by (simp add: subkeys_69R3K_def)
  show ?thesis
    using SIMON_Decrypt_inverts_SIMON_Encrypt
      [of 69 subkeys_69R3K "(0x206572656874206e, 0x6568772065626972)"] len
    by (simp add: encrypt_69R3K)
qed

text \<open>
  C3, as the specification states it.  It would have the loop driven by \<open>z\<close> derive 62
  words in every function, that is, every function be its seeding, 62 iterations of
  the body of its loop and then its tail.  No function is, on its published key.  On
  a zero array with room for 62 derived words (65 and 66 words),
  \<^verbatim>\<open>SIMON64_ExpandKey_42R3K\<close> leaves word 42 and \<^verbatim>\<open>SIMON64_ExpandKey_44R4K\<close> word 44
  as they were, the first word that 62 iterations derive and the functions do not.
  On the zero array of the declared size, \<^verbatim>\<open>SIMON128_ExpandKey_68R2K\<close>,
  \<^verbatim>\<open>SIMON128_ExpandKey_69R3K\<close> and \<^verbatim>\<open>SIMON128_ExpandKey_72R4K\<close> derive words 64, 65 and
  66 in their loops, which 62 iterations never reach.
\<close>

theorem expansions_are_not_62_iterations:
  "SIMON64_ExpandKey_42R3K (replicate 65 0) key_42R3K \<noteq>
     snd (snd ((zstep (\<lambda>z. rhs_42R3K 0xfffffffc (z AND 1)) ^^ 62)
         (3, 0x7369f885192c0ef5, (replicate 65 0)[0 := key_42R3K ! 2, 1 := key_42R3K ! 1, 2 := key_42R3K ! 0]))) \<and>
   SIMON64_ExpandKey_44R4K (replicate 66 0) key_44R4K \<noteq>
     snd (snd ((zstep (\<lambda>z. rhs_44R4K 0xfffffffc (z AND 1)) ^^ 62)
         (4, 0xfc2ce51207a635db, (replicate 66 0)[0 := key_44R4K ! 3, 1 := key_44R4K ! 2, 2 := key_44R4K ! 1, 3 := key_44R4K ! 0]))) \<and>
   SIMON128_ExpandKey_68R2K (replicate 68 0) key_68R2K \<noteq>
     (let L = snd (snd ((zstep (\<lambda>z. rhs_68R2K 0xfffffffffffffffc (z AND 1)) ^^ 62)
         (2, 0x7369f885192c0ef5, (replicate 68 0)[0 := key_68R2K ! 1, 1 := key_68R2K ! 0])));
          K1 = L[66 := rhs_68R2K 0xfffffffffffffffc 1 L 66];
          K2 = K1[67 := rhs_68R2K 0xfffffffffffffffc 0 K1 67]
      in K2) \<and>
   SIMON128_ExpandKey_69R3K (replicate 69 0) key_69R3K \<noteq>
     (let L = snd (snd ((zstep (\<lambda>z. rhs_69R3K 0xfffffffffffffffc (z AND 1)) ^^ 62)
         (3, 0xfc2ce51207a635db, (replicate 69 0)[0 := key_69R3K ! 2, 1 := key_69R3K ! 1, 2 := key_69R3K ! 0])));
          K1 = L[67 := rhs_69R3K 0xfffffffffffffffc 0 L 67];
          K2 = K1[68 := rhs_69R3K 0xfffffffffffffffc 1 K1 68]
      in K2) \<and>
   SIMON128_ExpandKey_72R4K (replicate 72 0) key_72R4K \<noteq>
     (let L = snd (snd ((zstep (\<lambda>z. rhs_72R4K 0xfffffffffffffffc (z AND 1)) ^^ 62)
         (4, 0xfdc94c3a046d678b, (replicate 72 0)[0 := key_72R4K ! 3, 1 := key_72R4K ! 2, 2 := key_72R4K ! 1, 3 := key_72R4K ! 0])));
          K1 = L[68 := rhs_72R4K 0xfffffffffffffffc 0 L 68];
          K2 = K1[69 := rhs_72R4K 0xfffffffffffffffc 1 K1 69];
          K3 = K2[70 := rhs_72R4K 0xfffffffffffffffc 0 K2 70];
          K4 = K3[71 := rhs_72R4K 0xfffffffffffffffc 0 K3 71]
      in K4)"
proof -
  have d1: "SIMON64_ExpandKey_42R3K (replicate 65 0) key_42R3K \<noteq>
      snd (snd ((zstep (\<lambda>z. rhs_42R3K 0xfffffffc (z AND 1)) ^^ 62)
          (3, 0x7369f885192c0ef5, (replicate 65 0)[0 := key_42R3K ! 2, 1 := key_42R3K ! 1, 2 := key_42R3K ! 0])))" (is "?F \<noteq> ?X")
  proof
    assume e: "?F = ?X"
    have split: "(zstep (\<lambda>z. rhs_42R3K 0xfffffffc (z AND 1)) ^^ (22 + 40))
        (3, 0x7369f885192c0ef5, (replicate 65 0)[0 := key_42R3K ! 2, 1 := key_42R3K ! 1, 2 := key_42R3K ! 0]) =
      (zstep (\<lambda>z. rhs_42R3K 0xfffffffc (z AND 1)) ^^ 22)
        (zloop 43 (\<lambda>z. rhs_42R3K 0xfffffffc (z AND 1))
          (3, 0x7369f885192c0ef5, (replicate 65 0)[0 := key_42R3K ! 2, 1 := key_42R3K ! 1, 2 := key_42R3K ! 0]))"
      by (simp only: zloop_funpow funpow_add o_apply fst_conv) simp
    have "(22::nat) + 40 = 62"
      by simp
    then have "(zstep (\<lambda>z. rhs_42R3K 0xfffffffc (z AND 1)) ^^ 62)
        (3, 0x7369f885192c0ef5, (replicate 65 0)[0 := key_42R3K ! 2, 1 := key_42R3K ! 1, 2 := key_42R3K ! 0]) =
      (zstep (\<lambda>z. rhs_42R3K 0xfffffffc (z AND 1)) ^^ 22)
        (zloop 43 (\<lambda>z. rhs_42R3K 0xfffffffc (z AND 1))
          (3, 0x7369f885192c0ef5, (replicate 65 0)[0 := key_42R3K ! 2, 1 := key_42R3K ! 1, 2 := key_42R3K ! 0]))"
      using split by (simp only:)
    then have "?X ! 42 = 0xdc516b46"
      unfolding seeded65_42R3K zloop43_42R3K
      by (simp only: funpow_nth_below fst_conv snd_conv) simp
    then have "0xdc516b46 = ?X ! 42"
      by (rule sym)
    also have "\<dots> = ?F ! 42"
      by (simp only: e)
    also have "\<dots> = 0"
      by (simp add: unfold_42R3K zloop_nth_above)
    finally show False
      by simp
  qed
  have d2: "SIMON64_ExpandKey_44R4K (replicate 66 0) key_44R4K \<noteq>
      snd (snd ((zstep (\<lambda>z. rhs_44R4K 0xfffffffc (z AND 1)) ^^ 62)
          (4, 0xfc2ce51207a635db, (replicate 66 0)[0 := key_44R4K ! 3, 1 := key_44R4K ! 2, 2 := key_44R4K ! 1, 3 := key_44R4K ! 0])))" (is "?F \<noteq> ?X")
  proof
    assume e: "?F = ?X"
    have split: "(zstep (\<lambda>z. rhs_44R4K 0xfffffffc (z AND 1)) ^^ (21 + 41))
        (4, 0xfc2ce51207a635db, (replicate 66 0)[0 := key_44R4K ! 3, 1 := key_44R4K ! 2, 2 := key_44R4K ! 1, 3 := key_44R4K ! 0]) =
      (zstep (\<lambda>z. rhs_44R4K 0xfffffffc (z AND 1)) ^^ 21)
        (zloop 45 (\<lambda>z. rhs_44R4K 0xfffffffc (z AND 1))
          (4, 0xfc2ce51207a635db, (replicate 66 0)[0 := key_44R4K ! 3, 1 := key_44R4K ! 2, 2 := key_44R4K ! 1, 3 := key_44R4K ! 0]))"
      by (simp only: zloop_funpow funpow_add o_apply fst_conv) simp
    have "(21::nat) + 41 = 62"
      by simp
    then have "(zstep (\<lambda>z. rhs_44R4K 0xfffffffc (z AND 1)) ^^ 62)
        (4, 0xfc2ce51207a635db, (replicate 66 0)[0 := key_44R4K ! 3, 1 := key_44R4K ! 2, 2 := key_44R4K ! 1, 3 := key_44R4K ! 0]) =
      (zstep (\<lambda>z. rhs_44R4K 0xfffffffc (z AND 1)) ^^ 21)
        (zloop 45 (\<lambda>z. rhs_44R4K 0xfffffffc (z AND 1))
          (4, 0xfc2ce51207a635db, (replicate 66 0)[0 := key_44R4K ! 3, 1 := key_44R4K ! 2, 2 := key_44R4K ! 1, 3 := key_44R4K ! 0]))"
      using split by (simp only:)
    then have "?X ! 44 = 0x0d515fd6"
      unfolding seeded66_44R4K zloop45_44R4K
      by (simp only: funpow_nth_below fst_conv snd_conv) simp
    then have "0x0d515fd6 = ?X ! 44"
      by (rule sym)
    also have "\<dots> = ?F ! 44"
      by (simp only: e)
    also have "\<dots> = 0"
      by (simp add: unfold_44R4K zloop_nth_above)
    finally show False
      by simp
  qed
  have d3: "SIMON128_ExpandKey_68R2K (replicate 68 0) key_68R2K \<noteq>
      (let L = snd (snd ((zstep (\<lambda>z. rhs_68R2K 0xfffffffffffffffc (z AND 1)) ^^ 62)
          (2, 0x7369f885192c0ef5, (replicate 68 0)[0 := key_68R2K ! 1, 1 := key_68R2K ! 0])));
           K1 = L[66 := rhs_68R2K 0xfffffffffffffffc 1 L 66];
           K2 = K1[67 := rhs_68R2K 0xfffffffffffffffc 0 K1 67]
       in K2)" (is "?F \<noteq> ?X")
  proof
    assume e: "?F = ?X"
    have "?F ! 64 = ?X ! 64"
      by (simp only: e)
    also have "\<dots> = 0"
      by (simp add: Let_def funpow_nth_above)
    finally have "?F ! 64 = 0" .
    then show False
      by (simp add: expand_68R2K subkeys_68R2K_def)
  qed
  have d4: "SIMON128_ExpandKey_69R3K (replicate 69 0) key_69R3K \<noteq>
      (let L = snd (snd ((zstep (\<lambda>z. rhs_69R3K 0xfffffffffffffffc (z AND 1)) ^^ 62)
          (3, 0xfc2ce51207a635db, (replicate 69 0)[0 := key_69R3K ! 2, 1 := key_69R3K ! 1, 2 := key_69R3K ! 0])));
           K1 = L[67 := rhs_69R3K 0xfffffffffffffffc 0 L 67];
           K2 = K1[68 := rhs_69R3K 0xfffffffffffffffc 1 K1 68]
       in K2)" (is "?F \<noteq> ?X")
  proof
    assume e: "?F = ?X"
    have "?F ! 65 = ?X ! 65"
      by (simp only: e)
    also have "\<dots> = 0"
      by (simp add: Let_def funpow_nth_above)
    finally have "?F ! 65 = 0" .
    then show False
      by (simp add: expand_69R3K subkeys_69R3K_def)
  qed
  have d5: "SIMON128_ExpandKey_72R4K (replicate 72 0) key_72R4K \<noteq>
      (let L = snd (snd ((zstep (\<lambda>z. rhs_72R4K 0xfffffffffffffffc (z AND 1)) ^^ 62)
          (4, 0xfdc94c3a046d678b, (replicate 72 0)[0 := key_72R4K ! 3, 1 := key_72R4K ! 2, 2 := key_72R4K ! 1, 3 := key_72R4K ! 0])));
           K1 = L[68 := rhs_72R4K 0xfffffffffffffffc 0 L 68];
           K2 = K1[69 := rhs_72R4K 0xfffffffffffffffc 1 K1 69];
           K3 = K2[70 := rhs_72R4K 0xfffffffffffffffc 0 K2 70];
           K4 = K3[71 := rhs_72R4K 0xfffffffffffffffc 0 K3 71]
       in K4)" (is "?F \<noteq> ?X")
  proof
    assume e: "?F = ?X"
    have "?F ! 66 = ?X ! 66"
      by (simp only: e)
    also have "\<dots> = 0"
      by (simp add: Let_def funpow_nth_above)
    finally have "?F ! 66 = 0" .
    then show False
      by (simp add: expand_72R4K subkeys_72R4K_def)
  qed
  show ?thesis
    using d1 d2 d3 d4 d5 by blast
qed

text \<open>
  C3, amended.  Each subkey generation function is its seeding, then exactly \<open>N\<close>
  iterations of the body of its loop driven by \<open>z\<close>, each deriving one word, and then
  its tail, on every array and every user key: \<open>N\<close> is 39 in
  \<^verbatim>\<open>SIMON64_ExpandKey_42R3K\<close> (indices 3 to 41), 40 in \<^verbatim>\<open>SIMON64_ExpandKey_44R4K\<close>
  (4 to 43), and 64 in each of \<^verbatim>\<open>SIMON128_ExpandKey_68R2K\<close> (2 to 65),
  \<^verbatim>\<open>SIMON128_ExpandKey_69R3K\<close> (3 to 66) and \<^verbatim>\<open>SIMON128_ExpandKey_72R4K\<close> (4 to 67);
  and the function's loop on the seeded array is the \<open>n\<close>-fold iteration of its body
  for \<open>n = N\<close> and for no other \<open>n\<close>.
\<close>

theorem expansions_iterate_the_z_loop:
  fixes key32 k32 :: "word32 list" and key64 k64 :: "word64 list"
  shows "SIMON64_ExpandKey_42R3K key32 k32 =
           snd (snd ((zstep (\<lambda>z. rhs_42R3K 0xfffffffc (z AND 1)) ^^ 39)
               (3, 0x7369f885192c0ef5, key32[0 := k32 ! 2, 1 := k32 ! 1, 2 := k32 ! 0]))) \<and>
         ((zstep (\<lambda>z. rhs_42R3K 0xfffffffc (z AND 1)) ^^ n)
             (3, 0x7369f885192c0ef5, key32[0 := k32 ! 2, 1 := k32 ! 1, 2 := k32 ! 0]) =
           zloop 42 (\<lambda>z. rhs_42R3K 0xfffffffc (z AND 1))
             (3, 0x7369f885192c0ef5, key32[0 := k32 ! 2, 1 := k32 ! 1, 2 := k32 ! 0]) \<longleftrightarrow> n = 39) \<and>
         SIMON64_ExpandKey_44R4K key32 k32 =
           snd (snd ((zstep (\<lambda>z. rhs_44R4K 0xfffffffc (z AND 1)) ^^ 40)
               (4, 0xfc2ce51207a635db, key32[0 := k32 ! 3, 1 := k32 ! 2, 2 := k32 ! 1, 3 := k32 ! 0]))) \<and>
         ((zstep (\<lambda>z. rhs_44R4K 0xfffffffc (z AND 1)) ^^ n)
             (4, 0xfc2ce51207a635db, key32[0 := k32 ! 3, 1 := k32 ! 2, 2 := k32 ! 1, 3 := k32 ! 0]) =
           zloop 44 (\<lambda>z. rhs_44R4K 0xfffffffc (z AND 1))
             (4, 0xfc2ce51207a635db, key32[0 := k32 ! 3, 1 := k32 ! 2, 2 := k32 ! 1, 3 := k32 ! 0]) \<longleftrightarrow> n = 40) \<and>
         SIMON128_ExpandKey_68R2K key64 k64 =
           (let L = snd (snd ((zstep (\<lambda>z. rhs_68R2K 0xfffffffffffffffc (z AND 1)) ^^ 64)
               (2, 0x7369f885192c0ef5, key64[0 := k64 ! 1, 1 := k64 ! 0])));
                K1 = L[66 := rhs_68R2K 0xfffffffffffffffc 1 L 66];
                K2 = K1[67 := rhs_68R2K 0xfffffffffffffffc 0 K1 67]
            in K2) \<and>
         ((zstep (\<lambda>z. rhs_68R2K 0xfffffffffffffffc (z AND 1)) ^^ n)
             (2, 0x7369f885192c0ef5, key64[0 := k64 ! 1, 1 := k64 ! 0]) =
           zloop 66 (\<lambda>z. rhs_68R2K 0xfffffffffffffffc (z AND 1))
             (2, 0x7369f885192c0ef5, key64[0 := k64 ! 1, 1 := k64 ! 0]) \<longleftrightarrow> n = 64) \<and>
         SIMON128_ExpandKey_69R3K key64 k64 =
           (let L = snd (snd ((zstep (\<lambda>z. rhs_69R3K 0xfffffffffffffffc (z AND 1)) ^^ 64)
               (3, 0xfc2ce51207a635db, key64[0 := k64 ! 2, 1 := k64 ! 1, 2 := k64 ! 0])));
                K1 = L[67 := rhs_69R3K 0xfffffffffffffffc 0 L 67];
                K2 = K1[68 := rhs_69R3K 0xfffffffffffffffc 1 K1 68]
            in K2) \<and>
         ((zstep (\<lambda>z. rhs_69R3K 0xfffffffffffffffc (z AND 1)) ^^ n)
             (3, 0xfc2ce51207a635db, key64[0 := k64 ! 2, 1 := k64 ! 1, 2 := k64 ! 0]) =
           zloop 67 (\<lambda>z. rhs_69R3K 0xfffffffffffffffc (z AND 1))
             (3, 0xfc2ce51207a635db, key64[0 := k64 ! 2, 1 := k64 ! 1, 2 := k64 ! 0]) \<longleftrightarrow> n = 64) \<and>
         SIMON128_ExpandKey_72R4K key64 k64 =
           (let L = snd (snd ((zstep (\<lambda>z. rhs_72R4K 0xfffffffffffffffc (z AND 1)) ^^ 64)
               (4, 0xfdc94c3a046d678b, key64[0 := k64 ! 3, 1 := k64 ! 2, 2 := k64 ! 1, 3 := k64 ! 0])));
                K1 = L[68 := rhs_72R4K 0xfffffffffffffffc 0 L 68];
                K2 = K1[69 := rhs_72R4K 0xfffffffffffffffc 1 K1 69];
                K3 = K2[70 := rhs_72R4K 0xfffffffffffffffc 0 K2 70];
                K4 = K3[71 := rhs_72R4K 0xfffffffffffffffc 0 K3 71]
            in K4) \<and>
         ((zstep (\<lambda>z. rhs_72R4K 0xfffffffffffffffc (z AND 1)) ^^ n)
             (4, 0xfdc94c3a046d678b, key64[0 := k64 ! 3, 1 := k64 ! 2, 2 := k64 ! 1, 3 := k64 ! 0]) =
           zloop 68 (\<lambda>z. rhs_72R4K 0xfffffffffffffffc (z AND 1))
             (4, 0xfdc94c3a046d678b, key64[0 := k64 ! 3, 1 := k64 ! 2, 2 := k64 ! 1, 3 := k64 ! 0]) \<longleftrightarrow> n = 64)"
proof -
  have f1: "SIMON64_ExpandKey_42R3K key32 k32 =
      snd (snd ((zstep (\<lambda>z. rhs_42R3K 0xfffffffc (z AND 1)) ^^ 39)
          (3, 0x7369f885192c0ef5, key32[0 := k32 ! 2, 1 := k32 ! 1, 2 := k32 ! 0])))"
    by (simp add: unfold_42R3K zloop_funpow)
  have f2: "SIMON64_ExpandKey_44R4K key32 k32 =
      snd (snd ((zstep (\<lambda>z. rhs_44R4K 0xfffffffc (z AND 1)) ^^ 40)
          (4, 0xfc2ce51207a635db, key32[0 := k32 ! 3, 1 := k32 ! 2, 2 := k32 ! 1, 3 := k32 ! 0])))"
    by (simp add: unfold_44R4K zloop_funpow)
  have f3: "SIMON128_ExpandKey_68R2K key64 k64 =
      (let L = snd (snd ((zstep (\<lambda>z. rhs_68R2K 0xfffffffffffffffc (z AND 1)) ^^ 64)
          (2, 0x7369f885192c0ef5, key64[0 := k64 ! 1, 1 := k64 ! 0])));
           K1 = L[66 := rhs_68R2K 0xfffffffffffffffc 1 L 66];
           K2 = K1[67 := rhs_68R2K 0xfffffffffffffffc 0 K1 67]
       in K2)"
    by (simp add: unfold_68R2K zloop_funpow)
  have f4: "SIMON128_ExpandKey_69R3K key64 k64 =
      (let L = snd (snd ((zstep (\<lambda>z. rhs_69R3K 0xfffffffffffffffc (z AND 1)) ^^ 64)
          (3, 0xfc2ce51207a635db, key64[0 := k64 ! 2, 1 := k64 ! 1, 2 := k64 ! 0])));
           K1 = L[67 := rhs_69R3K 0xfffffffffffffffc 0 L 67];
           K2 = K1[68 := rhs_69R3K 0xfffffffffffffffc 1 K1 68]
       in K2)"
    by (simp add: unfold_69R3K zloop_funpow)
  have f5: "SIMON128_ExpandKey_72R4K key64 k64 =
      (let L = snd (snd ((zstep (\<lambda>z. rhs_72R4K 0xfffffffffffffffc (z AND 1)) ^^ 64)
          (4, 0xfdc94c3a046d678b, key64[0 := k64 ! 3, 1 := k64 ! 2, 2 := k64 ! 1, 3 := k64 ! 0])));
           K1 = L[68 := rhs_72R4K 0xfffffffffffffffc 0 L 68];
           K2 = K1[69 := rhs_72R4K 0xfffffffffffffffc 1 K1 69];
           K3 = K2[70 := rhs_72R4K 0xfffffffffffffffc 0 K2 70];
           K4 = K3[71 := rhs_72R4K 0xfffffffffffffffc 0 K3 71]
       in K4)"
    by (simp add: unfold_72R4K zloop_funpow)
  show ?thesis
    using f1 f2 f3 f4 f5 by (simp add: zloop_count)
qed

theorem expansions_iterate_the_z_loop_witness:
  "snd (snd ((zstep (\<lambda>z. rhs_42R3K 0xfffffffc (z AND 1)) ^^ 39)
       (3, 0x7369f885192c0ef5, (replicate 42 0)[0 := key_42R3K ! 2, 1 := key_42R3K ! 1, 2 := key_42R3K ! 0]))) = subkeys_42R3K \<and>
   (let L = snd (snd ((zstep (\<lambda>z. rhs_69R3K 0xfffffffffffffffc (z AND 1)) ^^ 64)
       (3, 0xfc2ce51207a635db, (replicate 69 0)[0 := key_69R3K ! 2, 1 := key_69R3K ! 1, 2 := key_69R3K ! 0])));
        K1 = L[67 := rhs_69R3K 0xfffffffffffffffc 0 L 67];
        K2 = K1[68 := rhs_69R3K 0xfffffffffffffffc 1 K1 68]
    in K2) = subkeys_69R3K"
proof -
  note t = expansions_iterate_the_z_loop
    [where ?key32.0 = "replicate 42 0" and ?k32.0 = key_42R3K
       and ?key64.0 = "replicate 69 0" and ?k64.0 = key_69R3K and n = 64]
  have "SIMON64_ExpandKey_42R3K (replicate 42 0) key_42R3K =
      snd (snd ((zstep (\<lambda>z. rhs_42R3K 0xfffffffc (z AND 1)) ^^ 39)
          (3, 0x7369f885192c0ef5, (replicate 42 0)[0 := key_42R3K ! 2, 1 := key_42R3K ! 1, 2 := key_42R3K ! 0])))"
    using t by blast
  moreover have "SIMON128_ExpandKey_69R3K (replicate 69 0) key_69R3K =
      (let L = snd (snd ((zstep (\<lambda>z. rhs_69R3K 0xfffffffffffffffc (z AND 1)) ^^ 64)
          (3, 0xfc2ce51207a635db, (replicate 69 0)[0 := key_69R3K ! 2, 1 := key_69R3K ! 1, 2 := key_69R3K ! 0])));
           K1 = L[67 := rhs_69R3K 0xfffffffffffffffc 0 L 67];
           K2 = K1[68 := rhs_69R3K 0xfffffffffffffffc 1 K1 68]
       in K2)"
    using t by blast
  ultimately show ?thesis
    by (simp only: expand_42R3K expand_69R3K simp_thms)
qed

text \<open>
  C5.  For each of the five subkey generation functions, every array \<^verbatim>\<open>key\<close> of the
  declared \<open>R\<close> words and every user key \<open>k\<close> of \<open>m\<close> words (\<open>m = 3, 4\<close> for SIMON-64
  and \<open>m = 2, 3, 4\<close> for SIMON-128), the first \<open>m\<close> subkeys are the words of the user
  key in reverse order: \<open>key[i] = k[m - 1 - i]\<close> for every \<open>i < m\<close>.
\<close>

theorem first_subkeys_are_reversed_user_key:
  fixes key32 k32 :: "word32 list" and key64 k64 :: "word64 list"
  shows "(length key32 = 42 \<and> length k32 = 3 \<and> i < 3 \<longrightarrow>
            SIMON64_ExpandKey_42R3K key32 k32 ! i = k32 ! (3 - 1 - i)) \<and>
         (length key32 = 44 \<and> length k32 = 4 \<and> i < 4 \<longrightarrow>
            SIMON64_ExpandKey_44R4K key32 k32 ! i = k32 ! (4 - 1 - i)) \<and>
         (length key64 = 68 \<and> length k64 = 2 \<and> i < 2 \<longrightarrow>
            SIMON128_ExpandKey_68R2K key64 k64 ! i = k64 ! (2 - 1 - i)) \<and>
         (length key64 = 69 \<and> length k64 = 3 \<and> i < 3 \<longrightarrow>
            SIMON128_ExpandKey_69R3K key64 k64 ! i = k64 ! (3 - 1 - i)) \<and>
         (length key64 = 72 \<and> length k64 = 4 \<and> i < 4 \<longrightarrow>
            SIMON128_ExpandKey_72R4K key64 k64 ! i = k64 ! (4 - 1 - i))"
  by (simp add: seeds_42R3K seeds_44R4K seeds_68R2K seeds_69R3K seeds_72R4K)

theorem first_subkeys_are_reversed_user_key_witness:
  "SIMON64_ExpandKey_42R3K (replicate 42 0) [0x13121110, 0x0b0a0908, 0x03020100] ! 0 = 0x03020100 \<and>
   SIMON64_ExpandKey_44R4K (replicate 44 0) [0x1b1a1918, 0x13121110, 0x0b0a0908, 0x03020100] ! 1
     = 0x0b0a0908 \<and>
   SIMON128_ExpandKey_68R2K (replicate 68 0) [0x0f0e0d0c0b0a0908, 0x0706050403020100] ! 1
     = 0x0f0e0d0c0b0a0908 \<and>
   SIMON128_ExpandKey_69R3K (replicate 69 0)
     [0x1716151413121110, 0x0f0e0d0c0b0a0908, 0x0706050403020100] ! 2 = 0x1716151413121110 \<and>
   SIMON128_ExpandKey_72R4K (replicate 72 0)
     [0x1f1e1d1c1b1a1918, 0x1716151413121110, 0x0f0e0d0c0b0a0908, 0x0706050403020100] ! 3
     = 0x1f1e1d1c1b1a1918"
  using
    first_subkeys_are_reversed_user_key
      [of "replicate 42 0" "[0x13121110, 0x0b0a0908, 0x03020100]" 0 "[]" "[]"]
    first_subkeys_are_reversed_user_key
      [of "replicate 44 0" "[0x1b1a1918, 0x13121110, 0x0b0a0908, 0x03020100]" 1 "[]" "[]"]
    first_subkeys_are_reversed_user_key
      [of "[]" "[]" 1 "replicate 68 0" "[0x0f0e0d0c0b0a0908, 0x0706050403020100]"]
    first_subkeys_are_reversed_user_key
      [of "[]" "[]" 2 "replicate 69 0"
         "[0x1716151413121110, 0x0f0e0d0c0b0a0908, 0x0706050403020100]"]
    first_subkeys_are_reversed_user_key
      [of "[]" "[]" 3 "replicate 72 0"
         "[0x1f1e1d1c1b1a1918, 0x1716151413121110, 0x0f0e0d0c0b0a0908, 0x0706050403020100]"]
  by simp

text \<open>
  C4.  In each SIMON-128 function, on an array of the declared \<open>R\<close> words, every subkey
  of the loop driven by \<open>z\<close> and every subkey after it satisfies the same recurrence,
  the right-hand side of the loop's assignment read on the finished schedule; the
  loop's subkey \<open>i\<close> takes \<^verbatim>\<open>(z & 1)\<close> from the constant \<open>z\<close> shifted \<open>i - m\<close> times, and
  the subkeys after the loop take in its place the constants 1 for \<open>key[66]\<close> and 0
  for \<open>key[67]\<close> (68 rounds), 0 for \<open>key[67]\<close> and 1 for \<open>key[68]\<close> (69 rounds), and
  0, 1, 0, 0 for \<open>key[68]\<close>, \<open>key[69]\<close>, \<open>key[70]\<close>, \<open>key[71]\<close> (72 rounds).
\<close>

theorem tail_subkeys_follow_the_recurrence:
  fixes key k :: "word64 list"
  shows
    "(length key = 68 \<longrightarrow>
        (2 \<le> i \<and> i < 66 \<longrightarrow>
           SIMON128_ExpandKey_68R2K key k ! i =
             rhs_68R2K 0xfffffffffffffffc (drop_bit (i - 2) 0x7369f885192c0ef5 AND 1)
               (SIMON128_ExpandKey_68R2K key k) i) \<and>
        SIMON128_ExpandKey_68R2K key k ! 66 =
          rhs_68R2K 0xfffffffffffffffc 1 (SIMON128_ExpandKey_68R2K key k) 66 \<and>
        SIMON128_ExpandKey_68R2K key k ! 67 =
          rhs_68R2K 0xfffffffffffffffc 0 (SIMON128_ExpandKey_68R2K key k) 67) \<and>
     (length key = 69 \<longrightarrow>
        (3 \<le> i \<and> i < 67 \<longrightarrow>
           SIMON128_ExpandKey_69R3K key k ! i =
             rhs_69R3K 0xfffffffffffffffc (drop_bit (i - 3) 0xfc2ce51207a635db AND 1)
               (SIMON128_ExpandKey_69R3K key k) i) \<and>
        SIMON128_ExpandKey_69R3K key k ! 67 =
          rhs_69R3K 0xfffffffffffffffc 0 (SIMON128_ExpandKey_69R3K key k) 67 \<and>
        SIMON128_ExpandKey_69R3K key k ! 68 =
          rhs_69R3K 0xfffffffffffffffc 1 (SIMON128_ExpandKey_69R3K key k) 68) \<and>
     (length key = 72 \<longrightarrow>
        (4 \<le> i \<and> i < 68 \<longrightarrow>
           SIMON128_ExpandKey_72R4K key k ! i =
             rhs_72R4K 0xfffffffffffffffc (drop_bit (i - 4) 0xfdc94c3a046d678b AND 1)
               (SIMON128_ExpandKey_72R4K key k) i) \<and>
        SIMON128_ExpandKey_72R4K key k ! 68 =
          rhs_72R4K 0xfffffffffffffffc 0 (SIMON128_ExpandKey_72R4K key k) 68 \<and>
        SIMON128_ExpandKey_72R4K key k ! 69 =
          rhs_72R4K 0xfffffffffffffffc 1 (SIMON128_ExpandKey_72R4K key k) 69 \<and>
        SIMON128_ExpandKey_72R4K key k ! 70 =
          rhs_72R4K 0xfffffffffffffffc 0 (SIMON128_ExpandKey_72R4K key k) 70 \<and>
        SIMON128_ExpandKey_72R4K key k ! 71 =
          rhs_72R4K 0xfffffffffffffffc 0 (SIMON128_ExpandKey_72R4K key k) 71)"
proof (intro conjI impI)
  show "SIMON128_ExpandKey_68R2K key k ! i =
          rhs_68R2K 0xfffffffffffffffc (drop_bit (i - 2) 0x7369f885192c0ef5 AND 1)
            (SIMON128_ExpandKey_68R2K key k) i"
    if "length key = 68" and "2 \<le> i \<and> i < 66"
    using that by (intro loop_68R2K) simp_all
  show "SIMON128_ExpandKey_69R3K key k ! i =
          rhs_69R3K 0xfffffffffffffffc (drop_bit (i - 3) 0xfc2ce51207a635db AND 1)
            (SIMON128_ExpandKey_69R3K key k) i"
    if "length key = 69" and "3 \<le> i \<and> i < 67"
    using that by (intro loop_69R3K) simp_all
  show "SIMON128_ExpandKey_72R4K key k ! i =
          rhs_72R4K 0xfffffffffffffffc (drop_bit (i - 4) 0xfdc94c3a046d678b AND 1)
            (SIMON128_ExpandKey_72R4K key k) i"
    if "length key = 72" and "4 \<le> i \<and> i < 68"
    using that by (intro loop_72R4K) simp_all
qed (simp_all add: tail_68R2K tail_69R3K tail_72R4K)

text \<open>
  C6.  Subkey generation and keying are functions of the user key alone: each
  subkey generation function returns the same schedule whatever the array of \<open>R\<close>
  words held before, and \<^verbatim>\<open>UncheckedSetKey\<close> leaves the same round count and the same
  subkeys (or fails alike) whatever the object held before.  For a user key of 12 or
  16 bytes \<^verbatim>\<open>SIMON64::Base::UncheckedSetKey\<close> succeeds and leaves 42 or 44 as the round
  count and as the number of subkeys; for 16, 24 or 32 bytes
  \<^verbatim>\<open>SIMON128::Base::UncheckedSetKey\<close> succeeds and leaves 68, 69 or 72.  The four
  block operations leave the round count and the subkeys as they are.
\<close>

theorem keying_is_pure_and_the_schedule_is_kept:
  fixes key32 key32' k32 :: "word32 list" and key64 key64' k64 :: "word64 list"
    and this this' this1 :: "word32 Base" and that that' that1 :: "word64 Base"
  shows "(length key32 = 42 \<and> length key32' = 42 \<longrightarrow> SIMON64_ExpandKey_42R3K key32 k32 = SIMON64_ExpandKey_42R3K key32' k32) \<and>
         (length key32 = 44 \<and> length key32' = 44 \<longrightarrow> SIMON64_ExpandKey_44R4K key32 k32 = SIMON64_ExpandKey_44R4K key32' k32) \<and>
         (length key64 = 68 \<and> length key64' = 68 \<longrightarrow> SIMON128_ExpandKey_68R2K key64 k64 = SIMON128_ExpandKey_68R2K key64' k64) \<and>
         (length key64 = 69 \<and> length key64' = 69 \<longrightarrow> SIMON128_ExpandKey_69R3K key64 k64 = SIMON128_ExpandKey_69R3K key64' k64) \<and>
         (length key64 = 72 \<and> length key64' = 72 \<longrightarrow> SIMON128_ExpandKey_72R4K key64 k64 = SIMON128_ExpandKey_72R4K key64' k64) \<and>
         map_sum id (\<lambda>inst. (m_rounds inst, m_rkeys inst)) (SIMON64_UncheckedSetKey this userKey) =
           map_sum id (\<lambda>inst. (m_rounds inst, m_rkeys inst)) (SIMON64_UncheckedSetKey this' userKey) \<and>
         map_sum id (\<lambda>inst. (m_rounds inst, m_rkeys inst)) (SIMON128_UncheckedSetKey that userKey) =
           map_sum id (\<lambda>inst. (m_rounds inst, m_rkeys inst)) (SIMON128_UncheckedSetKey that' userKey) \<and>
         (length userKey = 12 \<longrightarrow>
            (\<exists>inst. SIMON64_UncheckedSetKey this userKey = Inr inst \<and>
               m_rounds inst = 42 \<and> length (m_rkeys inst) = 42)) \<and>
         (length userKey = 16 \<longrightarrow>
            (\<exists>inst. SIMON64_UncheckedSetKey this userKey = Inr inst \<and>
               m_rounds inst = 44 \<and> length (m_rkeys inst) = 44)) \<and>
         (length userKey = 16 \<longrightarrow>
            (\<exists>inst. SIMON128_UncheckedSetKey that userKey = Inr inst \<and>
               m_rounds inst = 68 \<and> length (m_rkeys inst) = 68)) \<and>
         (length userKey = 24 \<longrightarrow>
            (\<exists>inst. SIMON128_UncheckedSetKey that userKey = Inr inst \<and>
               m_rounds inst = 69 \<and> length (m_rkeys inst) = 69)) \<and>
         (length userKey = 32 \<longrightarrow>
            (\<exists>inst. SIMON128_UncheckedSetKey that userKey = Inr inst \<and>
               m_rounds inst = 72 \<and> length (m_rkeys inst) = 72)) \<and>
         (SIMON64_Enc_ProcessAndXorBlock this mem inBlock xorBlock outBlock = Inr (this1, mem1) \<longrightarrow>
            m_rkeys this1 = m_rkeys this \<and> m_rounds this1 = m_rounds this) \<and>
         (SIMON64_Dec_ProcessAndXorBlock this mem inBlock xorBlock outBlock = Inr (this1, mem1) \<longrightarrow>
            m_rkeys this1 = m_rkeys this \<and> m_rounds this1 = m_rounds this) \<and>
         (SIMON128_Enc_ProcessAndXorBlock that mem inBlock xorBlock outBlock = Inr (that1, mem1) \<longrightarrow>
            m_rkeys that1 = m_rkeys that \<and> m_rounds that1 = m_rounds that) \<and>
         (SIMON128_Dec_ProcessAndXorBlock that mem inBlock xorBlock outBlock = Inr (that1, mem1) \<longrightarrow>
            m_rkeys that1 = m_rkeys that \<and> m_rounds that1 = m_rounds that)"
proof -
  have "m_rkeys this1 = m_rkeys this \<and> m_rounds this1 = m_rounds this"
    if "SIMON64_Enc_ProcessAndXorBlock this mem inBlock xorBlock outBlock = Inr (this1, mem1)"
    using that ProcessAndXorBlock_keeps [OF is_switch_SIMON64_Enc]
    unfolding SIMON64_Enc_ProcessAndXorBlock_def by blast
  moreover have "m_rkeys this1 = m_rkeys this \<and> m_rounds this1 = m_rounds this"
    if "SIMON64_Dec_ProcessAndXorBlock this mem inBlock xorBlock outBlock = Inr (this1, mem1)"
    using that ProcessAndXorBlock_keeps [OF is_switch_SIMON64_Dec]
    unfolding SIMON64_Dec_ProcessAndXorBlock_def by blast
  moreover have "m_rkeys that1 = m_rkeys that \<and> m_rounds that1 = m_rounds that"
    if "SIMON128_Enc_ProcessAndXorBlock that mem inBlock xorBlock outBlock = Inr (that1, mem1)"
    using that ProcessAndXorBlock_keeps [OF is_switch_SIMON128_Enc]
    unfolding SIMON128_Enc_ProcessAndXorBlock_def by blast
  moreover have "m_rkeys that1 = m_rkeys that \<and> m_rounds that1 = m_rounds that"
    if "SIMON128_Dec_ProcessAndXorBlock that mem inBlock xorBlock outBlock = Inr (that1, mem1)"
    using that ProcessAndXorBlock_keeps [OF is_switch_SIMON128_Dec]
    unfolding SIMON128_Dec_ProcessAndXorBlock_def by blast
  moreover note SIMON64_UncheckedSetKey_pure [of this userKey this']
    SIMON128_UncheckedSetKey_pure [of that userKey that']
    pure_42R3K [of key32 key32' k32] pure_44R4K [of key32 key32' k32]
    pure_68R2K [of key64 key64' k64] pure_69R3K [of key64 key64' k64]
    pure_72R4K [of key64 key64' k64]
  ultimately show ?thesis
    by (simp add: SIMON64_UncheckedSetKey_12 SIMON64_UncheckedSetKey_16
        SIMON128_UncheckedSetKey_16 SIMON128_UncheckedSetKey_24 SIMON128_UncheckedSetKey_32
        length_42R3K length_44R4K length_68R2K length_69R3K length_72R4K)
qed

text \<open>
  C7.  Key setup fails with \<open>InvalidKeyLength\<close> exactly when the length of the user key
  is not 12 or 16 bytes for SIMON-64, and not 16, 24 or 32 bytes for SIMON-128; it
  has no other failure (the assertions of \<^verbatim>\<open>UncheckedSetKey\<close> hold), so it succeeds
  exactly for the accepted lengths.
\<close>

theorem key_setup_fails_exactly_on_other_lengths:
  fixes this :: "word32 Base" and that :: "word64 Base"
  shows "(SIMON64_SetKey this userKey = Inl InvalidKeyLength \<longleftrightarrow> length userKey \<notin> {12, 16}) \<and>
         SIMON64_SetKey this userKey \<noteq> Inl AssertFailed \<and>
         ((\<exists>inst. SIMON64_SetKey this userKey = Inr inst) \<longleftrightarrow> length userKey \<in> {12, 16}) \<and>
         (SIMON128_SetKey that userKey = Inl InvalidKeyLength \<longleftrightarrow>
            length userKey \<notin> {16, 24, 32}) \<and>
         SIMON128_SetKey that userKey \<noteq> Inl AssertFailed \<and>
         ((\<exists>inst. SIMON128_SetKey that userKey = Inr inst) \<longleftrightarrow> length userKey \<in> {16, 24, 32})"
  by (auto simp add: SIMON64_SetKey_def SIMON128_SetKey_def
      SIMON64_UncheckedSetKey_12 SIMON64_UncheckedSetKey_16
      SIMON128_UncheckedSetKey_16 SIMON128_UncheckedSetKey_24 SIMON128_UncheckedSetKey_32)

theorem key_setup_fails_exactly_on_other_lengths_witness:
  "SIMON64_SetKey \<lparr>m_wspace = [], m_rkeys = [], m_kwords = 0, m_rounds = 0\<rparr> (replicate 13 0)
     = Inl InvalidKeyLength \<and>
   (\<exists>inst. SIMON64_SetKey \<lparr>m_wspace = [], m_rkeys = [], m_kwords = 0, m_rounds = 0\<rparr>
      (replicate 12 0) = Inr inst) \<and>
   SIMON128_SetKey \<lparr>m_wspace = [], m_rkeys = [], m_kwords = 0, m_rounds = 0\<rparr> (replicate 31 0)
     = Inl InvalidKeyLength \<and>
   (\<exists>inst. SIMON128_SetKey \<lparr>m_wspace = [], m_rkeys = [], m_kwords = 0, m_rounds = 0\<rparr>
      (replicate 24 0) = Inr inst)"
  using
    key_setup_fails_exactly_on_other_lengths
      [of "\<lparr>m_wspace = [], m_rkeys = [], m_kwords = 0, m_rounds = 0\<rparr>" "replicate 13 0"
          "\<lparr>m_wspace = [], m_rkeys = [], m_kwords = 0, m_rounds = 0\<rparr>"]
    key_setup_fails_exactly_on_other_lengths
      [of "\<lparr>m_wspace = [], m_rkeys = [], m_kwords = 0, m_rounds = 0\<rparr>" "replicate 12 0"
          "\<lparr>m_wspace = [], m_rkeys = [], m_kwords = 0, m_rounds = 0\<rparr>"]
    key_setup_fails_exactly_on_other_lengths
      [of "\<lparr>m_wspace = [], m_rkeys = [], m_kwords = 0, m_rounds = 0\<rparr>" "replicate 31 0"
          "\<lparr>m_wspace = [], m_rkeys = [], m_kwords = 0, m_rounds = 0\<rparr>"]
    key_setup_fails_exactly_on_other_lengths
      [of "\<lparr>m_wspace = [], m_rkeys = [], m_kwords = 0, m_rounds = 0\<rparr>" "replicate 24 0"
          "\<lparr>m_wspace = [], m_rkeys = [], m_kwords = 0, m_rounds = 0\<rparr>"]
  by simp

text \<open>
  C8.  On a keyed object, for every memory and every input block at \<open>a\<close>, the block
  operation called with the output block at \<open>a\<close> too leaves in it the bytes that the
  same call with the output block at any other place \<open>b\<close> leaves there, for
  encryption and decryption of both ciphers; when \<^verbatim>\<open>xorBlock\<close> is not null, its block
  is apart from both output blocks.
\<close>

theorem in_place_output_is_out_of_place_output:
  fixes this :: "word32 Base" and that :: "word64 Base"
  shows "(keyed {42, 44} this \<and> xor_apart 8 xorBlock a \<and> xor_apart 8 xorBlock b \<longrightarrow>
            (\<exists>this1 mem1 this2 mem2.
               SIMON64_Enc_ProcessAndXorBlock this mem a xorBlock a = Inr (this1, mem1) \<and>
               SIMON64_Enc_ProcessAndXorBlock this mem a xorBlock b = Inr (this2, mem2) \<and>
               load_bytes mem1 a 8 = load_bytes mem2 b 8)) \<and>
         (keyed {42, 44} this \<and> xor_apart 8 xorBlock a \<and> xor_apart 8 xorBlock b \<longrightarrow>
            (\<exists>this1 mem1 this2 mem2.
               SIMON64_Dec_ProcessAndXorBlock this mem a xorBlock a = Inr (this1, mem1) \<and>
               SIMON64_Dec_ProcessAndXorBlock this mem a xorBlock b = Inr (this2, mem2) \<and>
               load_bytes mem1 a 8 = load_bytes mem2 b 8)) \<and>
         (keyed {68, 69, 72} that \<and> xor_apart 16 xorBlock a \<and> xor_apart 16 xorBlock b \<longrightarrow>
            (\<exists>this1 mem1 this2 mem2.
               SIMON128_Enc_ProcessAndXorBlock that mem a xorBlock a = Inr (this1, mem1) \<and>
               SIMON128_Enc_ProcessAndXorBlock that mem a xorBlock b = Inr (this2, mem2) \<and>
               load_bytes mem1 a 16 = load_bytes mem2 b 16)) \<and>
         (keyed {68, 69, 72} that \<and> xor_apart 16 xorBlock a \<and> xor_apart 16 xorBlock b \<longrightarrow>
            (\<exists>this1 mem1 this2 mem2.
               SIMON128_Dec_ProcessAndXorBlock that mem a xorBlock a = Inr (this1, mem1) \<and>
               SIMON128_Dec_ProcessAndXorBlock that mem a xorBlock b = Inr (this2, mem2) \<and>
               load_bytes mem1 a 16 = load_bytes mem2 b 16))"
  using ProcessAndXorBlock_in_place [OF is_switch_SIMON64_Enc, of this 4 xorBlock a b mem]
    ProcessAndXorBlock_in_place [OF is_switch_SIMON64_Dec, of this 4 xorBlock a b mem]
    ProcessAndXorBlock_in_place [OF is_switch_SIMON128_Enc, of that 8 xorBlock a b mem]
    ProcessAndXorBlock_in_place [OF is_switch_SIMON128_Dec, of that 8 xorBlock a b mem]
  by (simp add: SIMON64_Enc_ProcessAndXorBlock_def SIMON64_Dec_ProcessAndXorBlock_def
      SIMON128_Enc_ProcessAndXorBlock_def SIMON128_Dec_ProcessAndXorBlock_def)

text \<open>
  C9, amended.  The block operations write the object's workspace, so the object
  is not unchanged by a call; what a call writes to memory, though, is determined by
  the round count, the subkeys, the memory and the three pointers, whatever the
  workspace holds: two keyed objects with the same round count and subkeys give the
  same memory, and the call leaves the object keyed with the same round count and
  subkeys.  So calls made one after the other on one object each give the output of
  a call on the freshly keyed object.
\<close>

theorem block_output_ignores_the_workspace:
  fixes this this' :: "word32 Base" and that that' :: "word64 Base"
  shows "(keyed {42, 44} this \<and> keyed {42, 44} this' \<and>
          m_rounds this = m_rounds this' \<and> m_rkeys this = m_rkeys this' \<longrightarrow>
            (\<exists>this1 this2 mem1.
               SIMON64_Enc_ProcessAndXorBlock this mem inBlock xorBlock outBlock = Inr (this1, mem1) \<and>
               SIMON64_Enc_ProcessAndXorBlock this' mem inBlock xorBlock outBlock = Inr (this2, mem1) \<and>
               keyed {42, 44} this1 \<and> m_rkeys this1 = m_rkeys this \<and> m_rounds this1 = m_rounds this)) \<and>
         (keyed {42, 44} this \<and> keyed {42, 44} this' \<and>
          m_rounds this = m_rounds this' \<and> m_rkeys this = m_rkeys this' \<longrightarrow>
            (\<exists>this1 this2 mem1.
               SIMON64_Dec_ProcessAndXorBlock this mem inBlock xorBlock outBlock = Inr (this1, mem1) \<and>
               SIMON64_Dec_ProcessAndXorBlock this' mem inBlock xorBlock outBlock = Inr (this2, mem1) \<and>
               keyed {42, 44} this1 \<and> m_rkeys this1 = m_rkeys this \<and> m_rounds this1 = m_rounds this)) \<and>
         (keyed {68, 69, 72} that \<and> keyed {68, 69, 72} that' \<and>
          m_rounds that = m_rounds that' \<and> m_rkeys that = m_rkeys that' \<longrightarrow>
            (\<exists>this1 this2 mem1.
               SIMON128_Enc_ProcessAndXorBlock that mem inBlock xorBlock outBlock = Inr (this1, mem1) \<and>
               SIMON128_Enc_ProcessAndXorBlock that' mem inBlock xorBlock outBlock = Inr (this2, mem1) \<and>
               keyed {68, 69, 72} this1 \<and> m_rkeys this1 = m_rkeys that \<and> m_rounds this1 = m_rounds that)) \<and>
         (keyed {68, 69, 72} that \<and> keyed {68, 69, 72} that' \<and>
          m_rounds that = m_rounds that' \<and> m_rkeys that = m_rkeys that' \<longrightarrow>
            (\<exists>this1 this2 mem1.
               SIMON128_Dec_ProcessAndXorBlock that mem inBlock xorBlock outBlock = Inr (this1, mem1) \<and>
               SIMON128_Dec_ProcessAndXorBlock that' mem inBlock xorBlock outBlock = Inr (this2, mem1) \<and>
               keyed {68, 69, 72} this1 \<and> m_rkeys this1 = m_rkeys that \<and> m_rounds this1 = m_rounds that))"
  using ProcessAndXorBlock_workspace [OF is_switch_SIMON64_Enc, of this this' 4 mem inBlock xorBlock outBlock]
    ProcessAndXorBlock_workspace [OF is_switch_SIMON64_Dec, of this this' 4 mem inBlock xorBlock outBlock]
    ProcessAndXorBlock_workspace [OF is_switch_SIMON128_Enc, of that that' 8 mem inBlock xorBlock outBlock]
    ProcessAndXorBlock_workspace [OF is_switch_SIMON128_Dec, of that that' 8 mem inBlock xorBlock outBlock]
  by (simp add: SIMON64_Enc_ProcessAndXorBlock_def SIMON64_Dec_ProcessAndXorBlock_def
      SIMON128_Enc_ProcessAndXorBlock_def SIMON128_Dec_ProcessAndXorBlock_def)

text \<open>
  C2.  For each published vector (SIMON-64 with 96 and with 128 key bits, SIMON-128
  with 128, with 192, the only odd round count, and with 256 key bits), the words of
  the key listed first to last as \<^verbatim>\<open>GetUserKey\<close> decodes them, the schedule that the
  matching subkey generation function derives in a block of \<open>R\<close> words, whatever the
  block held, and \<^verbatim>\<open>SIMON_Encrypt\<close> on the two plaintext words give the listed
  ciphertext words.
\<close>

theorem published_vectors:
  fixes junk32 :: "word32 list" and junk64 :: "word64 list"
  shows "SIMON_Encrypt 42 (0x6f722067, 0x6e696c63)
            (SIMON64_ExpandKey_42R3K (New junk32 42)
               [0x13121110, 0x0b0a0908, 0x03020100]) =
           (0x5ca2e27f, 0x111a8fc8) \<and>
         SIMON_Encrypt 44 (0x656b696c, 0x20646e75)
            (SIMON64_ExpandKey_44R4K (New junk32 44)
               [0x1b1a1918, 0x13121110, 0x0b0a0908, 0x03020100]) =
           (0x44c8fc20, 0xb9dfa07a) \<and>
         SIMON_Encrypt 68 (0x6373656420737265, 0x6c6c657661727420)
            (SIMON128_ExpandKey_68R2K (New junk64 68)
               [0x0f0e0d0c0b0a0908, 0x0706050403020100]) =
           (0x49681b1e1e54fe3f, 0x65aa832af84e0bbc) \<and>
         SIMON_Encrypt 69 (0x206572656874206e, 0x6568772065626972)
            (SIMON128_ExpandKey_69R3K (New junk64 69)
               [0x1716151413121110, 0x0f0e0d0c0b0a0908, 0x0706050403020100]) =
           (0xc4ac61effcdc0d4f, 0x6c9c8d6e2597b85b) \<and>
         SIMON_Encrypt 72 (0x74206e69206d6f6f, 0x6d69732061207369)
            (SIMON128_ExpandKey_72R4K (New junk64 72)
               [0x1f1e1d1c1b1a1918, 0x1716151413121110, 0x0f0e0d0c0b0a0908, 0x0706050403020100]) =
           (0x8d2b5579afc8a3a0, 0x3bf72a87efe7b868)"
proof -
  have "SIMON64_ExpandKey_42R3K (New junk32 42) key_42R3K = subkeys_42R3K"
    using pure_42R3K [of "New junk32 42" "replicate 42 0" key_42R3K] by (simp add: expand_42R3K)
  moreover have "SIMON64_ExpandKey_44R4K (New junk32 44) key_44R4K = subkeys_44R4K"
    using pure_44R4K [of "New junk32 44" "replicate 44 0" key_44R4K] by (simp add: expand_44R4K)
  moreover have "SIMON128_ExpandKey_68R2K (New junk64 68) key_68R2K = subkeys_68R2K"
    using pure_68R2K [of "New junk64 68" "replicate 68 0" key_68R2K] by (simp add: expand_68R2K)
  moreover have "SIMON128_ExpandKey_69R3K (New junk64 69) key_69R3K = subkeys_69R3K"
    using pure_69R3K [of "New junk64 69" "replicate 69 0" key_69R3K] by (simp add: expand_69R3K)
  moreover have "SIMON128_ExpandKey_72R4K (New junk64 72) key_72R4K = subkeys_72R4K"
    using pure_72R4K [of "New junk64 72" "replicate 72 0" key_72R4K] by (simp add: expand_72R4K)
  ultimately show ?thesis
    unfolding key_42R3K_def key_44R4K_def key_68R2K_def key_69R3K_def key_72R4K_def
    by (simp only: encrypt_42R3K encrypt_44R4K encrypt_68R2K encrypt_69R3K encrypt_72R4K simp_thms)
qed

theorem published_vectors_witness:
  "SIMON_Encrypt 69 (0x206572656874206e, 0x6568772065626972)
      (SIMON128_ExpandKey_69R3K (New [] 69)
         [0x1716151413121110, 0x0f0e0d0c0b0a0908, 0x0706050403020100]) =
     (0xc4ac61effcdc0d4f, 0x6c9c8d6e2597b85b)"
  using published_vectors [of "[]" "[]"] by simp

theorem tail_subkeys_follow_the_recurrence_witness:
  "subkeys_68R2K ! 2 =
     rhs_68R2K 0xfffffffffffffffc (drop_bit (2 - 2) 0x7369f885192c0ef5 AND 1) subkeys_68R2K 2 \<and>
   subkeys_68R2K ! 66 = rhs_68R2K 0xfffffffffffffffc 1 subkeys_68R2K 66 \<and>
   subkeys_68R2K ! 67 = rhs_68R2K 0xfffffffffffffffc 0 subkeys_68R2K 67 \<and>
   subkeys_69R3K ! 66 =
     rhs_69R3K 0xfffffffffffffffc (drop_bit (66 - 3) 0xfc2ce51207a635db AND 1) subkeys_69R3K 66 \<and>
   subkeys_69R3K ! 67 = rhs_69R3K 0xfffffffffffffffc 0 subkeys_69R3K 67 \<and>
   subkeys_69R3K ! 68 = rhs_69R3K 0xfffffffffffffffc 1 subkeys_69R3K 68 \<and>
   subkeys_72R4K ! 4 =
     rhs_72R4K 0xfffffffffffffffc (drop_bit (4 - 4) 0xfdc94c3a046d678b AND 1) subkeys_72R4K 4 \<and>
   subkeys_72R4K ! 68 = rhs_72R4K 0xfffffffffffffffc 0 subkeys_72R4K 68 \<and>
   subkeys_72R4K ! 69 = rhs_72R4K 0xfffffffffffffffc 1 subkeys_72R4K 69 \<and>
   subkeys_72R4K ! 70 = rhs_72R4K 0xfffffffffffffffc 0 subkeys_72R4K 70 \<and>
   subkeys_72R4K ! 71 = rhs_72R4K 0xfffffffffffffffc 0 subkeys_72R4K 71"
  using
    tail_subkeys_follow_the_recurrence [where key = "replicate 68 0" and k = key_68R2K and i = 2]
    tail_subkeys_follow_the_recurrence [where key = "replicate 69 0" and k = key_69R3K and i = 66]
    tail_subkeys_follow_the_recurrence [where key = "replicate 72 0" and k = key_72R4K and i = 4]
  by (simp add: expand_68R2K expand_69R3K expand_72R4K)

theorem keying_is_pure_and_the_schedule_is_kept_witness:
  "SIMON64_ExpandKey_42R3K (replicate 42 0) key_42R3K =
     SIMON64_ExpandKey_42R3K (replicate 42 5) key_42R3K \<and>
   (\<exists>inst. SIMON64_UncheckedSetKey fresh userKey_42R3K = Inr inst \<and>
      m_rounds inst = 42 \<and> length (m_rkeys inst) = 42) \<and>
   (\<exists>this1 mem1.
      SIMON64_Enc_ProcessAndXorBlock keyed_42R3K two_blocks 0 None 16 = Inr (this1, mem1) \<and>
      m_rkeys this1 = m_rkeys keyed_42R3K \<and> m_rounds this1 = m_rounds keyed_42R3K)"
proof -
  obtain this1 mem1 where
    r: "SIMON64_Enc_ProcessAndXorBlock keyed_42R3K two_blocks 0 None 16 = Inr (this1, mem1)"
    unfolding SIMON64_Enc_ProcessAndXorBlock_def
      ProcessAndXorBlock_keyed [OF is_switch_SIMON64_Enc keyed_keyed_42R3K]
    by blast
  have len: "length userKey_42R3K = 12"
    by (simp add: userKey_42R3K_def)
  note t = keying_is_pure_and_the_schedule_is_kept
    [where ?key32.0 = "replicate 42 0" and key32' = "replicate 42 5" and ?k32.0 = key_42R3K
       and ?key64.0 = "[]" and key64' = "[]" and ?k64.0 = "[]"
       and this = keyed_42R3K and this' = keyed_42R3K and ?this1.0 = this1
       and that = fresh and that' = fresh and ?that1.0 = fresh
       and userKey = userKey_42R3K and mem = two_blocks and inBlock = 0 and xorBlock = None
       and outBlock = 16 and ?mem1.0 = mem1]
  note u = keying_is_pure_and_the_schedule_is_kept
    [where ?key32.0 = "[]" and key32' = "[]" and ?k32.0 = "[]"
       and ?key64.0 = "[]" and key64' = "[]" and ?k64.0 = "[]"
       and this = fresh and this' = fresh and ?this1.0 = fresh
       and that = fresh and that' = fresh and ?that1.0 = fresh
       and userKey = userKey_42R3K and mem = two_blocks and inBlock = 0 and xorBlock = None
       and outBlock = 16 and ?mem1.0 = mem1]
  show ?thesis
    using t u r len by simp
qed

theorem in_place_output_is_out_of_place_output_witness:
  "(\<exists>this1 mem1 this2 mem2.
      SIMON64_Enc_ProcessAndXorBlock keyed_42R3K two_blocks 0 (Some 32) 0 = Inr (this1, mem1) \<and>
      SIMON64_Enc_ProcessAndXorBlock keyed_42R3K two_blocks 0 (Some 32) 16 = Inr (this2, mem2) \<and>
      load_bytes mem1 0 8 = load_bytes mem2 16 8) \<and>
   (\<exists>this1 mem1 this2 mem2.
      SIMON64_Dec_ProcessAndXorBlock keyed_42R3K two_blocks 0 (Some 32) 0 = Inr (this1, mem1) \<and>
      SIMON64_Dec_ProcessAndXorBlock keyed_42R3K two_blocks 0 (Some 32) 16 = Inr (this2, mem2) \<and>
      load_bytes mem1 0 8 = load_bytes mem2 16 8)"
  using in_place_output_is_out_of_place_output
    [where this = keyed_42R3K and that = fresh and xorBlock = "Some 32" and a = 0 and b = 16
       and mem = two_blocks]
    keyed_keyed_42R3K
  by (simp add: xor_apart_def apart_def)

text \<open>
  C9, as the specification states it.  Two calls of \<^verbatim>\<open>SIMON64::Enc::ProcessAndXorBlock\<close>
  run in parallel on the object keyed with the published 96-bit key: the call A on
  the block at 0 (the vector's plaintext) with its output at 16, the call B on the
  block at 8 (zero).  Alone, A writes the vector's ciphertext.  In the schedule
  \<open>interleaved\<close>, where B reads its block into the shared workspace after A has read
  its own, A writes the encryption of B's block instead.
\<close>

theorem parallel_calls_share_the_workspace:
  "written (SIMON64_Enc_ProcessAndXorBlock keyed_42R3K two_blocks 0 None 16) 16 8 =
     [0x5c, 0xa2, 0xe2, 0x7f, 0x11, 0x1a, 0x8f, 0xc8] \<and>
   written (interleaved 4 SIMON64_Enc_switch keyed_42R3K two_blocks 0 16 8) 16 8 =
     [0xc3, 0x27, 0x11, 0x12, 0x7d, 0x21, 0xdf, 0xa0] \<and>
   written (interleaved 4 SIMON64_Enc_switch keyed_42R3K two_blocks 0 16 8) 16 8 \<noteq>
     written (SIMON64_Enc_ProcessAndXorBlock keyed_42R3K two_blocks 0 None 16) 16 8"
  by (simp add: sequential_call interleaved_call)

theorem block_output_ignores_the_workspace_witness:
  "\<exists>this1 this2 mem1.
     SIMON64_Enc_ProcessAndXorBlock keyed_42R3K two_blocks 0 None 16 = Inr (this1, mem1) \<and>
     SIMON64_Enc_ProcessAndXorBlock (keyed_42R3K\<lparr>m_wspace := [1, 2, 3, 4]\<rparr>) two_blocks 0 None 16
       = Inr (this2, mem1) \<and>
     keyed {42, 44} this1 \<and> m_rkeys this1 = m_rkeys keyed_42R3K \<and>
     m_rounds this1 = m_rounds keyed_42R3K"
proof -
  have "keyed {42, 44} (keyed_42R3K\<lparr>m_wspace := [1, 2, 3, 4]\<rparr>)"
    using keyed_keyed_42R3K by (simp add: keyed_def)
  then show ?thesis
    using block_output_ignores_the_workspace
      [where this = keyed_42R3K and this' = "keyed_42R3K\<lparr>m_wspace := [1, 2, 3, 4]\<rparr>"
         and that = fresh and that' = fresh and mem = two_blocks and inBlock = 0
         and xorBlock = None and outBlock = 16]
      keyed_keyed_42R3K
    by simp
qed

end
